theory Spec2Isabelle
  imports Main "HOL-Library.AList" "HOL-Library.Sublist"
begin

section \<open>Python objects\<close>

text \<open>
  The module \<^verbatim>\<open>rest_framework_mongoengine/serializers.py\<close> is embedded function by
  function. Exceptions are values: every function that can raise returns
  \<open>error + 'a\<close>, with \<open>Inl\<close> carrying the exception and its text.
\<close>

datatype error =
    AssertionError string
  | TypeError string
  | me_ValidationError string
  | KeyError string
  | AttributeError string
  | ValueError string
  | ImproperlyConfigured string
  | OtherError string string

text \<open>
  A class is its module, its name and the qualified names of its proper ancestors, in
  method resolution order. \<^verbatim>\<open>issubclass\<close> and \<^verbatim>\<open>isinstance\<close> look the target's
  qualified name up in that order.
\<close>

record py_class =
  cmodule :: string
  cname :: string
  bases :: "string list"

definition qualname :: "py_class \<Rightarrow> string" where
  "qualname c = cmodule c @ ''.'' @ cname c"

definition mro :: "py_class \<Rightarrow> string list" where
  "mro c = qualname c # bases c"

definition issubclass :: "py_class \<Rightarrow> py_class \<Rightarrow> bool" where
  "issubclass c d \<longleftrightarrow> qualname d \<in> set (mro c)"

text \<open>The classes of \<^verbatim>\<open>rest_framework.serializers\<close> and of this module.\<close>

definition drf_Field :: py_class where
  "drf_Field = \<lparr>cmodule = ''rest_framework.fields'', cname = ''Field'', bases = []\<rparr>"

definition BaseSerializer :: py_class where
  "BaseSerializer = \<lparr>cmodule = ''rest_framework.serializers'', cname = ''BaseSerializer'',
     bases = mro drf_Field\<rparr>"

definition Serializer :: py_class where
  "Serializer = \<lparr>cmodule = ''rest_framework.serializers'', cname = ''Serializer'',
     bases = mro BaseSerializer\<rparr>"

definition ListSerializer :: py_class where
  "ListSerializer = \<lparr>cmodule = ''rest_framework.serializers'', cname = ''ListSerializer'',
     bases = mro BaseSerializer\<rparr>"

definition ModelSerializer :: py_class where
  "ModelSerializer = \<lparr>cmodule = ''rest_framework.serializers'', cname = ''ModelSerializer'',
     bases = mro Serializer\<rparr>"

definition DocumentSerializer :: py_class where
  "DocumentSerializer = \<lparr>cmodule = ''rest_framework_mongoengine.serializers'',
     cname = ''DocumentSerializer'', bases = mro ModelSerializer\<rparr>"

definition EmbeddedDocumentSerializer :: py_class where
  "EmbeddedDocumentSerializer = \<lparr>cmodule = ''rest_framework_mongoengine.serializers'',
     cname = ''EmbeddedDocumentSerializer'', bases = mro DocumentSerializer\<rparr>"

definition drf_ListField :: py_class where
  "drf_ListField = \<lparr>cmodule = ''rest_framework.fields'', cname = ''ListField'',
     bases = mro drf_Field\<rparr>"

definition drf_DictField :: py_class where
  "drf_DictField = \<lparr>cmodule = ''rest_framework.fields'', cname = ''DictField'',
     bases = mro drf_Field\<rparr>"

text \<open>
  \<^verbatim>\<open>rest_framework_mongoengine.fields\<close> is not among the sources. Of its \<^verbatim>\<open>DictField\<close>
  only the qualified name matters to \<^verbatim>\<open>isinstance\<close>; as a class it extends the
  framework's \<^verbatim>\<open>DictField\<close>.
\<close>

definition drfm_DictField :: py_class where
  "drfm_DictField = \<lparr>cmodule = ''rest_framework_mongoengine.fields'', cname = ''DictField'',
     bases = mro drf_DictField\<rparr>"

text \<open>
  Values of validated data: JSON-like values and document instances. A document
  instance is its model's name and its attributes, in assignment order.
\<close>

datatype pyval =
    VNone
  | VBool bool
  | VInt int
  | VStr string
  | VList "pyval list"
  | VDict "(string \<times> pyval) list"
  | VDoc document
and document =
    Document (model_of: string) (attrs: "(string \<times> pyval) list")

text \<open>\<^verbatim>\<open>value.items()\<close>: only a dict has the method.\<close>

definition py_items :: "pyval \<Rightarrow> error + (string \<times> pyval) list" where
  "py_items v =
     (case v of
        VDict kvs \<Rightarrow> Inr kvs
      | _ \<Rightarrow> Inl (AttributeError ''object has no attribute items''))"

text \<open>
  \<^verbatim>\<open>for datum in value\<close>: a list yields its elements, a dict its keys, a string its
  characters, a document its attribute names; nothing else is iterable.
\<close>

definition py_iter :: "pyval \<Rightarrow> error + pyval list" where
  "py_iter v =
     (case v of
        VList xs \<Rightarrow> Inr xs
      | VDict kvs \<Rightarrow> Inr (map (\<lambda>kv. VStr (fst kv)) kvs)
      | VStr s \<Rightarrow> Inr (map (\<lambda>c. VStr [c]) s)
      | VDoc d \<Rightarrow> Inr (map (\<lambda>kv. VStr (fst kv)) (attrs d))
      | _ \<Rightarrow> Inl (TypeError ''object is not iterable''))"

text \<open>\<^verbatim>\<open>isinstance(v, (list, dict))\<close>.\<close>

definition is_list_or_dict :: "pyval \<Rightarrow> bool" where
  "is_list_or_dict v = (case v of VList _ \<Rightarrow> True | VDict _ \<Rightarrow> True | _ \<Rightarrow> False)"

section \<open>Serializers at run time\<close>

text \<open>
  A bound serializer field as \<^verbatim>\<open>recursive_save\<close> and \<^verbatim>\<open>raise_errors_on_nested_writes\<close>
  read it: its class, its \<^verbatim>\<open>source\<close>, its \<^verbatim>\<open>child\<close> (\<open>None\<close> when the attribute is
  missing), and for a serializer its \<^verbatim>\<open>fields\<close> (\<open>sfields\<close>) and the name of \<^verbatim>\<open>Meta.model\<close>.
\<close>

datatype sfield =
  SField (fclass: py_class) (source: string) (child: "sfield option")
    (sfields: "(string \<times> sfield) list") (Meta_model: string)

definition isinstance :: "sfield \<Rightarrow> py_class \<Rightarrow> bool" where
  "isinstance f c \<longleftrightarrow> issubclass (fclass f) c"

text \<open>
  The class attribute \<^verbatim>\<open>_saving_instances\<close>: \<^verbatim>\<open>True\<close> on \<^verbatim>\<open>DocumentSerializer\<close>,
  \<^verbatim>\<open>False\<close> on \<^verbatim>\<open>EmbeddedDocumentSerializer\<close>. The subclass comes first in every method
  resolution order, so its value wins wherever it is an ancestor.
\<close>

definition saving_instances :: "py_class \<Rightarrow> bool option" where
  "saving_instances c =
     (if issubclass c EmbeddedDocumentSerializer then Some False
      else if issubclass c DocumentSerializer then Some True
      else None)"

text \<open>
  What the module takes from mongoengine: the model's constructor
  \<^verbatim>\<open>self.Meta.model(**me_data)\<close> and \<^verbatim>\<open>instance.save()\<close>, which sees the documents saved
  so far and returns the instance as saving leaves it. Both may raise.
\<close>

record env =
  model_new :: "string \<Rightarrow> (string \<times> pyval) list \<Rightarrow> error + document"
  doc_save :: "document list \<Rightarrow> document \<Rightarrow> error + document"

subsection \<open>\<^verbatim>\<open>raise_errors_on_nested_writes\<close>\<close>

definition nested_writes_msg :: "string \<Rightarrow> py_class \<Rightarrow> string" where
  "nested_writes_msg method_name c =
     ''The `.'' @ method_name @ ''()` method does not support writable nested'' @
     ''fields by default.'' @ [CHR 0x0A] @ ''Write an explicit `.'' @ method_name @
     ''()` method for serializer `'' @ cmodule c @ ''.'' @ cname c @
     ''`, or set `read_only=True` on nested serializer fields.''"

definition dotted_source_msg :: "string \<Rightarrow> py_class \<Rightarrow> string" where
  "dotted_source_msg method_name c =
     ''The `.'' @ method_name @ ''()` method does not support writable dotted-source '' @
     ''fields by default.'' @ [CHR 0x0A] @ ''Write an explicit `.'' @ method_name @
     ''()` method for serializer `'' @ cmodule c @ ''.'' @ cname c @
     ''`, or set `read_only=True` on dotted-source serializer fields.''"

definition nested_write :: "(string \<times> pyval) list \<Rightarrow> string \<times> sfield \<Rightarrow> bool" where
  "nested_write validated_data kf \<longleftrightarrow>
     isinstance (snd kf) BaseSerializer \<and>
     \<not> isinstance (snd kf) EmbeddedDocumentSerializer \<and>
     fst kf \<in> fst ` set validated_data"

definition dotted_write :: "(string \<times> pyval) list \<Rightarrow> string \<times> sfield \<Rightarrow> bool" where
  "dotted_write validated_data kf \<longleftrightarrow>
     CHR ''.'' \<in> set (source (snd kf)) \<and>
     (case map_of validated_data (fst kf) of
        None \<Rightarrow> False
      | Some v \<Rightarrow> is_list_or_dict v)"

definition raise_errors_on_nested_writes ::
    "string \<Rightarrow> sfield \<Rightarrow> (string \<times> pyval) list \<Rightarrow> error + unit" where
  "raise_errors_on_nested_writes method_name serializer validated_data =
     (if list_ex (nested_write validated_data) (sfields serializer)
      then Inl (AssertionError (nested_writes_msg method_name (fclass serializer)))
      else if list_ex (dotted_write validated_data) (sfields serializer)
      then Inl (AssertionError (dotted_source_msg method_name (fclass serializer)))
      else Inr ())"

subsection \<open>\<^verbatim>\<open>recursive_save\<close>\<close>

text \<open>
  \<^verbatim>\<open>for key, value in me_data.items(): setattr(instance, key, value)\<close>: an attribute
  that exists is overwritten in place, a new one is added.
\<close>

definition setattrs :: "document \<Rightarrow> (string \<times> pyval) list \<Rightarrow> document" where
  "setattrs d me_data =
     Document (model_of d) (fold (\<lambda>kv. AList.update (fst kv) (snd kv)) me_data (attrs d))"

text \<open>
  \<^verbatim>\<open>if not instance\<close> is a truth test. \<^verbatim>\<open>None\<close> is false, and so is a mongoengine
  document without data: its class defines \<^verbatim>\<open>__len__\<close> as the number of entries of its
  data. A document with a declared field has an entry for it, so only a document
  without any field, declared or dynamic, is false.
\<close>

definition instance_truthy :: "document option \<Rightarrow> bool" where
  "instance_truthy inst = (case inst of None \<Rightarrow> False | Some i \<Rightarrow> attrs i \<noteq> [])"

text \<open>
  \<^verbatim>\<open>if self._saving_instances: instance.save()\<close> and \<^verbatim>\<open>return instance\<close>: the instance
  returned or the exception, the instance as the call leaves it, and the documents
  saved.
\<close>

definition save_if_needed ::
    "env \<Rightarrow> sfield \<Rightarrow> document \<Rightarrow> document list
       \<Rightarrow> (error + document) \<times> document \<times> document list" where
  "save_if_needed E self i db =
     (case saving_instances (fclass self) of
        None \<Rightarrow> (Inl (AttributeError ''_saving_instances''), i, db)
      | Some False \<Rightarrow> (Inr i, i, db)
      | Some True \<Rightarrow>
          (case doc_save E db i of
             Inl e \<Rightarrow> (Inl e, i, db)
           | Inr i' \<Rightarrow> (Inr i', i', db @ [i'])))"

text \<open>
  The end of \<^verbatim>\<open>recursive_save\<close>: create (if needed), save (if needed) and return the
  instance. The second component of the result is the instance the caller passed, as
  the call leaves it: assigned to and saved when it is true, untouched when it is
  false and a new instance is constructed instead.
\<close>

definition finish ::
    "env \<Rightarrow> sfield \<Rightarrow> (string \<times> pyval) list \<Rightarrow> document option \<Rightarrow> document list
       \<Rightarrow> (error + document) \<times> document option \<times> document list" where
  "finish E self me_data inst db =
     (if \<not> instance_truthy inst then
        (case model_new E (Meta_model self) me_data of
           Inl e \<Rightarrow> (Inl e, inst, db)
         | Inr i \<Rightarrow>
             (case save_if_needed E self i db of
                (r, _, db1) \<Rightarrow> (r, inst, db1)))
      else
        (case save_if_needed E self (setattrs (the inst) me_data) db of
           (r, i, db1) \<Rightarrow> (r, Some i, db1)))"

text \<open>\<^verbatim>\<open>except KeyError: me_data[key] = value\<close>, around the whole loop body.\<close>

definition except_KeyError ::
    "pyval \<Rightarrow> (error + pyval) \<times> document list \<Rightarrow> (error + pyval) \<times> document list" where
  "except_KeyError v r = (case r of (Inl (KeyError _), db) \<Rightarrow> (Inr v, db) | _ \<Rightarrow> r)"

text \<open>
  The \<^verbatim>\<open>if\<close>/\<^verbatim>\<open>elif\<close> chain of the loop body, in the source's order. Reading
  \<^verbatim>\<open>field.child\<close> of a list field that has none raises; the dict branch asks
  \<^verbatim>\<open>hasattr(field, "child")\<close> first.
\<close>

datatype branch = Embedded | ListOf sfield | DictOf sfield | Plain | Raises error

definition field_branch :: "sfield \<Rightarrow> branch" where
  "field_branch field =
     (if isinstance field EmbeddedDocumentSerializer then Embedded
      else if (isinstance field ListSerializer \<or> isinstance field drf_ListField) \<and>
              child field = None
      then Raises (AttributeError ''child'')
      else if (isinstance field ListSerializer \<or> isinstance field drf_ListField) \<and>
              isinstance (the (child field)) EmbeddedDocumentSerializer
      then ListOf (the (child field))
      else if isinstance field drfm_DictField \<and> child field \<noteq> None \<and>
              isinstance (the (child field)) EmbeddedDocumentSerializer
      then DictOf (the (child field))
      else Plain)"

lemma sfields_size:
  "map_of fs k = Some f \<Longrightarrow> size f < Suc (size_list (size_prod (\<lambda>x. 0) size) fs)"
  by (induction fs) (auto split: if_splits)

lemma map_of_size: "map_of (sfields s) k = Some f \<Longrightarrow> size f < size s"
  by (cases s) (auto dest: sfields_size)

lemma field_branch_ListOf_size: "field_branch f = ListOf c \<Longrightarrow> size c < size f"
  by (cases f) (auto simp: field_branch_def split: if_splits)

lemma field_branch_DictOf_size: "field_branch f = DictOf c \<Longrightarrow> size c < size f"
  by (cases f) (auto simp: field_branch_def split: if_splits)

text \<open>
  \<^verbatim>\<open>recursive_save\<close> with its loops: \<open>save_items\<close> is the loop over
  \<^verbatim>\<open>validated_data.items()\<close> building \<^verbatim>\<open>me_data\<close>, \<open>save_item\<close> its body,
  \<open>save_list\<close> and \<open>save_dict\<close> the inner loops over a list and over a dict of
  embedded documents. The documents saved so far are threaded through every call.
\<close>

function recursive_save ::
    "env \<Rightarrow> sfield \<Rightarrow> pyval \<Rightarrow> document option \<Rightarrow> document list
       \<Rightarrow> (error + document) \<times> document option \<times> document list"
  and save_items ::
    "env \<Rightarrow> sfield \<Rightarrow> (string \<times> pyval) list \<Rightarrow> (string \<times> pyval) list \<Rightarrow> document list
       \<Rightarrow> (error + (string \<times> pyval) list) \<times> document list"
  and save_item ::
    "env \<Rightarrow> sfield \<Rightarrow> string \<Rightarrow> pyval \<Rightarrow> document list \<Rightarrow> (error + pyval) \<times> document list"
  and save_list ::
    "env \<Rightarrow> sfield \<Rightarrow> pyval list \<Rightarrow> pyval list \<Rightarrow> document list
       \<Rightarrow> (error + pyval) \<times> document list"
  and save_dict ::
    "env \<Rightarrow> sfield \<Rightarrow> (string \<times> pyval) list \<Rightarrow> (string \<times> pyval) list \<Rightarrow> document list
       \<Rightarrow> (error + pyval) \<times> document list"
where
  "recursive_save E self validated_data inst db =
     (case py_items validated_data of
        Inl e \<Rightarrow> (Inl e, inst, db)
      | Inr items \<Rightarrow>
          (case save_items E self items [] db of
             (Inl e, db1) \<Rightarrow> (Inl e, inst, db1)
           | (Inr me_data, db1) \<Rightarrow> finish E self me_data inst db1))"
| "save_items E self [] me_data db = (Inr me_data, db)"
| "save_items E self (kv # rest) me_data db =
     (case save_item E self (fst kv) (snd kv) db of
        (Inl e, db1) \<Rightarrow> (Inl e, db1)
      | (Inr x, db1) \<Rightarrow> save_items E self rest (AList.update (fst kv) x me_data) db1)"
| "save_item E self key v db =
     (case map_of (sfields self) key of
        None \<Rightarrow> (Inr v, db)
      | Some field \<Rightarrow>
          except_KeyError v
            (case field_branch field of
               Embedded \<Rightarrow>
                 (case recursive_save E field v None db of
                    (Inl e, _, db1) \<Rightarrow> (Inl e, db1)
                  | (Inr d, _, db1) \<Rightarrow> (Inr (VDoc d), db1))
             | ListOf c \<Rightarrow>
                 (case py_iter v of
                    Inl e \<Rightarrow> (Inl e, db)
                  | Inr data \<Rightarrow> save_list E c data [] db)
             | DictOf c \<Rightarrow>
                 (case py_items v of
                    Inl e \<Rightarrow> (Inl e, db)
                  | Inr kvs \<Rightarrow> save_dict E c kvs [] db)
             | Plain \<Rightarrow> (Inr v, db)
             | Raises e \<Rightarrow> (Inl e, db)))"
| "save_list E c [] acc db = (Inr (VList acc), db)"
| "save_list E c (datum # data) acc db =
     (case recursive_save E c datum None db of
        (Inl e, _, db1) \<Rightarrow> (Inl e, db1)
      | (Inr d, _, db1) \<Rightarrow> save_list E c data (acc @ [VDoc d]) db1)"
| "save_dict E c [] acc db = (Inr (VDict acc), db)"
| "save_dict E c (kv # kvs) acc db =
     (case recursive_save E c (snd kv) None db of
        (Inl e, _, db1) \<Rightarrow> (Inl e, db1)
      | (Inr d, _, db1) \<Rightarrow> save_dict E c kvs (AList.update (fst kv) (VDoc d) acc) db1)"
  by pat_completeness auto
termination
proof (relation "inv_image (less_than <*lex*> less_than) (\<lambda>x. case x of
      Inl (Inl (E, s, v, i, db)) \<Rightarrow> (3 * size s + 2, 0)
    | Inl (Inr (E, s, items, me, db)) \<Rightarrow> (3 * size s + 1, length items)
    | Inr (Inl (E, s, k, v, db)) \<Rightarrow> (3 * size s, 0)
    | Inr (Inr (Inl (E, c, xs, acc, db))) \<Rightarrow> (3 * size c + 3, length xs)
    | Inr (Inr (Inr (E, c, kvs, acc, db))) \<Rightarrow> (3 * size c + 3, length kvs))",
    goal_cases)
  case (5 E self key v db x2)
  then show ?case using map_of_size [of self key x2] by simp
next
  case (6 E self key v db x2 x2a b)
  then show ?case
    using map_of_size [of self key x2] field_branch_ListOf_size [of x2 x2a] by simp
next
  case (7 E self key v db x2 x3 b)
  then show ?case
    using map_of_size [of self key x2] field_branch_DictOf_size [of x2 x3] by simp
qed auto

declare recursive_save.simps [simp del] save_item.simps [simp del]

text \<open>
  The conversion of one key as the specification words it, to compare the loop with:
  \<open>converts_to E s db k v x\<close> says that the specification maps the value \<open>v\<close> of the key
  \<open>k\<close> to \<open>x\<close>. A key without a serializer field keeps its value. A key whose field is
  an \<^verbatim>\<open>EmbeddedDocumentSerializer\<close> maps to the document that field's \<^verbatim>\<open>recursive_save\<close>
  returns. A key whose field is a \<^verbatim>\<open>ListSerializer\<close> or \<^verbatim>\<open>ListField\<close> with an
  \<^verbatim>\<open>EmbeddedDocumentSerializer\<close> child maps a list to the list of the child's documents,
  in order. A key whose field is a \<^verbatim>\<open>DictField\<close> with such a child maps a dict to the
  dict of the child's documents under the same keys. Every other key keeps its value.
  The cases are read in the order in which the specification lists them.
\<close>

inductive converts_to ::
    "env \<Rightarrow> sfield \<Rightarrow> document list \<Rightarrow> string \<Rightarrow> pyval \<Rightarrow> pyval \<Rightarrow> bool"
  for E :: env and s :: sfield and db :: "document list"
where
  dynamic: "map_of (sfields s) k = None \<Longrightarrow> converts_to E s db k v v"
| embedded:
    "map_of (sfields s) k = Some f \<Longrightarrow> isinstance f EmbeddedDocumentSerializer \<Longrightarrow>
     fst (recursive_save E f v None db) = Inr d \<Longrightarrow>
     converts_to E s db k v (VDoc d)"
| list_of:
    "map_of (sfields s) k = Some f \<Longrightarrow> \<not> isinstance f EmbeddedDocumentSerializer \<Longrightarrow>
     isinstance f ListSerializer \<or> isinstance f drf_ListField \<Longrightarrow>
     child f = Some c \<Longrightarrow> isinstance c EmbeddedDocumentSerializer \<Longrightarrow>
     list_all2 (\<lambda>x d. fst (recursive_save E c x None db) = Inr d) xs ds \<Longrightarrow>
     converts_to E s db k (VList xs) (VList (map VDoc ds))"
| dict_of:
    "map_of (sfields s) k = Some f \<Longrightarrow> \<not> isinstance f EmbeddedDocumentSerializer \<Longrightarrow>
     \<not> (isinstance f ListSerializer \<or> isinstance f drf_ListField) \<Longrightarrow>
     isinstance f drfm_DictField \<Longrightarrow>
     child f = Some c \<Longrightarrow> isinstance c EmbeddedDocumentSerializer \<Longrightarrow>
     distinct (map fst kvs) \<Longrightarrow>
     list_all2 (\<lambda>kv d. fst (recursive_save E c (snd kv) None db) = Inr d) kvs ds \<Longrightarrow>
     converts_to E s db k (VDict kvs) (VDict (zip (map fst kvs) (map VDoc ds)))"
| other:
    "map_of (sfields s) k = Some f \<Longrightarrow> \<not> isinstance f EmbeddedDocumentSerializer \<Longrightarrow>
     \<not> ((isinstance f ListSerializer \<or> isinstance f drf_ListField) \<and>
        (child f = None \<or> (\<exists>c. child f = Some c \<and> isinstance c EmbeddedDocumentSerializer))) \<Longrightarrow>
     \<not> (isinstance f drfm_DictField \<and>
        (\<exists>c. child f = Some c \<and> isinstance c EmbeddedDocumentSerializer)) \<Longrightarrow>
     converts_to E s db k v v"

subsection \<open>\<^verbatim>\<open>create\<close> and \<^verbatim>\<open>update\<close>\<close>

definition create_TypeError_msg :: "string \<Rightarrow> string \<Rightarrow> string \<Rightarrow> string" where
  "create_TypeError_msg model_name serializer_name exc =
     ''Got a `TypeError` when calling `'' @ model_name @ ''.objects.create()`. '' @
     ''This may be because you have a writable field on the '' @
     ''serializer class that is not a valid argument to '' @
     ''`'' @ model_name @ ''.objects.create()`. You may need to make the field '' @
     ''read-only, or override the '' @ serializer_name @ ''.create() method to handle '' @
     ''this correctly.'' @ [CHR 0x0A] @ ''Original exception text was: '' @ exc @ ''.''"

definition create_ValidationError_msg :: "string \<Rightarrow> string \<Rightarrow> string \<Rightarrow> string" where
  "create_ValidationError_msg model_name serializer_name exc =
     ''Got a `ValidationError` when calling `'' @ model_name @ ''.objects.create()`. '' @
     ''This may be because request data satisfies serializer validations '' @
     ''but not Mongoengine`s. You may need to check consistency between '' @
     model_name @ '' and '' @ serializer_name @ ''.'' @ [CHR 0x0A] @
     ''If that is not the case, please open a ticket '' @
     ''regarding this issue on https://github.com/umutbozkurt/django-rest-framework-mongoengine/issues'' @
     [CHR 0x0A] @ ''Original exception was: '' @ exc"

text \<open>
  \<^verbatim>\<open>create\<close> returns the instance or the exception, and the documents saved.
\<close>

definition create ::
    "env \<Rightarrow> sfield \<Rightarrow> (string \<times> pyval) list \<Rightarrow> document list
       \<Rightarrow> (error + document) \<times> document list" where
  "create E self validated_data db =
     (case raise_errors_on_nested_writes ''create'' self validated_data of
        Inl e \<Rightarrow> (Inl e, db)
      | Inr _ \<Rightarrow>
          (case recursive_save E self (VDict validated_data) None db of
             (Inr i, _, db1) \<Rightarrow> (Inr i, db1)
           | (Inl (TypeError exc), _, db1) \<Rightarrow>
               (Inl (TypeError
                  (create_TypeError_msg (Meta_model self) (cname (fclass self)) exc)), db1)
           | (Inl (me_ValidationError exc), _, db1) \<Rightarrow>
               (Inl (me_ValidationError
                  (create_ValidationError_msg (Meta_model self) (cname (fclass self)) exc)), db1)
           | (Inl e, _, db1) \<Rightarrow> (Inl e, db1)))"

text \<open>
  \<^verbatim>\<open>update\<close> returns the instance or the exception, the instance passed as the call
  leaves it, and the documents saved.
\<close>

definition update ::
    "env \<Rightarrow> sfield \<Rightarrow> document \<Rightarrow> (string \<times> pyval) list \<Rightarrow> document list
       \<Rightarrow> (error + document) \<times> document option \<times> document list" where
  "update E self inst validated_data db =
     (case raise_errors_on_nested_writes ''update'' self validated_data of
        Inl e \<Rightarrow> (Inl e, Some inst, db)
      | Inr _ \<Rightarrow> recursive_save E self (VDict validated_data) (Some inst) db)"

subsection \<open>A book serializer, for the examples\<close>

text \<open>
  A mongoengine whose constructor rejects the keyword \<^verbatim>\<open>bogus\<close> with a
  \<^verbatim>\<open>TypeError\<close> and whose \<^verbatim>\<open>save\<close> validates that a title is present.
\<close>

definition ex_env :: env where
  "ex_env = \<lparr>
     model_new = (\<lambda>m kw.
       if map_of kw ''bogus'' \<noteq> None then Inl (TypeError ''unexpected keyword bogus'')
       else Inr (Document m kw)),
     doc_save = (\<lambda>db d.
       if map_of (attrs d) ''title'' = Some VNone
       then Inl (me_ValidationError ''title is required'')
       else Inr d)\<rparr>"

text \<open>
  The serializer of an embedded document class without declared fields, as a dynamic
  embedded document may be.
\<close>

definition ex_settings :: sfield where
  "ex_settings =
     SField \<lparr>cmodule = ''library.serializers'', cname = ''SettingsSerializer'',
              bases = mro EmbeddedDocumentSerializer\<rparr>
       '''' None [] ''Settings''"

definition ex_char_field :: sfield where
  "ex_char_field =
     SField \<lparr>cmodule = ''rest_framework.fields'', cname = ''CharField'', bases = mro drf_Field\<rparr>
       ''title'' None [] ''''"

definition ex_address :: sfield where
  "ex_address =
     SField \<lparr>cmodule = ''rest_framework_mongoengine.serializers'', cname = ''EmbeddedSerializer'',
              bases = mro EmbeddedDocumentSerializer\<rparr>
       ''address'' None [(''city'', ex_char_field)] ''Address''"

definition ex_author :: sfield where
  "ex_author =
     SField \<lparr>cmodule = ''rest_framework_mongoengine.serializers'', cname = ''NestedSerializer'',
              bases = mro DocumentSerializer\<rparr>
       ''author'' None [(''name'', ex_char_field)] ''Author''"

definition ex_offices :: sfield where
  "ex_offices = SField drf_ListField ''offices'' (Some ex_address) [] ''''"

definition ex_branches :: sfield where
  "ex_branches = SField drfm_DictField ''branches'' (Some ex_address) [] ''''"

definition ex_book :: sfield where
  "ex_book =
     SField \<lparr>cmodule = ''library.serializers'', cname = ''BookSerializer'',
              bases = mro DocumentSerializer\<rparr>
       '''' None
       [(''title'', ex_char_field), (''author'', ex_author), (''address'', ex_address),
        (''offices'', ex_offices), (''branches'', ex_branches)]
       ''Book''"

section \<open>Deriving the serializer's fields from a document model\<close>

subsection \<open>Model metadata\<close>

text \<open>An attribute that may be missing, as \<^verbatim>\<open>hasattr\<close> and \<^verbatim>\<open>getattr\<close> see it.\<close>

datatype 'a attr = Missing | Attr 'a

definition getattr :: "'a attr \<Rightarrow> 'a \<Rightarrow> 'a" where
  "getattr a d = (case a of Missing \<Rightarrow> d | Attr x \<Rightarrow> x)"

text \<open>
  A mongoengine field of a model: its name, its class, the model that owns it and its
  default. A model class is referred to by its name.
\<close>

record model_field =
  name :: string
  field_class :: py_class
  owner_document :: string
  field_default :: pyval

record relation_info =
  rel_model_field :: model_field
  related_model :: "string option"

text \<open>
  The \<^verbatim>\<open>FieldInfo\<close> tuple \<^verbatim>\<open>get_field_info\<close> returns; \<open>info_fields\<close> is its
  \<^verbatim>\<open>fields\<close>. The primary key is \<^verbatim>\<open>None\<close> for an embedded document, and then so is
  the \<^verbatim>\<open>pk\<close> entry of \<^verbatim>\<open>fields_and_pk\<close>.
\<close>

record field_info =
  pk :: "model_field option"
  info_fields :: "(string \<times> model_field) list"
  references :: "(string \<times> relation_info) list"
  fields_and_pk :: "(string \<times> model_field option) list"
  embedded :: "(string \<times> relation_info) list"

text \<open>An entry of \<^verbatim>\<open>model._meta['index_specs']\<close>; \<open>unique\<close> is \<open>None\<close> when the key is absent.\<close>

record index_spec =
  idx_fields :: "(string \<times> int) list"
  unique :: "bool option"

subsection \<open>Serializer classes and fields\<close>

text \<open>\<^verbatim>\<open>Meta.fields\<close>: \<^verbatim>\<open>'__all__'\<close> or a list of names.\<close>

datatype meta_fields = ALL_FIELDS | Names "string list"

text \<open>
  The inner class \<^verbatim>\<open>Meta\<close>. \<^verbatim>\<open>model\<close>, \<^verbatim>\<open>depth\<close> and \<^verbatim>\<open>depth_embedding\<close> may be
  missing, and may be \<^verbatim>\<open>None\<close>.
\<close>

record meta =
  model :: "string option attr"
  depth :: "int option attr"
  depth_embedding :: "int option attr"
  meta_fields :: meta_fields

text \<open>A serializer-field class: the class, and its \<^verbatim>\<open>Meta\<close> when it has one.\<close>

record field_class =
  cls :: py_class
  Meta :: "meta option"

datatype validator =
    UniqueValidator string
  | UniqueTogetherValidator string "string list"

text \<open>
  Keyword arguments of a field constructor, and the field \<^verbatim>\<open>field_class(**field_kwargs)\<close>
  creates. A keyword value is a plain value, a model field, a list of validators,
  some other object, or a field (the \<^verbatim>\<open>child\<close> of a compound field).
\<close>

datatype kwval =
    KVal pyval
  | KModelField model_field
  | KValidators "validator list"
  | KObj string
  | KField field
and field =
    Field (class_of: field_class) (kwargs_of: "(string \<times> kwval) list")

type_synonym kwargs = "(string \<times> kwval) list"

definition py_truthy :: "pyval \<Rightarrow> bool" where
  "py_truthy v =
     (case v of
        VNone \<Rightarrow> False
      | VBool b \<Rightarrow> b
      | VInt i \<Rightarrow> i \<noteq> 0
      | VStr s \<Rightarrow> s \<noteq> []
      | VList xs \<Rightarrow> xs \<noteq> []
      | VDict kvs \<Rightarrow> kvs \<noteq> []
      | VDoc d \<Rightarrow> True)"

definition kw_truthy :: "kwval \<Rightarrow> bool" where
  "kw_truthy v =
     (case v of
        KVal x \<Rightarrow> py_truthy x
      | KValidators vs \<Rightarrow> vs \<noteq> []
      | _ \<Rightarrow> True)"

text \<open>\<^verbatim>\<open>d.pop(key, None)\<close> and \<^verbatim>\<open>key in d\<close>.\<close>

definition pop :: "string \<Rightarrow> kwargs \<Rightarrow> kwargs" where
  "pop key d = AList.delete key d"

definition has_key :: "(string \<times> 'a) list \<Rightarrow> string \<Rightarrow> bool" where
  "has_key d key \<longleftrightarrow> map_of d key \<noteq> None"

text \<open>The truth value of \<^verbatim>\<open>d.get(key, False)\<close>.\<close>

definition kw_true :: "kwargs \<Rightarrow> string \<Rightarrow> bool" where
  "kw_true d key = (case map_of d key of None \<Rightarrow> False | Some v \<Rightarrow> kw_truthy v)"

text \<open>
  The serializer built: its class with \<^verbatim>\<open>Meta\<close>, its declared fields, and what the
  framework's \<^verbatim>\<open>get_extra_kwargs\<close> does for it: it returns the extra kwargs of
  \<^verbatim>\<open>Meta\<close>, or raises on a \<^verbatim>\<open>Meta\<close> it does not accept.
\<close>

record serializer =
  ser_class :: field_class
  declared_fields :: "(string \<times> field) list"
  get_extra_kwargs :: "error + (string \<times> kwargs) list"

subsection \<open>What the module imports\<close>

text \<open>
  \<^verbatim>\<open>utils.py\<close> and \<^verbatim>\<open>fields.py\<close> of the package are not among the sources, and the
  models are the user's: the helpers of \<^verbatim>\<open>utils\<close>, what a model class answers
  (\<^verbatim>\<open>hasattr\<close>, its index specifications, its \<^verbatim>\<open>_fields\<close>) and the classes of
  \<^verbatim>\<open>drfm_fields\<close> are parameters. So is what the module calls in the framework:
  \<^verbatim>\<open>include_extra_kwargs\<close>; the constructors of the field classes (\<open>init_field\<close> is the
  exception the constructor of a class raises on given keyword arguments, \<open>None\<close> when
  it returns); and \<^verbatim>\<open>ModelSerializer.get_field_names\<close>, which reads \<^verbatim>\<open>Meta.fields\<close>
  and \<^verbatim>\<open>Meta.exclude\<close>, asserts on them and on the declared fields, and asks the
  serializer's own \<^verbatim>\<open>get_default_field_names\<close> for the default names
  (\<open>super_get_field_names\<close>, given the serializer, its \<^verbatim>\<open>Meta\<close>, the declared fields
  and what \<^verbatim>\<open>get_default_field_names\<close> would return).
\<close>

record ctx =
  init_field :: "field_class \<Rightarrow> kwargs \<Rightarrow> error option"
  super_get_field_names ::
    "serializer \<Rightarrow> meta \<Rightarrow> (string \<times> field) list \<Rightarrow> error + string list \<Rightarrow> error + string list"
  get_field_info :: "string \<Rightarrow> field_info"
  get_field_kwargs :: "string \<Rightarrow> model_field \<Rightarrow> kwargs"
  get_relation_kwargs :: "string \<Rightarrow> relation_info \<Rightarrow> kwargs"
  get_nested_relation_kwargs :: "string \<Rightarrow> relation_info \<Rightarrow> kwargs"
  get_generic_embedded_kwargs :: "string \<Rightarrow> relation_info \<Rightarrow> kwargs"
  get_nested_embedded_kwargs :: "string \<Rightarrow> relation_info \<Rightarrow> kwargs"
  has_default :: "model_field \<Rightarrow> bool"
  is_abstract_model :: "string \<Rightarrow> bool"
  include_extra_kwargs :: "kwargs \<Rightarrow> kwargs \<Rightarrow> kwargs"
  model_hasattr :: "string \<Rightarrow> string \<Rightarrow> bool"
  model_index_specs :: "string \<Rightarrow> index_spec list"
  model_fields :: "string \<Rightarrow> (string \<times> model_field) list"
  drfm_ObjectIdField :: py_class
  drfm_FileField :: py_class
  drfm_ImageField :: py_class
  drfm_GeoPointField :: py_class
  drfm_GeoJSONField :: py_class
  drfm_DynamicField :: py_class
  drfm_DocumentField :: py_class
  drfm_ReferenceField :: py_class
  drfm_GenericReferenceField :: py_class
  drfm_GenericEmbeddedDocumentField :: py_class

text \<open>The classes of \<^verbatim>\<open>rest_framework.fields\<close> the module names.\<close>

definition drf_class :: "string \<Rightarrow> string list \<Rightarrow> py_class" where
  "drf_class n supers = \<lparr>cmodule = ''rest_framework.fields'', cname = n, bases = supers\<rparr>"

definition drf_CharField :: py_class where
  "drf_CharField = drf_class ''CharField'' (mro drf_Field)"

definition drf_URLField :: py_class where
  "drf_URLField = drf_class ''URLField'' (mro drf_CharField)"

definition drf_EmailField :: py_class where
  "drf_EmailField = drf_class ''EmailField'' (mro drf_CharField)"

definition drf_RegexField :: py_class where
  "drf_RegexField = drf_class ''RegexField'' (mro drf_CharField)"

definition drf_IntegerField :: py_class where
  "drf_IntegerField = drf_class ''IntegerField'' (mro drf_Field)"

definition drf_FloatField :: py_class where
  "drf_FloatField = drf_class ''FloatField'' (mro drf_Field)"

definition drf_DecimalField :: py_class where
  "drf_DecimalField = drf_class ''DecimalField'' (mro drf_Field)"

definition drf_BooleanField :: py_class where
  "drf_BooleanField = drf_class ''BooleanField'' (mro drf_Field)"

definition drf_NullBooleanField :: py_class where
  "drf_NullBooleanField = drf_class ''NullBooleanField'' (mro drf_Field)"

definition drf_DateTimeField :: py_class where
  "drf_DateTimeField = drf_class ''DateTimeField'' (mro drf_Field)"

definition drf_UUIDField :: py_class where
  "drf_UUIDField = drf_class ''UUIDField'' (mro drf_Field)"

definition drf_ChoiceField :: py_class where
  "drf_ChoiceField = drf_class ''ChoiceField'' (mro drf_Field)"

definition drf_HiddenField :: py_class where
  "drf_HiddenField = drf_class ''HiddenField'' (mro drf_Field)"

definition drf_ReadOnlyField :: py_class where
  "drf_ReadOnlyField = drf_class ''ReadOnlyField'' (mro drf_Field)"

text \<open>The two mongoengine classes \<^verbatim>\<open>build_compound_field\<close> tests for.\<close>

definition me_ListField :: py_class where
  "me_ListField = \<lparr>cmodule = ''me_fields'', cname = ''ListField'',
     bases = [''me_fields.ComplexBaseField'', ''me_fields.BaseField'']\<rparr>"

definition me_DictField :: py_class where
  "me_DictField = \<lparr>cmodule = ''me_fields'', cname = ''DictField'',
     bases = [''me_fields.ComplexBaseField'', ''me_fields.BaseField'']\<rparr>"

text \<open>
  Modelled from the spec: \<^verbatim>\<open>COMPOUND_FIELD_TYPES\<close> of \<^verbatim>\<open>utils.py\<close>, which is not among
  the sources; the spec's compound fields are the list and the dict field.
\<close>

definition COMPOUND_FIELD_TYPES :: "py_class list" where
  "COMPOUND_FIELD_TYPES = [me_DictField, me_ListField]"

text \<open>\<^verbatim>\<open>isinstance(model_field, classes)\<close>.\<close>

definition isinstance_mf :: "model_field \<Rightarrow> py_class list \<Rightarrow> bool" where
  "isinstance_mf model_field classes \<longleftrightarrow>
     list_ex (\<lambda>c. issubclass (field_class model_field) c) classes"

text \<open>A plain class as a serializer-field class, and \<^verbatim>\<open>issubclass\<close> on such.\<close>

definition plain :: "py_class \<Rightarrow> field_class" where
  "plain c = \<lparr>cls = c, Meta = None\<rparr>"

subsection \<open>The class attributes of \<^verbatim>\<open>DocumentSerializer\<close>\<close>

definition serializer_field_mapping :: "ctx \<Rightarrow> (string \<times> py_class) list" where
  "serializer_field_mapping C =
     [(''me_fields.StringField'', drf_CharField),
      (''me_fields.URLField'', drf_URLField),
      (''me_fields.EmailField'', drf_EmailField),
      (''me_fields.IntField'', drf_IntegerField),
      (''me_fields.LongField'', drf_IntegerField),
      (''me_fields.FloatField'', drf_FloatField),
      (''me_fields.DecimalField'', drf_DecimalField),
      (''me_fields.BooleanField'', drf_BooleanField),
      (''me_fields.DateTimeField'', drf_DateTimeField),
      (''me_fields.ComplexDateTimeField'', drf_DateTimeField),
      (''me_fields.ObjectIdField'', drfm_ObjectIdField C),
      (''me_fields.FileField'', drfm_FileField C),
      (''me_fields.ImageField'', drfm_ImageField C),
      (''me_fields.SequenceField'', drf_IntegerField),
      (''me_fields.UUIDField'', drf_UUIDField),
      (''me_fields.GeoPointField'', drfm_GeoPointField C),
      (''me_fields.GeoJsonBaseField'', drfm_GeoJSONField C),
      (''me_fields.DynamicField'', drfm_DynamicField C),
      (''me_fields.BaseField'', drfm_DocumentField C)]"

definition serializer_reference_field :: "ctx \<Rightarrow> py_class" where
  "serializer_reference_field C = drfm_ReferenceField C"

definition serializer_reference_generic :: "ctx \<Rightarrow> py_class" where
  "serializer_reference_generic C = drfm_GenericReferenceField C"

definition serializer_embedded_generic :: "ctx \<Rightarrow> py_class" where
  "serializer_embedded_generic C = drfm_GenericEmbeddedDocumentField C"

definition serializer_embedded_bottom :: py_class where
  "serializer_embedded_bottom = drf_HiddenField"

text \<open>\<^verbatim>\<open>serializer_choice_field\<close> is inherited from the framework's \<^verbatim>\<open>ModelSerializer\<close>.\<close>

definition serializer_choice_field :: py_class where
  "serializer_choice_field = drf_ChoiceField"

text \<open>
  The framework's \<^verbatim>\<open>ClassLookupDict\<close>: the value of the first class in the object's
  method resolution order that is a key. The object \<^verbatim>\<open>None\<close> has no key.
\<close>

fun lookup_mro :: "(string \<times> 'a) list \<Rightarrow> string list \<Rightarrow> 'a option" where
  "lookup_mro mapping [] = None"
| "lookup_mro mapping (n # ns) =
     (case map_of mapping n of
        Some v \<Rightarrow> Some v
      | None \<Rightarrow> lookup_mro mapping ns)"

definition ClassLookupDict_getitem ::
    "(string \<times> 'a) list \<Rightarrow> model_field option \<Rightarrow> error + 'a" where
  "ClassLookupDict_getitem mapping model_field =
     (case model_field of
        None \<Rightarrow> Inl (KeyError ''Class NoneType not found in lookup.'')
      | Some f \<Rightarrow>
          (case lookup_mro mapping (mro (field_class f)) of
             None \<Rightarrow>
               Inl (KeyError (''Class '' @ cname (field_class f) @ '' not found in lookup.''))
           | Some v \<Rightarrow> Inr v))"

subsection \<open>The field builders\<close>

text \<open>\<^verbatim>\<open>field_class(**field_kwargs)\<close>: the field, unless the constructor raises.\<close>

definition instantiate :: "ctx \<Rightarrow> field_class \<Rightarrow> kwargs \<Rightarrow> error + field" where
  "instantiate C class_built field_kwargs =
     (case init_field C class_built field_kwargs of
        Some e \<Rightarrow> Inl e
      | None \<Rightarrow> Inr (Field class_built field_kwargs))"

text \<open>The two builders inherited from the framework's \<^verbatim>\<open>ModelSerializer\<close>.\<close>

definition build_property_field :: "string \<Rightarrow> string \<Rightarrow> error + field_class \<times> kwargs" where
  "build_property_field field_name model_class = Inr (plain drf_ReadOnlyField, [])"

definition build_unknown_field :: "string \<Rightarrow> string \<Rightarrow> error + field_class \<times> kwargs" where
  "build_unknown_field field_name model_class =
     Inl (ImproperlyConfigured
       (''Field name `'' @ field_name @ ''` is not valid for model `'' @ model_class @ ''`.''))"

text \<open>
  \<^verbatim>\<open>build_standard_field\<close>, statement by statement: the class of the field mapping,
  the kwargs of \<^verbatim>\<open>get_field_kwargs\<close>, then the steps for \<^verbatim>\<open>choices\<close>, for \<^verbatim>\<open>regex\<close>,
  for \<^verbatim>\<open>model_field\<close>, for \<^verbatim>\<open>allow_blank\<close> and for a nullable boolean. For the model
  field \<^verbatim>\<open>None\<close> the lookup raises, so the helper is never called on it.
\<close>

definition valid_kwargs :: "string list" where
  "valid_kwargs =
     [''read_only'', ''write_only'',
      ''required'', ''default'', ''initial'', ''source'',
      ''label'', ''help_text'', ''style'',
      ''error_messages'', ''validators'', ''allow_null'', ''allow_blank'',
      ''choices'']"

definition build_standard_field ::
    "ctx \<Rightarrow> string \<Rightarrow> model_field option \<Rightarrow> error + field_class \<times> kwargs" where
  "build_standard_field C field_name model_field =
     (case ClassLookupDict_getitem (serializer_field_mapping C) model_field of
        Inl e \<Rightarrow> Inl e
      | Inr field_class0 \<Rightarrow>
          (case model_field of
             None \<Rightarrow> Inl (AttributeError ''NoneType'')
           | Some mf \<Rightarrow>
              (let field_kwargs0 = get_field_kwargs C field_name mf;
                   field_class1 =
                     (if has_key field_kwargs0 ''choices'' then serializer_choice_field
                      else field_class0);
                   field_kwargs1 =
                     (if has_key field_kwargs0 ''choices''
                      then filter (\<lambda>kv. fst kv \<in> set valid_kwargs) field_kwargs0
                      else field_kwargs0);
                   field_class2 =
                     (if has_key field_kwargs1 ''regex'' then drf_RegexField else field_class1);
                   field_kwargs2 =
                     (if \<not> issubclass field_class2 (drfm_DocumentField C)
                      then pop ''model_field'' field_kwargs1
                      else field_kwargs1);
                   field_kwargs3 =
                     (if \<not> issubclass field_class2 drf_CharField \<and>
                         \<not> issubclass field_class2 drf_ChoiceField
                      then pop ''allow_blank'' field_kwargs2
                      else field_kwargs2)
               in
                 if field_class2 = drf_BooleanField \<and> kw_true field_kwargs3 ''allow_null''
                 then Inr (plain drf_NullBooleanField,
                           pop ''default'' (pop ''allow_null'' field_kwargs3))
                 else Inr (plain field_class2, field_kwargs3))))"

definition build_compound_field ::
    "ctx \<Rightarrow> string \<Rightarrow> model_field \<Rightarrow> field option \<Rightarrow> error + field_class \<times> kwargs" where
  "build_compound_field C field_name model_field child_field =
     (if isinstance_mf model_field [me_ListField] \<or> isinstance_mf model_field [me_DictField]
      then
        Inr (plain (if isinstance_mf model_field [me_ListField] then drf_ListField
                    else drfm_DictField),
             (case child_field of
                None \<Rightarrow> pop ''model_field'' (get_field_kwargs C field_name model_field)
              | Some c \<Rightarrow>
                  AList.update ''child'' (KField c)
                    (pop ''model_field'' (get_field_kwargs C field_name model_field))))
      else build_unknown_field field_name (owner_document model_field))"

definition build_reference_field ::
    "ctx \<Rightarrow> string \<Rightarrow> relation_info \<Rightarrow> int option \<Rightarrow> error + field_class \<times> kwargs" where
  "build_reference_field C field_name relation_info nested_depth =
     (if related_model relation_info = None then
        Inr (plain (serializer_reference_generic C),
             (if \<not> issubclass (serializer_reference_generic C) (drfm_DocumentField C)
              then pop ''model_field'' (get_relation_kwargs C field_name relation_info)
              else get_relation_kwargs C field_name relation_info))
      else
        Inr (plain (serializer_reference_field C),
             get_relation_kwargs C field_name relation_info))"

text \<open>
  \<^verbatim>\<open>class NestedSerializer(subclass)\<close> with its \<^verbatim>\<open>Meta\<close>; \<^verbatim>\<open>subclass\<close> is
  \<^verbatim>\<open>DocumentSerializer\<close>, since \<^verbatim>\<open>serializer_reference_nested\<close> is \<^verbatim>\<open>None\<close>. Subtracting
  from \<^verbatim>\<open>None\<close> raises.
\<close>

definition build_nested_reference_field ::
    "ctx \<Rightarrow> string \<Rightarrow> relation_info \<Rightarrow> int option \<Rightarrow> error + field_class \<times> kwargs" where
  "build_nested_reference_field C field_name relation_info nested_depth =
     (case nested_depth of
        None \<Rightarrow> Inl (TypeError ''unsupported operand type(s) for -: NoneType and int'')
      | Some d \<Rightarrow>
          Inr (\<lparr>cls = \<lparr>cmodule = ''rest_framework_mongoengine.serializers'',
                       cname = ''NestedSerializer'', bases = mro DocumentSerializer\<rparr>,
                 Meta = Some \<lparr>model = Attr (related_model relation_info),
                               depth = Attr (Some (d - 1)),
                               depth_embedding = Missing,
                               meta_fields = ALL_FIELDS\<rparr>\<rparr>,
               get_nested_relation_kwargs C field_name relation_info))"

definition build_generic_embedded_field ::
    "ctx \<Rightarrow> string \<Rightarrow> relation_info \<Rightarrow> int option \<Rightarrow> error + field_class \<times> kwargs" where
  "build_generic_embedded_field C field_name relation_info embedded_depth =
     Inr (plain (serializer_embedded_generic C),
          get_generic_embedded_kwargs C field_name relation_info)"

definition build_nested_embedded_field ::
    "ctx \<Rightarrow> string \<Rightarrow> relation_info \<Rightarrow> int option \<Rightarrow> error + field_class \<times> kwargs" where
  "build_nested_embedded_field C field_name relation_info embedded_depth =
     (case embedded_depth of
        None \<Rightarrow> Inl (TypeError ''unsupported operand type(s) for -: NoneType and int'')
      | Some d \<Rightarrow>
          Inr (\<lparr>cls = \<lparr>cmodule = ''rest_framework_mongoengine.serializers'',
                       cname = ''EmbeddedSerializer'',
                       bases = mro EmbeddedDocumentSerializer\<rparr>,
                 Meta = Some \<lparr>model = Attr (related_model relation_info),
                               depth = Missing,
                               depth_embedding = Attr (Some (d - 1)),
                               meta_fields = ALL_FIELDS\<rparr>\<rparr>,
               get_nested_embedded_kwargs C field_name relation_info))"

definition build_bottom_embedded_field ::
    "ctx \<Rightarrow> string \<Rightarrow> relation_info \<Rightarrow> int option \<Rightarrow> error + field_class \<times> kwargs" where
  "build_bottom_embedded_field C field_name relation_info embedded_depth =
     Inr (plain serializer_embedded_bottom,
          AList.update ''default'' (KVal VNone)
            (get_nested_embedded_kwargs C field_name relation_info))"

text \<open>The truth value of a depth: \<^verbatim>\<open>None\<close> and \<^verbatim>\<open>0\<close> are false.\<close>

definition depth_truthy :: "int option \<Rightarrow> bool" where
  "depth_truthy d = (case d of None \<Rightarrow> False | Some n \<Rightarrow> n \<noteq> 0)"

text \<open>
  \<^verbatim>\<open>build_field\<close>. It calls itself on the \<^verbatim>\<open>.child\<close> entry of a compound field, when
  the info has one; the names of the info are finitely many, so this ends.
\<close>

function build_field ::
    "ctx \<Rightarrow> string \<Rightarrow> field_info \<Rightarrow> string \<Rightarrow> int option \<Rightarrow> int option
       \<Rightarrow> error + field_class \<times> kwargs" where
  "build_field C field_name info model_class nested_depth embedded_depth =
     (case map_of (fields_and_pk info) field_name of
        Some None \<Rightarrow> build_standard_field C field_name None
      | Some (Some model_field) \<Rightarrow>
          if isinstance_mf model_field COMPOUND_FIELD_TYPES then
            (if has_key (info_fields info) (field_name @ ''.child'') \<or>
                has_key (embedded info) (field_name @ ''.child'') \<or>
                has_key (references info) (field_name @ ''.child'')
             then
               (case build_field C (field_name @ ''.child'') info model_class
                       nested_depth embedded_depth of
                  Inl e \<Rightarrow> Inl e
                | Inr built \<Rightarrow>
                    (case instantiate C (fst built) (snd built) of
                       Inl e \<Rightarrow> Inl e
                     | Inr child_field \<Rightarrow>
                         build_compound_field C field_name model_field (Some child_field)))
             else build_compound_field C field_name model_field None)
          else build_standard_field C field_name (Some model_field)
      | None \<Rightarrow>
          (case map_of (references info) field_name of
             Some relation_info \<Rightarrow>
               if depth_truthy nested_depth \<and> related_model relation_info \<noteq> None
               then build_nested_reference_field C field_name relation_info nested_depth
               else build_reference_field C field_name relation_info nested_depth
           | None \<Rightarrow>
               (case map_of (embedded info) field_name of
                  Some relation_info \<Rightarrow>
                    if related_model relation_info = None
                    then build_generic_embedded_field C field_name relation_info embedded_depth
                    else if depth_truthy embedded_depth
                    then build_nested_embedded_field C field_name relation_info embedded_depth
                    else build_bottom_embedded_field C field_name relation_info embedded_depth
                | None \<Rightarrow>
                    if model_hasattr C model_class field_name
                    then build_property_field field_name model_class
                    else build_unknown_field field_name model_class)))"
  by pat_completeness auto
termination
proof (relation "measure (\<lambda>(C, field_name, info, model_class, nested_depth, embedded_depth).
    Suc (Max (insert 0 (length ` (fst ` set (info_fields info) \<union> fst ` set (embedded info) \<union>
       fst ` set (references info))))) - length field_name)", goal_cases)
  case 1
  show ?case by simp
next
  case (2 C field_name info model_class nested_depth embedded_depth x2 model_field)
  let ?K = "fst ` set (info_fields info) \<union> fst ` set (embedded info) \<union>
    fst ` set (references info)"
  from 2 have "field_name @ ''.child'' \<in> ?K"
    by (auto simp: has_key_def map_of_eq_None_iff)
  then have "length (field_name @ ''.child'') \<in> insert 0 (length ` ?K)" by blast
  then have "length (field_name @ ''.child'') \<le> Max (insert 0 (length ` ?K))"
    by (intro Max_ge) auto
  then show ?case by simp
qed

declare build_field.simps [simp del]

subsection \<open>Field names\<close>

text \<open>
  \<^verbatim>\<open>get_default_field_names\<close>, of \<^verbatim>\<open>DocumentSerializer\<close> and as
  \<^verbatim>\<open>EmbeddedDocumentSerializer\<close> overrides it (no id field).
\<close>

definition get_default_field_names ::
    "py_class \<Rightarrow> (string \<times> field) list \<Rightarrow> field_info \<Rightarrow> error + string list" where
  "get_default_field_names c declared model_info =
     (if issubclass c EmbeddedDocumentSerializer then
        Inr (map fst declared @ map fst (info_fields model_info) @
             map fst (references model_info) @ map fst (embedded model_info))
      else
        (case pk model_info of
           None \<Rightarrow> Inl (AttributeError ''NoneType object has no attribute name'')
         | Some p \<Rightarrow>
             Inr ([name p] @ map fst declared @ map fst (info_fields model_info) @
                  map fst (references model_info) @ map fst (embedded model_info))))"

text \<open>
  \<^verbatim>\<open>super(DocumentSerializer, self).get_field_names(declared_fields, model_info)\<close>: the
  framework's method, on this serializer.
\<close>

definition ModelSerializer_get_field_names ::
    "ctx \<Rightarrow> serializer \<Rightarrow> meta \<Rightarrow> (string \<times> field) list \<Rightarrow> field_info \<Rightarrow> error + string list"
where
  "ModelSerializer_get_field_names C self m declared model_info =
     super_get_field_names C self m declared
       (get_default_field_names (cls (ser_class self)) declared model_info)"

definition get_field_names ::
    "ctx \<Rightarrow> serializer \<Rightarrow> meta \<Rightarrow> (string \<times> field) list \<Rightarrow> field_info \<Rightarrow> error + string list"
where
  "get_field_names C self m declared model_info =
     (case ModelSerializer_get_field_names C self m declared model_info of
        Inl e \<Rightarrow> Inl e
      | Inr field_names \<Rightarrow> Inr (filter (\<lambda>fn. \<not> sublist ''.child'' fn) field_names))"

subsection \<open>Uniqueness\<close>

definition uniq_indexes :: "ctx \<Rightarrow> string \<Rightarrow> index_spec list" where
  "uniq_indexes C model_name = filter (\<lambda>i. unique i = Some True) (model_index_specs C model_name)"

text \<open>
  The first loop of \<^verbatim>\<open>get_uniqueness_extra_kwargs\<close>. The sets \<^verbatim>\<open>unique_fields\<close> and
  \<^verbatim>\<open>unique_together_fields\<close> are lists without repetition.
\<close>

fun unique_sets ::
    "string list \<Rightarrow> index_spec list \<Rightarrow> string list \<Rightarrow> string list \<Rightarrow> string list \<times> string list"
where
  "unique_sets field_names [] unique_fields unique_together_fields =
     (unique_fields, unique_together_fields)"
| "unique_sets field_names (idx # rest) unique_fields unique_together_fields =
     (if set (map fst (idx_fields idx)) \<subseteq> set field_names then
        (if length (remdups (map fst (idx_fields idx))) = 1
         then unique_sets field_names rest
                (List.union unique_fields (remdups (map fst (idx_fields idx))))
                unique_together_fields
         else unique_sets field_names rest unique_fields
                (List.union unique_together_fields (remdups (map fst (idx_fields idx)))))
      else unique_sets field_names rest unique_fields unique_together_fields)"

text \<open>The loop over \<^verbatim>\<open>unique_fields\<close>.\<close>

fun unique_kwargs :: "string \<Rightarrow> string list \<Rightarrow> (string \<times> kwargs) list \<Rightarrow> (string \<times> kwargs) list"
where
  "unique_kwargs model_name [] uniq_extra_kwargs = uniq_extra_kwargs"
| "unique_kwargs model_name (field_name # rest) uniq_extra_kwargs =
     unique_kwargs model_name rest
       (AList.update field_name
          [(''required'', KVal (VBool True)),
           (''validators'', KValidators [UniqueValidator model_name])]
          uniq_extra_kwargs)"

text \<open>The loop over \<^verbatim>\<open>unique_together_fields\<close>; \<^verbatim>\<open>model._fields[field_name]\<close> may raise.\<close>

fun unique_together_kwargs ::
    "ctx \<Rightarrow> string \<Rightarrow> string list \<Rightarrow> (string \<times> kwargs) list \<Rightarrow> error + (string \<times> kwargs) list"
where
  "unique_together_kwargs C model_name [] uniq_extra_kwargs = Inr uniq_extra_kwargs"
| "unique_together_kwargs C model_name (field_name # rest) uniq_extra_kwargs =
     (case map_of (model_fields C model_name) field_name of
        None \<Rightarrow> Inl (KeyError field_name)
      | Some fld \<Rightarrow>
          unique_together_kwargs C model_name rest
            (AList.update field_name
               (if has_default C fld then [(''default'', KVal (field_default fld))]
                else [(''required'', KVal (VBool True))])
               uniq_extra_kwargs))"

text \<open>\<^verbatim>\<open>d.update(value)\<close>.\<close>

definition dict_update :: "(string \<times> 'a) list \<Rightarrow> (string \<times> 'a) list \<Rightarrow> (string \<times> 'a) list" where
  "dict_update d other = fold (\<lambda>kv. AList.update (fst kv) (snd kv)) other d"

text \<open>
  The last loop, updating \<^verbatim>\<open>extra_kwargs\<close>. Under a key \<^verbatim>\<open>validators\<close> that is present
  it calls \<^verbatim>\<open>append\<close> on a dict, which raises.
\<close>

fun merge_extra_kwargs ::
    "(string \<times> kwargs) list \<Rightarrow> (string \<times> kwargs) list \<Rightarrow> error + (string \<times> kwargs) list"
where
  "merge_extra_kwargs [] extra = Inr extra"
| "merge_extra_kwargs (kv # rest) extra =
     (case map_of extra (fst kv) of
        Some old \<Rightarrow>
          if fst kv = ''validators''
          then Inl (AttributeError ''dict object has no attribute append'')
          else merge_extra_kwargs rest (AList.update (fst kv) (dict_update old (snd kv)) extra)
      | None \<Rightarrow> merge_extra_kwargs rest (AList.update (fst kv) (snd kv) extra))"

definition get_uniqueness_extra_kwargs ::
    "ctx \<Rightarrow> string \<Rightarrow> string list \<Rightarrow> (string \<times> kwargs) list
       \<Rightarrow> error + (string \<times> kwargs) list \<times> (string \<times> field) list" where
  "get_uniqueness_extra_kwargs C model_name field_names extra =
     (case unique_sets (remdups field_names) (uniq_indexes C model_name) [] [] of
        (unique_fields, unique_together_fields) \<Rightarrow>
          (case unique_together_kwargs C model_name unique_together_fields
                  (unique_kwargs model_name unique_fields []) of
             Inl e \<Rightarrow> Inl e
           | Inr uniq_extra_kwargs \<Rightarrow>
               (case merge_extra_kwargs uniq_extra_kwargs extra of
                  Inl e \<Rightarrow> Inl e
                | Inr merged \<Rightarrow> Inr (merged, []))))"

text \<open>
  \<^verbatim>\<open>get_unique_together_validators\<close>; \<^verbatim>\<open>EmbeddedDocumentSerializer\<close> overrides it to
  return no validator.
\<close>

definition get_unique_together_validators ::
    "ctx \<Rightarrow> serializer \<Rightarrow> meta \<Rightarrow> string \<Rightarrow> field_info \<Rightarrow> error + validator list" where
  "get_unique_together_validators C self m model_name model_info =
     (if issubclass (cls (ser_class self)) EmbeddedDocumentSerializer then Inr []
      else
        (case get_field_names C self m (declared_fields self) model_info of
           Inl e \<Rightarrow> Inl e
         | Inr field_names \<Rightarrow>
             Inr (map (\<lambda>idx. UniqueTogetherValidator model_name (map fst (idx_fields idx)))
                   (filter (\<lambda>idx. length (map fst (idx_fields idx)) > 1 \<and>
                               set (map fst (idx_fields idx)) \<subseteq> set field_names)
                      (uniq_indexes C model_name)))))"

subsection \<open>\<^verbatim>\<open>get_fields\<close>\<close>

text \<open>The loop over the field names.\<close>

fun build_fields ::
    "ctx \<Rightarrow> (string \<times> field) list \<Rightarrow> (string \<times> kwargs) list \<Rightarrow> field_info \<Rightarrow> string
       \<Rightarrow> int option \<Rightarrow> int option \<Rightarrow> string list \<Rightarrow> (string \<times> field) list
       \<Rightarrow> error + (string \<times> field) list" where
  "build_fields C declared extra info model_name d de [] built_fields = Inr built_fields"
| "build_fields C declared extra info model_name d de (field_name # rest) built_fields =
     (case map_of declared field_name of
        Some f \<Rightarrow>
          build_fields C declared extra info model_name d de rest
            (AList.update field_name f built_fields)
      | None \<Rightarrow>
          (case build_field C field_name info model_name d de of
             Inl e \<Rightarrow> Inl e
           | Inr built \<Rightarrow>
               (case instantiate C (fst built)
                       (include_extra_kwargs C (snd built)
                          (case map_of extra field_name of None \<Rightarrow> [] | Some kw \<Rightarrow> kw)) of
                  Inl e \<Rightarrow> Inl e
                | Inr f \<Rightarrow>
                    build_fields C declared extra info model_name d de rest
                      (AList.update field_name f built_fields))))"

text \<open>The two assertions on \<^verbatim>\<open>depth\<close> pass.\<close>

definition depth_ok :: "meta \<Rightarrow> bool" where
  "depth_ok m \<longleftrightarrow>
     (case getattr (depth m) (Some 0) of None \<Rightarrow> True | Some d \<Rightarrow> 0 \<le> d \<and> d \<le> 10)"

text \<open>The field the loop stores under a name.\<close>

definition good_field ::
    "ctx \<Rightarrow> (string \<times> field) list \<Rightarrow> (string \<times> kwargs) list \<Rightarrow> field_info \<Rightarrow> string
       \<Rightarrow> int option \<Rightarrow> int option \<Rightarrow> string \<Rightarrow> field \<Rightarrow> bool" where
  "good_field C decl extra info mn d de n v \<longleftrightarrow>
     (case map_of decl n of
        Some f \<Rightarrow> v = f
      | None \<Rightarrow>
          (case build_field C n info mn d de of
             Inl e \<Rightarrow> False
           | Inr b \<Rightarrow>
               instantiate C (fst b) (include_extra_kwargs C (snd b)
                 (case map_of extra n of None \<Rightarrow> [] | Some k \<Rightarrow> k)) = Inr v))"

definition get_fields :: "ctx \<Rightarrow> serializer \<Rightarrow> error + (string \<times> field) list" where
  "get_fields C self =
     (case Meta (ser_class self) of
        None \<Rightarrow>
          Inl (AssertionError
            (''Class '' @ cname (cls (ser_class self)) @ '' missing \"Meta\" attribute''))
      | Some m \<Rightarrow>
          (case model m of
             Missing \<Rightarrow>
               Inl (AssertionError
                 (''Class '' @ cname (cls (ser_class self)) @
                  '' missing \"Meta.model\" attribute''))
           | Attr mo \<Rightarrow>
               (let d = getattr (depth m) (Some 0);
                    de = getattr (depth_embedding m) (Some 5)
                in
                  if d \<noteq> None \<and> \<not> the d \<ge> 0
                  then Inl (AssertionError
                         ([CHR 0x27] @ ''depth'' @ [CHR 0x27] @ '' may not be negative.''))
                  else if d \<noteq> None \<and> \<not> the d \<le> 10
                  then Inl (AssertionError
                         ([CHR 0x27] @ ''depth'' @ [CHR 0x27] @ '' may not be greater than 10.''))
                  else
                    (case mo of
                       None \<Rightarrow> Inr []
                     | Some model_name \<Rightarrow>
                         if is_abstract_model C model_name
                         then Inl (ValueError ''Cannot use ModelSerializer with Abstract Models.'')
                         else
                           (case get_field_names C self m (declared_fields self)
                                   (get_field_info C model_name) of
                              Inl e \<Rightarrow> Inl e
                            | Inr field_names \<Rightarrow>
                                (case get_extra_kwargs self of
                                   Inl e \<Rightarrow> Inl e
                                 | Inr extra_kwargs \<Rightarrow>
                                     (case get_uniqueness_extra_kwargs C model_name field_names
                                             extra_kwargs of
                                        Inl e \<Rightarrow> Inl e
                                      | Inr (extra, hidden_fields) \<Rightarrow>
                                          (case build_fields C (declared_fields self) extra
                                                  (get_field_info C model_name) model_name d de
                                                  field_names [] of
                                             Inl e \<Rightarrow> Inl e
                                           | Inr built_fields \<Rightarrow>
                                               Inr (dict_update built_fields
                                                      hidden_fields)))))))))"

subsection \<open>The whole field tree\<close>

text \<open>
  A nested serializer builds its own fields when they are first asked for. The tree
  of all fields is what results when every nested serializer is asked, down through
  the children of compound fields. The fuel bounds the height: \<open>None\<close> says that
  the construction is not finished at that height.
\<close>

datatype ftree = FTree field_class "(string \<times> ftree) list"

definition nested_serializer :: "field \<Rightarrow> serializer" where
  "nested_serializer f =
     \<lparr>ser_class = class_of f, declared_fields = [], get_extra_kwargs = Inr []\<rparr>"

function expand :: "nat \<Rightarrow> ctx \<Rightarrow> field \<Rightarrow> (error + ftree) option"
  and expand_fields ::
    "nat \<Rightarrow> ctx \<Rightarrow> (string \<times> field) list \<Rightarrow> (error + (string \<times> ftree) list) option"
where
  "expand 0 C f = None"
| "expand (Suc n) C f =
     (if issubclass (cls (class_of f)) DocumentSerializer then
        (case get_fields C (nested_serializer f) of
           Inl e \<Rightarrow> Some (Inl e)
         | Inr fs \<Rightarrow>
             (case expand_fields n C fs of
                None \<Rightarrow> None
              | Some (Inl e) \<Rightarrow> Some (Inl e)
              | Some (Inr ts) \<Rightarrow> Some (Inr (FTree (class_of f) ts))))
      else
        (case map_of (kwargs_of f) ''child'' of
           Some (KField c) \<Rightarrow>
             (case expand n C c of
                None \<Rightarrow> None
              | Some (Inl e) \<Rightarrow> Some (Inl e)
              | Some (Inr t) \<Rightarrow> Some (Inr (FTree (class_of f) [(''child'', t)])))
         | _ \<Rightarrow> Some (Inr (FTree (class_of f) []))))"
| "expand_fields n C [] = Some (Inr [])"
| "expand_fields n C (kf # fs) =
     (case expand n C (snd kf) of
        None \<Rightarrow> None
      | Some (Inl e) \<Rightarrow> Some (Inl e)
      | Some (Inr t) \<Rightarrow>
          (case expand_fields n C fs of
             None \<Rightarrow> None
           | Some (Inl e) \<Rightarrow> Some (Inl e)
           | Some (Inr ts) \<Rightarrow> Some (Inr ((fst kf, t) # ts))))"
  by pat_completeness auto
termination
  by (relation "inv_image (less_than <*lex*> less_than) (\<lambda>x. case x of
        Inl (n, C, f) \<Rightarrow> (2 * n, 0)
      | Inr (n, C, fs) \<Rightarrow> (2 * n + 1, length fs))") auto

text \<open>The field tree of a serializer.\<close>

definition field_tree :: "nat \<Rightarrow> ctx \<Rightarrow> serializer \<Rightarrow> (error + (string \<times> ftree) list) option" where
  "field_tree n C self =
     (case get_fields C self of
        Inl e \<Rightarrow> Some (Inl e)
      | Inr fs \<Rightarrow> expand_fields n C fs)"

subsection \<open>A small library, for the examples\<close>

definition me_class :: "string \<Rightarrow> string list \<Rightarrow> py_class" where
  "me_class n supers = \<lparr>cmodule = ''me_fields'', cname = n, bases = supers\<rparr>"

definition ex_drfm :: "string \<Rightarrow> py_class" where
  "ex_drfm n = \<lparr>cmodule = ''rest_framework_mongoengine.fields'', cname = n, bases = mro drf_Field\<rparr>"

definition ex_mf :: "string \<Rightarrow> string \<Rightarrow> string \<Rightarrow> model_field" where
  "ex_mf owner n c =
     \<lparr>name = n, field_class = me_class c [''me_fields.BaseField''],
      owner_document = owner, field_default = VNone\<rparr>"

definition ex_tags :: model_field where
  "ex_tags = \<lparr>name = ''tags'', field_class = me_ListField, owner_document = ''Book'',
     field_default = VNone\<rparr>"

definition ex_rel :: "string \<Rightarrow> string \<Rightarrow> string \<Rightarrow> string option \<Rightarrow> relation_info" where
  "ex_rel owner n c related = \<lparr>rel_model_field = ex_mf owner n c, related_model = related\<rparr>"

definition ex_book_info :: field_info where
  "ex_book_info =
     \<lparr>pk = Some (ex_mf ''Book'' ''id'' ''ObjectIdField''),
      info_fields =
        [(''title'', ex_mf ''Book'' ''title'' ''StringField''),
         (''genre'', ex_mf ''Book'' ''genre'' ''StringField''),
         (''isbn'', ex_mf ''Book'' ''isbn'' ''StringField''),
         (''in_print'', ex_mf ''Book'' ''in_print'' ''BooleanField''),
         (''tags'', ex_tags),
         (''tags.child'', ex_mf ''Book'' ''tags.child'' ''StringField'')],
      references = [(''author'', ex_rel ''Book'' ''author'' ''ReferenceField'' (Some ''Author''))],
      fields_and_pk =
        [(''pk'', Some (ex_mf ''Book'' ''id'' ''ObjectIdField'')),
         (''id'', Some (ex_mf ''Book'' ''id'' ''ObjectIdField'')),
         (''title'', Some (ex_mf ''Book'' ''title'' ''StringField'')),
         (''genre'', Some (ex_mf ''Book'' ''genre'' ''StringField'')),
         (''isbn'', Some (ex_mf ''Book'' ''isbn'' ''StringField'')),
         (''in_print'', Some (ex_mf ''Book'' ''in_print'' ''BooleanField'')),
         (''tags'', Some ex_tags),
         (''tags.child'', Some (ex_mf ''Book'' ''tags.child'' ''StringField''))],
      embedded =
        [(''address'', ex_rel ''Book'' ''address'' ''EmbeddedDocumentField'' (Some ''Address'')),
         (''extra'', ex_rel ''Book'' ''extra'' ''GenericEmbeddedDocumentField'' None)]\<rparr>"

definition ex_author_info :: field_info where
  "ex_author_info =
     \<lparr>pk = Some (ex_mf ''Author'' ''id'' ''ObjectIdField''),
      info_fields = [(''name'', ex_mf ''Author'' ''name'' ''StringField'')],
      references = [],
      fields_and_pk =
        [(''pk'', Some (ex_mf ''Author'' ''id'' ''ObjectIdField'')),
         (''id'', Some (ex_mf ''Author'' ''id'' ''ObjectIdField'')),
         (''name'', Some (ex_mf ''Author'' ''name'' ''StringField''))],
      embedded = []\<rparr>"

definition ex_address_info :: field_info where
  "ex_address_info =
     \<lparr>pk = None,
      info_fields = [(''city'', ex_mf ''Address'' ''city'' ''StringField'')],
      references = [],
      fields_and_pk = [(''pk'', None), (''pk'', None),
                       (''city'', Some (ex_mf ''Address'' ''city'' ''StringField''))],
      embedded = []\<rparr>"

text \<open>An embedded document that embeds itself, and a document that embeds it.\<close>

definition ex_node_info :: field_info where
  "ex_node_info =
     \<lparr>pk = None, info_fields = [], references = [],
      fields_and_pk = [(''pk'', None), (''pk'', None)],
      embedded = [(''next'', ex_rel ''Node'' ''next'' ''EmbeddedDocumentField'' (Some ''Node''))]\<rparr>"

definition ex_chain_info :: field_info where
  "ex_chain_info =
     \<lparr>pk = Some (ex_mf ''Chain'' ''id'' ''ObjectIdField''), info_fields = [], references = [],
      fields_and_pk =
        [(''pk'', Some (ex_mf ''Chain'' ''id'' ''ObjectIdField'')),
         (''id'', Some (ex_mf ''Chain'' ''id'' ''ObjectIdField''))],
      embedded = [(''head'', ex_rel ''Chain'' ''head'' ''EmbeddedDocumentField'' (Some ''Node''))]\<rparr>"

text \<open>An account with a unique email that is also unique together with its tenant.\<close>

definition ex_account_info :: field_info where
  "ex_account_info =
     \<lparr>pk = Some (ex_mf ''Account'' ''id'' ''ObjectIdField''),
      info_fields =
        [(''email'', ex_mf ''Account'' ''email'' ''StringField''),
         (''tenant'', ex_mf ''Account'' ''tenant'' ''StringField''),
         (''login'', ex_mf ''Account'' ''login'' ''StringField'')],
      references = [],
      fields_and_pk =
        [(''pk'', Some (ex_mf ''Account'' ''id'' ''ObjectIdField'')),
         (''id'', Some (ex_mf ''Account'' ''id'' ''ObjectIdField'')),
         (''email'', Some (ex_mf ''Account'' ''email'' ''StringField'')),
         (''tenant'', Some (ex_mf ''Account'' ''tenant'' ''StringField'')),
         (''login'', Some (ex_mf ''Account'' ''login'' ''StringField''))],
      embedded = []\<rparr>"

definition ex_relation_kwargs :: "string \<Rightarrow> relation_info \<Rightarrow> kwargs" where
  "ex_relation_kwargs n r = [(''model_field'', KModelField (rel_model_field r))]"

text \<open>
  The constructors of the examples raise as the framework's \<^verbatim>\<open>Field.__init__\<close> asserts:
  not \<^verbatim>\<open>read_only\<close> with \<^verbatim>\<open>write_only\<close>, not \<^verbatim>\<open>read_only\<close> with \<^verbatim>\<open>required\<close>, not
  \<^verbatim>\<open>required\<close> with a \<^verbatim>\<open>default\<close>.
\<close>

definition ex_init_field :: "field_class \<Rightarrow> kwargs \<Rightarrow> error option" where
  "ex_init_field fc kw =
     (if kw_true kw ''read_only'' \<and> kw_true kw ''write_only''
      then Some (AssertionError ''May not set both `read_only` and `write_only`'')
      else if kw_true kw ''read_only'' \<and> kw_true kw ''required''
      then Some (AssertionError ''May not set both `read_only` and `required`'')
      else if kw_true kw ''required'' \<and> has_key kw ''default''
      then Some (AssertionError ''May not set both `required` and `default`'')
      else None)"

text \<open>
  The superclass method of the examples, on a \<^verbatim>\<open>Meta\<close> without \<^verbatim>\<open>exclude\<close>: the names
  of \<^verbatim>\<open>Meta.fields\<close>, which must include every declared field, or the default names
  for \<^verbatim>\<open>'__all__'\<close>.
\<close>

definition ex_get_field_names ::
    "serializer \<Rightarrow> meta \<Rightarrow> (string \<times> field) list \<Rightarrow> error + string list \<Rightarrow> error + string list"
where
  "ex_get_field_names self m declared default_names =
     (case meta_fields m of
        ALL_FIELDS \<Rightarrow> default_names
      | Names ns \<Rightarrow>
          (case filter (\<lambda>n. n \<notin> set ns) (map fst declared) of
             [] \<Rightarrow> Inr ns
           | n # _ \<Rightarrow>
               Inl (AssertionError
                 (''The field '' @ [CHR 0x27] @ n @ [CHR 0x27] @ '' was declared on serializer '' @
                  cname (cls (ser_class self)) @ '', but has not been included in the '' @
                  [CHR 0x27] @ ''fields'' @ [CHR 0x27] @ '' option.''))))"

definition ex_ctx :: ctx where
  "ex_ctx =
     \<lparr>init_field = ex_init_field,
      super_get_field_names = ex_get_field_names,
      get_field_info = (\<lambda>m.
        if m = ''Book'' then ex_book_info
        else if m = ''Author'' then ex_author_info
        else if m = ''Address'' then ex_address_info
        else if m = ''Node'' then ex_node_info
        else if m = ''Chain'' then ex_chain_info
        else ex_account_info),
      get_field_kwargs = (\<lambda>n mf.
        (''model_field'', KModelField mf) #
        (if n = ''genre'' then
           [(''choices'', KObj ''GENRES''), (''max_length'', KVal (VInt 20)),
            (''allow_blank'', KVal (VBool True))]
         else if n = ''isbn'' then [(''regex'', KObj ''ISBN''), (''allow_blank'', KVal (VBool True))]
         else if n = ''in_print'' then
           [(''allow_null'', KVal (VBool True)), (''default'', KVal (VBool True)),
            (''allow_blank'', KVal (VBool False))]
         else if n = ''reviewed'' then
           [(''allow_null'', KVal (VBool True)), (''choices'', KObj ''YES_NO'')]
         else [(''required'', KVal (VBool False))])),
      get_relation_kwargs = ex_relation_kwargs,
      get_nested_relation_kwargs = (\<lambda>n r. [(''read_only'', KVal (VBool True))]),
      get_generic_embedded_kwargs = ex_relation_kwargs,
      get_nested_embedded_kwargs = (\<lambda>n r. []),
      has_default = (\<lambda>mf. field_default mf \<noteq> VNone),
      is_abstract_model = (\<lambda>m. m = ''Base''),
      include_extra_kwargs = dict_update,
      model_hasattr = (\<lambda>m n. m = ''Book'' \<and> n = ''summary''),
      model_index_specs = (\<lambda>m.
        if m = ''Account'' then
          [\<lparr>idx_fields = [(''email'', 1)], unique = Some True\<rparr>,
           \<lparr>idx_fields = [(''tenant'', 1), (''email'', 1)], unique = Some True\<rparr>,
           \<lparr>idx_fields = [(''login'', 1)], unique = Some True\<rparr>,
           \<lparr>idx_fields = [(''login'', 1), (''secret'', 1)], unique = Some True\<rparr>]
        else []),
      model_fields = (\<lambda>m. if m = ''Account'' then info_fields ex_account_info else []),
      drfm_ObjectIdField = ex_drfm ''ObjectIdField'',
      drfm_FileField = ex_drfm ''FileField'',
      drfm_ImageField = ex_drfm ''ImageField'',
      drfm_GeoPointField = ex_drfm ''GeoPointField'',
      drfm_GeoJSONField = ex_drfm ''GeoJSONField'',
      drfm_DynamicField = ex_drfm ''DynamicField'',
      drfm_DocumentField = ex_drfm ''DocumentField'',
      drfm_ReferenceField = ex_drfm ''ReferenceField'',
      drfm_GenericReferenceField = ex_drfm ''GenericReferenceField'',
      drfm_GenericEmbeddedDocumentField = ex_drfm ''GenericEmbeddedDocumentField''\<rparr>"

text \<open>A serializer class of the user's whose \<^verbatim>\<open>Meta\<close> lists its fields.\<close>

definition ex_listing :: "string \<Rightarrow> string list \<Rightarrow> (string \<times> field) list \<Rightarrow> serializer" where
  "ex_listing model_name names declared =
     \<lparr>ser_class =
        \<lparr>cls = \<lparr>cmodule = ''library.serializers'', cname = model_name @ ''Serializer'',
                 bases = mro DocumentSerializer\<rparr>,
         Meta = Some \<lparr>model = Attr (Some model_name), depth = Missing, depth_embedding = Missing,
                       meta_fields = Names names\<rparr>\<rparr>,
      declared_fields = declared,
      get_extra_kwargs = Inr []\<rparr>"

text \<open>A serializer class of the user's, for a model and given depths.\<close>

definition ex_serializer :: "py_class \<Rightarrow> string \<Rightarrow> int option attr \<Rightarrow> int option attr \<Rightarrow> serializer" where
  "ex_serializer base model_name d de =
     \<lparr>ser_class =
        \<lparr>cls = \<lparr>cmodule = ''library.serializers'', cname = model_name @ ''Serializer'',
                 bases = mro base\<rparr>,
         Meta = Some \<lparr>model = Attr (Some model_name), depth = d, depth_embedding = de,
                       meta_fields = ALL_FIELDS\<rparr>\<rparr>,
      declared_fields = [],
      get_extra_kwargs = Inr []\<rparr>"

text \<open>
  The class \<^verbatim>\<open>build_nested_embedded_field\<close> creates for the self-embedding node at
  embedded depth \<open>e + 1\<close>.
\<close>

definition ex_node_class :: "int \<Rightarrow> field_class" where
  "ex_node_class e =
     \<lparr>cls = \<lparr>cmodule = ''rest_framework_mongoengine.serializers'', cname = ''EmbeddedSerializer'',
              bases = mro EmbeddedDocumentSerializer\<rparr>,
      Meta = Some \<lparr>model = Attr (Some ''Node''), depth = Missing,
                    depth_embedding = Attr (Some e), meta_fields = ALL_FIELDS\<rparr>\<rparr>"

section \<open>Properties of the run-time half\<close>

subsection \<open>Which branch a field takes\<close>

lemma field_branch_Embedded:
  "field_branch f = Embedded \<longleftrightarrow> isinstance f EmbeddedDocumentSerializer"
  by (simp add: field_branch_def)

lemma field_branch_ListOf:
  "field_branch f = ListOf c \<longleftrightarrow>
     \<not> isinstance f EmbeddedDocumentSerializer \<and>
     (isinstance f ListSerializer \<or> isinstance f drf_ListField) \<and>
     child f = Some c \<and> isinstance c EmbeddedDocumentSerializer"
  by (cases "child f") (auto simp: field_branch_def)

lemma field_branch_DictOf:
  "field_branch f = DictOf c \<longleftrightarrow>
     \<not> isinstance f EmbeddedDocumentSerializer \<and>
     \<not> ((isinstance f ListSerializer \<or> isinstance f drf_ListField) \<and>
        (child f = None \<or> isinstance c EmbeddedDocumentSerializer)) \<and>
     isinstance f drfm_DictField \<and>
     child f = Some c \<and> isinstance c EmbeddedDocumentSerializer"
  by (cases "child f") (auto simp: field_branch_def)

lemma snd_except_KeyError: "snd (except_KeyError v r) = snd r"
  by (auto simp: except_KeyError_def split: prod.splits sum.splits error.splits)

subsection \<open>Saving happens only at the top\<close>

lemma saving_instances_embedded:
  "issubclass c EmbeddedDocumentSerializer \<Longrightarrow> saving_instances c = Some False"
  by (simp add: saving_instances_def)

lemma finish_embedded_db:
  "isinstance s EmbeddedDocumentSerializer \<Longrightarrow> snd (snd (finish E s me inst db)) = db"
  by (auto simp: finish_def save_if_needed_def isinstance_def saving_instances_embedded
      split: sum.splits option.splits)

lemma db_unchanged:
  "isinstance s EmbeddedDocumentSerializer \<longrightarrow> snd (snd (recursive_save E s v i db)) = db"
  "snd (save_items E s' items me db') = db'"
  "snd (save_item E s'' k v' db'') = db''"
  "isinstance c EmbeddedDocumentSerializer \<longrightarrow> snd (save_list E c xs acc db3) = db3"
  "isinstance c' EmbeddedDocumentSerializer \<longrightarrow> snd (save_dict E c' kvs acc' db4) = db4"
proof (induction E s v i db and E s' items me db' and E s'' k v' db'' and E c xs acc db3
    and E c' kvs acc' db4 rule: recursive_save_save_items_save_item_save_list_save_dict.induct)
  case (1 E self validated_data inst db)
  show ?case
  proof
    assume emb: "isinstance self EmbeddedDocumentSerializer"
    show "snd (snd (recursive_save E self validated_data inst db)) = db"
    proof (cases "py_items validated_data")
      case (Inl e)
      then show ?thesis by (simp add: recursive_save.simps)
    next
      case (Inr items)
      from 1 [OF Inr] have db: "snd (save_items E self items [] db) = db" .
      show ?thesis
      proof (cases "save_items E self items [] db")
        case (Pair r db1)
        with db have "db1 = db" by simp
        with Pair Inr emb show ?thesis
          by (cases r) (simp_all add: recursive_save.simps finish_embedded_db)
      qed
    qed
  qed
next
  case (2 E self me_data db)
  show ?case by simp
next
  case (3 E self kv rest me_data db)
  show ?case
  proof (cases "save_item E self (fst kv) (snd kv) db")
    case (Pair r db1)
    with 3(1) have eq: "db1 = db" by simp
    show ?thesis
    proof (cases r)
      case (Inl e)
      with Pair eq show ?thesis by simp
    next
      case (Inr x)
      from 3(2) [OF Pair [symmetric] Inr] Pair Inr eq show ?thesis by simp
    qed
  qed
next
  case (4 E self key v db)
  show ?case
  proof (cases "map_of (sfields self) key")
    case None
    then show ?thesis by (simp add: save_item.simps)
  next
    case (Some field)
    show ?thesis
    proof (cases "field_branch field")
      case Embedded
      from 4(1) [OF Some Embedded] Embedded
      have "snd (snd (recursive_save E field v None db)) = db"
        by (simp add: field_branch_Embedded)
      with Some Embedded show ?thesis
        by (auto simp: save_item.simps snd_except_KeyError split: prod.splits sum.splits)
    next
      case (ListOf c)
      show ?thesis
      proof (cases "py_iter v")
        case (Inl e)
        with Some ListOf show ?thesis by (simp add: save_item.simps snd_except_KeyError)
      next
        case (Inr data)
        from 4(2) [OF Some ListOf Inr] ListOf
        have "snd (save_list E c data [] db) = db" by (simp add: field_branch_ListOf)
        with Some ListOf Inr show ?thesis by (simp add: save_item.simps snd_except_KeyError)
      qed
    next
      case (DictOf c)
      show ?thesis
      proof (cases "py_items v")
        case (Inl e)
        with Some DictOf show ?thesis by (simp add: save_item.simps snd_except_KeyError)
      next
        case (Inr data)
        from 4(3) [OF Some DictOf Inr] DictOf
        have "snd (save_dict E c data [] db) = db" by (simp add: field_branch_DictOf)
        with Some DictOf Inr show ?thesis by (simp add: save_item.simps snd_except_KeyError)
      qed
    next
      case Plain
      with Some show ?thesis by (simp add: save_item.simps snd_except_KeyError)
    next
      case (Raises e)
      with Some show ?thesis by (simp add: save_item.simps snd_except_KeyError)
    qed
  qed
next
  case (5 E c acc db)
  show ?case by simp
next
  case (6 E c datum data acc db)
  show ?case
  proof
    assume emb: "isinstance c EmbeddedDocumentSerializer"
    obtain r p db1 where rs: "recursive_save E c datum None db = (r, p, db1)"
      by (cases "recursive_save E c datum None db") auto
    with 6(1) emb have eq: "db1 = db" by simp
    show "snd (save_list E c (datum # data) acc db) = db"
    proof (cases r)
      case (Inl e)
      with rs eq show ?thesis by simp
    next
      case (Inr d)
      from 6(2) [OF rs [symmetric] Inr refl] emb rs Inr eq show ?thesis by simp
    qed
  qed
next
  case (7 E c acc db)
  show ?case by simp
next
  case (8 E c kv kvs acc db)
  show ?case
  proof
    assume emb: "isinstance c EmbeddedDocumentSerializer"
    obtain r p db1 where rs: "recursive_save E c (snd kv) None db = (r, p, db1)"
      by (cases "recursive_save E c (snd kv) None db") auto
    with 8(1) emb have eq: "db1 = db" by simp
    show "snd (save_dict E c (kv # kvs) acc db) = db"
    proof (cases r)
      case (Inl e)
      with rs eq show ?thesis by simp
    next
      case (Inr d)
      from 8(2) [OF rs [symmetric] Inr refl] emb rs Inr eq show ?thesis by simp
    qed
  qed
qed

subsection \<open>The guard of \<^verbatim>\<open>create\<close> and \<^verbatim>\<open>update\<close>\<close>

lemma raise_errors_Inr:
  "raise_errors_on_nested_writes m s vd = Inr () \<longleftrightarrow>
     \<not> list_ex (nested_write vd) (sfields s) \<and> \<not> list_ex (dotted_write vd) (sfields s)"
  by (simp add: raise_errors_on_nested_writes_def)

lemma raise_errors_Inl:
  "raise_errors_on_nested_writes m s vd \<noteq> Inr () \<Longrightarrow>
     \<exists>msg. raise_errors_on_nested_writes m s vd = Inl (AssertionError msg)"
  by (simp add: raise_errors_on_nested_writes_def split: if_splits)

lemma map_of_in_keys: "k \<in> fst ` set xs \<longleftrightarrow> map_of xs k \<noteq> None"
  by (simp add: map_of_eq_None_iff)

text \<open>
  C9. \<^verbatim>\<open>create\<close> and \<^verbatim>\<open>update\<close> raise \<^verbatim>\<open>AssertionError\<close> whenever the validated data
  has a value for a field that is a serializer but not an
  \<^verbatim>\<open>EmbeddedDocumentSerializer\<close>, or a list or dict value for a field whose source
  contains a dot. Nothing is constructed, assigned or saved then: the documents saved
  and the instance passed are as before. The guard accepts the data exactly when no
  field is of either kind, so an \<^verbatim>\<open>EmbeddedDocumentSerializer\<close> field never trips the
  first check.
\<close>

theorem nested_writes_rejected:
  "(raise_errors_on_nested_writes m s vd = Inr () \<longleftrightarrow>
      (\<forall>kf \<in> set (sfields s). \<forall>v. map_of vd (fst kf) = Some v \<longrightarrow>
         (isinstance (snd kf) BaseSerializer \<longrightarrow> isinstance (snd kf) EmbeddedDocumentSerializer) \<and>
         \<not> (CHR ''.'' \<in> set (source (snd kf)) \<and> is_list_or_dict v))) \<and>
   ((key, field) \<in> set (sfields s) \<and> map_of vd key = Some v \<and>
      (isinstance field BaseSerializer \<and> \<not> isinstance field EmbeddedDocumentSerializer \<or>
       CHR ''.'' \<in> set (source field) \<and> is_list_or_dict v) \<longrightarrow>
      (\<exists>msg. create E s vd db = (Inl (AssertionError msg), db)) \<and>
      (\<exists>msg. update E s inst vd db = (Inl (AssertionError msg), Some inst, db)))"
proof -
  have iff: "raise_errors_on_nested_writes m s vd = Inr () \<longleftrightarrow>
      (\<forall>kf \<in> set (sfields s). \<forall>v. map_of vd (fst kf) = Some v \<longrightarrow>
         (isinstance (snd kf) BaseSerializer \<longrightarrow> isinstance (snd kf) EmbeddedDocumentSerializer) \<and>
         \<not> (CHR ''.'' \<in> set (source (snd kf)) \<and> is_list_or_dict v))" for m
    unfolding raise_errors_Inr list_ex_iff nested_write_def dotted_write_def map_of_in_keys
    by (auto split: option.splits)
  have rejected: "(\<exists>msg. create E s vd db = (Inl (AssertionError msg), db)) \<and>
      (\<exists>msg. update E s inst vd db = (Inl (AssertionError msg), Some inst, db))"
    if "(key, field) \<in> set (sfields s)" "map_of vd key = Some v"
      "isinstance field BaseSerializer \<and> \<not> isinstance field EmbeddedDocumentSerializer \<or>
       CHR ''.'' \<in> set (source field) \<and> is_list_or_dict v"
  proof -
    from that have "raise_errors_on_nested_writes m' s vd \<noteq> Inr ()" for m'
      unfolding iff by force
    from raise_errors_Inl [OF this]
    obtain m1 m2 where "raise_errors_on_nested_writes ''create'' s vd = Inl (AssertionError m1)"
      and "raise_errors_on_nested_writes ''update'' s vd = Inl (AssertionError m2)"
      by metis
    then show ?thesis
      by (simp add: create_def update_def)
  qed
  from iff rejected show ?thesis by blast
qed

theorem nested_writes_rejected_witness:
  "(\<exists>msg. create ex_env ex_book [(''author'', VDict [(''name'', VStr ''Ann'')])] [] =
            (Inl (AssertionError msg), [])) \<and>
   (\<exists>msg. update ex_env ex_book (Document ''Book'' [(''title'', VStr ''Emma'')])
            [(''author'', VDict [(''name'', VStr ''Ann'')])] [] =
            (Inl (AssertionError msg), Some (Document ''Book'' [(''title'', VStr ''Emma'')]), []))"
proof -
  have 1: "(''author'', ex_author) \<in> set (sfields ex_book)"
    by (simp add: ex_book_def)
  have 2: "map_of [(''author'', VDict [(''name'', VStr ''Ann'')])] ''author'' =
      Some (VDict [(''name'', VStr ''Ann'')])"
    by simp
  have 3: "isinstance ex_author BaseSerializer \<and> \<not> isinstance ex_author EmbeddedDocumentSerializer"
    by code_simp
  from 1 2 3 nested_writes_rejected [of _ ex_book "[(''author'', VDict [(''name'', VStr ''Ann'')])]"
      "''author''" ex_author "VDict [(''name'', VStr ''Ann'')]" ex_env "[]"
      "Document ''Book'' [(''title'', VStr ''Emma'')]"]
  show ?thesis by blast
qed

subsection \<open>\<^verbatim>\<open>create\<close>\<close>

text \<open>
  C7, as stated, fails: \<^verbatim>\<open>create\<close> does not delegate entirely to \<^verbatim>\<open>recursive_save\<close>.
  It calls \<^verbatim>\<open>raise_errors_on_nested_writes\<close> first. On data with a value for the
  nested author serializer \<^verbatim>\<open>recursive_save\<close> returns a saved book, and \<^verbatim>\<open>create\<close>
  raises \<^verbatim>\<open>AssertionError\<close> and saves nothing.
\<close>

theorem create_delegates_counterexample:
  "recursive_save ex_env ex_book (VDict [(''author'', VDict [])]) None [] =
     (Inr (Document ''Book'' [(''author'', VDict [])]), None,
      [Document ''Book'' [(''author'', VDict [])]]) \<and>
   create ex_env ex_book [(''author'', VDict [])] [] =
     (Inl (AssertionError (nested_writes_msg ''create'' (fclass ex_book))), [])"
  by code_simp

text \<open>
  C7, amended. Whenever \<^verbatim>\<open>raise_errors_on_nested_writes\<close> accepts the validated data,
  \<^verbatim>\<open>create\<close> delegates to \<^verbatim>\<open>recursive_save\<close> on the validated data, with no
  instance: it returns the resulting instance; a \<^verbatim>\<open>TypeError\<close> is raised again as a
  \<^verbatim>\<open>TypeError\<close> and a mongoengine \<^verbatim>\<open>ValidationError\<close> as a mongoengine
  \<^verbatim>\<open>ValidationError\<close>, each with an explanatory message that ends in the original
  text; every other exception passes through unchanged. The documents saved are those
  \<^verbatim>\<open>recursive_save\<close> leaves.
\<close>

theorem create_delegates:
  assumes "raise_errors_on_nested_writes ''create'' s vd = Inr ()"
  shows
    "(\<forall>i p db1. recursive_save E s (VDict vd) None db = (Inr i, p, db1) \<longrightarrow>
        create E s vd db = (Inr i, db1)) \<and>
     (\<forall>exc p db1. recursive_save E s (VDict vd) None db = (Inl (TypeError exc), p, db1) \<longrightarrow>
        create E s vd db =
          (Inl (TypeError (create_TypeError_msg (Meta_model s) (cname (fclass s)) exc)), db1)) \<and>
     (\<forall>exc p db1.
        recursive_save E s (VDict vd) None db = (Inl (me_ValidationError exc), p, db1) \<longrightarrow>
        create E s vd db =
          (Inl (me_ValidationError
             (create_ValidationError_msg (Meta_model s) (cname (fclass s)) exc)), db1)) \<and>
     (\<forall>e p db1. recursive_save E s (VDict vd) None db = (Inl e, p, db1) \<longrightarrow>
        (\<forall>exc. e \<noteq> TypeError exc) \<longrightarrow> (\<forall>exc. e \<noteq> me_ValidationError exc) \<longrightarrow>
        create E s vd db = (Inl e, db1))"
proof (intro conjI allI impI)
  fix e p db1
  assume rs: "recursive_save E s (VDict vd) None db = (Inl e, p, db1)"
    and "\<forall>exc. e \<noteq> TypeError exc" "\<forall>exc. e \<noteq> me_ValidationError exc"
  then show "create E s vd db = (Inl e, db1)"
    using assms by (cases e) (simp_all add: create_def)
qed (simp_all add: create_def assms)

theorem create_delegates_witness:
  "create ex_env ex_book [(''title'', VStr ''Emma''), (''bogus'', VInt 1)] [] =
     (Inl (TypeError (create_TypeError_msg ''Book'' ''BookSerializer''
        ''unexpected keyword bogus'')), []) \<and>
   create ex_env ex_book [(''title'', VNone)] [] =
     (Inl (me_ValidationError (create_ValidationError_msg ''Book'' ''BookSerializer''
        ''title is required'')), []) \<and>
   create ex_env ex_book [(''title'', VStr ''Emma'')] [] =
     (Inr (Document ''Book'' [(''title'', VStr ''Emma'')]),
      [Document ''Book'' [(''title'', VStr ''Emma'')]])"
proof -
  have g1: "raise_errors_on_nested_writes ''create'' ex_book
      [(''title'', VStr ''Emma''), (''bogus'', VInt 1)] = Inr ()"
    by code_simp
  have r1: "recursive_save ex_env ex_book (VDict [(''title'', VStr ''Emma''), (''bogus'', VInt 1)])
      None [] = (Inl (TypeError ''unexpected keyword bogus''), None, [])"
    by code_simp
  have g2: "raise_errors_on_nested_writes ''create'' ex_book [(''title'', VNone)] = Inr ()"
    by code_simp
  have r2: "recursive_save ex_env ex_book (VDict [(''title'', VNone)]) None [] =
      (Inl (me_ValidationError ''title is required''), None, [])"
    by code_simp
  have g3: "raise_errors_on_nested_writes ''create'' ex_book [(''title'', VStr ''Emma'')] = Inr ()"
    by code_simp
  have r3: "recursive_save ex_env ex_book (VDict [(''title'', VStr ''Emma'')]) None [] =
      (Inr (Document ''Book'' [(''title'', VStr ''Emma'')]), None,
       [Document ''Book'' [(''title'', VStr ''Emma'')]])"
    by code_simp
  have m: "Meta_model ex_book = ''Book''" "cname (fclass ex_book) = ''BookSerializer''"
    by (simp_all add: ex_book_def)
  from create_delegates [OF g1, of ex_env "[]"] r1 m
  have "create ex_env ex_book [(''title'', VStr ''Emma''), (''bogus'', VInt 1)] [] =
     (Inl (TypeError (create_TypeError_msg ''Book'' ''BookSerializer''
        ''unexpected keyword bogus'')), [])"
    by simp
  moreover from create_delegates [OF g2, of ex_env "[]"] r2 m
  have "create ex_env ex_book [(''title'', VNone)] [] =
     (Inl (me_ValidationError (create_ValidationError_msg ''Book'' ''BookSerializer''
        ''title is required'')), [])"
    by simp
  moreover from create_delegates [OF g3, of ex_env "[]"] r3
  have "create ex_env ex_book [(''title'', VStr ''Emma'')] [] =
     (Inr (Document ''Book'' [(''title'', VStr ''Emma'')]),
      [Document ''Book'' [(''title'', VStr ''Emma'')]])"
    by simp
  ultimately show ?thesis by simp
qed

subsection \<open>What \<^verbatim>\<open>recursive_save\<close> does to the instance and to the database\<close>

lemma save_items_distinct:
  "save_items E s items me db = (Inr me', db') \<Longrightarrow> distinct (map fst me)
     \<Longrightarrow> distinct (map fst me')"
proof (induction items arbitrary: me db)
  case Nil
  then show ?case by simp
next
  case (Cons kv rest)
  obtain r db1 where si: "save_item E s (fst kv) (snd kv) db = (r, db1)"
    by (cases "save_item E s (fst kv) (snd kv) db") auto
  show ?case
  proof (cases r)
    case (Inl e)
    with si Cons.prems show ?thesis by simp
  next
    case (Inr x)
    with si Cons.prems
    have "save_items E s rest (AList.update (fst kv) x me) db1 = (Inr me', db')" by simp
    moreover have "distinct (map fst (AList.update (fst kv) x me))"
      using Cons.prems(2) by (rule distinct_update)
    ultimately show ?thesis by (rule Cons.IH)
  qed
qed

lemma map_of_fold_update:
  "distinct (map fst me) \<Longrightarrow>
     map_of (fold (\<lambda>kv. AList.update (fst kv) (snd kv)) me al) k =
       (case map_of me k of Some v \<Rightarrow> Some v | None \<Rightarrow> map_of al k)"
proof (induction me arbitrary: al)
  case Nil
  then show ?case by simp
next
  case (Cons kv me)
  then have notin: "fst kv \<notin> fst ` set me" and d: "distinct (map fst me)" by auto
  from notin have none: "map_of me (fst kv) = None" by (simp add: map_of_eq_None_iff)
  show ?case
    using Cons.IH [OF d, of "AList.update (fst kv) (snd kv) al"] none
    by (cases kv) (auto simp: update_conv' split: option.splits)
qed

text \<open>
  The intended behaviour holds of every instance that is true, and of \<^verbatim>\<open>None\<close>. Once
  the validated data is converted to \<open>me\<close> (no embedded sub-document is saved on the
  way), an instance with data is assigned exactly the attributes \<open>me\<close> names and is the
  instance returned; for \<^verbatim>\<open>None\<close> the model's constructor is called on \<open>me\<close>. \<^verbatim>\<open>save\<close>
  is called, once and on that instance, exactly when \<^verbatim>\<open>_saving_instances\<close> is true,
  which it is on \<^verbatim>\<open>DocumentSerializer\<close> and is not on \<^verbatim>\<open>EmbeddedDocumentSerializer\<close> nor
  on any of its subclasses.
\<close>

lemma recursive_save_effects:
  assumes "save_items E s items [] db = (Inr me, db1)" and "attrs inst \<noteq> []"
  shows
    "db1 = db \<and>
     model_of (setattrs inst me) = model_of inst \<and>
     (\<forall>k. map_of (attrs (setattrs inst me)) k =
        (case map_of me k of Some v \<Rightarrow> Some v | None \<Rightarrow> map_of (attrs inst) k)) \<and>
     (saving_instances (fclass s) = Some False \<longrightarrow>
        recursive_save E s (VDict items) (Some inst) db =
          (Inr (setattrs inst me), Some (setattrs inst me), db) \<and>
        (\<forall>i. model_new E (Meta_model s) me = Inr i \<longrightarrow>
           recursive_save E s (VDict items) None db = (Inr i, None, db))) \<and>
     (saving_instances (fclass s) = Some True \<longrightarrow>
        (\<forall>i'. doc_save E db (setattrs inst me) = Inr i' \<longrightarrow>
           recursive_save E s (VDict items) (Some inst) db = (Inr i', Some i', db @ [i'])) \<and>
        (\<forall>e. doc_save E db (setattrs inst me) = Inl e \<longrightarrow>
           recursive_save E s (VDict items) (Some inst) db =
             (Inl e, Some (setattrs inst me), db)) \<and>
        (\<forall>i i'. model_new E (Meta_model s) me = Inr i \<longrightarrow> doc_save E db i = Inr i' \<longrightarrow>
           recursive_save E s (VDict items) None db = (Inr i', None, db @ [i']))) \<and>
     saving_instances DocumentSerializer = Some True \<and>
     saving_instances EmbeddedDocumentSerializer = Some False \<and>
     (isinstance s EmbeddedDocumentSerializer \<longrightarrow>
        saving_instances (fclass s) = Some False \<and>
        (\<forall>v i. snd (snd (recursive_save E s v i db)) = db))"
proof -
  from db_unchanged(2) [of E s items "[]" db] assms have db1: "db1 = db" by simp
  have d: "distinct (map fst me)"
    using save_items_distinct [OF assms(1)] by simp
  have attrs: "map_of (attrs (setattrs inst me)) k =
      (case map_of me k of Some v \<Rightarrow> Some v | None \<Rightarrow> map_of (attrs inst) k)" for k
    using map_of_fold_update [OF d] by (simp add: setattrs_def)
  have rs: "recursive_save E s (VDict items) i db = finish E s me i db" for i
    using assms db1 by (simp add: recursive_save.simps py_items_def)
  have doc: "saving_instances DocumentSerializer = Some True"
    by code_simp
  have emb: "saving_instances EmbeddedDocumentSerializer = Some False"
    by code_simp
  have never: "snd (snd (recursive_save E s v i db)) = db"
    if "isinstance s EmbeddedDocumentSerializer" for v i
    using db_unchanged(1) [of s E v i db] that by simp
  have model: "model_of (setattrs inst me) = model_of inst"
    by (simp add: setattrs_def)
  have t: "instance_truthy (Some inst)" "\<not> instance_truthy None"
    using assms(2) by (simp_all add: instance_truthy_def)
  show ?thesis
    using db1 attrs doc emb never model
    by (auto simp: rs finish_def save_if_needed_def t isinstance_def saving_instances_embedded)
qed

text \<open>
  C5 fails on the code, on an instance that is false. \<^verbatim>\<open>recursive_save\<close> tests
  \<^verbatim>\<open>if not instance\<close> where it means that no instance was passed, and an embedded
  document without data is false. Given such an instance the settings serializer
  assigns nothing to it: it constructs a new document from the converted data and
  returns that one, and the instance passed is left as it was. An instance with
  data is assigned to and returned, as the claim says.
\<close>

theorem recursive_save_empty_instance:
  "recursive_save ex_env ex_settings (VDict [(''theme'', VStr ''dark'')])
     (Some (Document ''Settings'' [])) [] =
     (Inr (Document ''Settings'' [(''theme'', VStr ''dark'')]),
      Some (Document ''Settings'' []), []) \<and>
   recursive_save ex_env ex_settings (VDict [(''bogus'', VInt 1)])
     (Some (Document ''Settings'' [])) [] =
     (Inl (TypeError ''unexpected keyword bogus''), Some (Document ''Settings'' []), []) \<and>
   recursive_save ex_env ex_settings (VDict [(''theme'', VStr ''dark'')])
     (Some (Document ''Settings'' [(''lang'', VStr ''en'')])) [] =
     (Inr (Document ''Settings'' [(''lang'', VStr ''en''), (''theme'', VStr ''dark'')]),
      Some (Document ''Settings'' [(''lang'', VStr ''en''), (''theme'', VStr ''dark'')]), [])"
  by code_simp

subsection \<open>The conversion of validated data, key by key\<close>


lemma update_fresh: "k \<notin> fst ` set al \<Longrightarrow> AList.update k v al = al @ [(k, v)]"
  by (induction al) auto






section \<open>Properties of the field derivation\<close>

subsection \<open>\<^verbatim>\<open>build_field\<close>\<close>

lemma compound_is_list_or_dict:
  "isinstance_mf mf COMPOUND_FIELD_TYPES \<longleftrightarrow>
     isinstance_mf mf [me_ListField] \<or> isinstance_mf mf [me_DictField]"
  by (auto simp: isinstance_mf_def COMPOUND_FIELD_TYPES_def)

lemma has_key_pop: "has_key (pop k d) k' \<longleftrightarrow> k' \<noteq> k \<and> has_key d k'"
  by (simp add: has_key_def pop_def delete_conv')

lemma map_of_pop: "map_of (pop k d) k' = (if k' = k then None else map_of d k')"
  by (simp add: pop_def delete_conv')

lemma kw_true_pop: "kw_true (pop k d) k' \<longleftrightarrow> k' \<noteq> k \<and> kw_true d k'"
  by (simp add: kw_true_def map_of_pop)

lemma has_key_filter_keys:
  "has_key (filter (\<lambda>kv. fst kv \<in> K) d) k \<longleftrightarrow> k \<in> K \<and> has_key d k"
  by (induction d) (auto simp: has_key_def)

lemma pop_absent: "\<not> has_key d k \<Longrightarrow> pop k d = d"
  by (induction d) (auto simp: has_key_def pop_def)

text \<open>The class \<^verbatim>\<open>build_standard_field\<close> returns for a model field the mapping knows.\<close>

lemma build_standard_field_class:
  assumes "ClassLookupDict_getitem (serializer_field_mapping C) (Some mf) = Inr c0"
  shows "\<exists>kw. build_standard_field C n (Some mf) =
     Inr (plain (if has_key (get_field_kwargs C n mf) ''choices'' then drf_ChoiceField
                 else if has_key (get_field_kwargs C n mf) ''regex'' then drf_RegexField
                 else if c0 = drf_BooleanField \<and> kw_true (get_field_kwargs C n mf) ''allow_null''
                 then drf_NullBooleanField
                 else c0), kw)"
proof -
  let ?kw0 = "get_field_kwargs C n mf"
  have ne: "drf_ChoiceField \<noteq> drf_BooleanField" "drf_RegexField \<noteq> drf_BooleanField"
    by code_simp+
  have valid: "''regex'' \<notin> set valid_kwargs"
    by code_simp
  consider (choices) "has_key ?kw0 ''choices''"
    | (regex) "\<not> has_key ?kw0 ''choices''" "has_key ?kw0 ''regex''"
    | (null) "\<not> has_key ?kw0 ''choices''" "\<not> has_key ?kw0 ''regex''"
        "c0 = drf_BooleanField \<and> kw_true ?kw0 ''allow_null''"
    | (plain) "\<not> has_key ?kw0 ''choices''" "\<not> has_key ?kw0 ''regex''"
        "\<not> (c0 = drf_BooleanField \<and> kw_true ?kw0 ''allow_null'')"
    by blast
  then show ?thesis
  proof cases
    case choices
    with assms ne valid show ?thesis
      by (simp add: build_standard_field_def Let_def serializer_choice_field_def
          has_key_filter_keys)
  next
    case regex
    with assms ne show ?thesis
      by (simp add: build_standard_field_def Let_def)
  next
    case null
    with assms show ?thesis
      by (simp add: build_standard_field_def Let_def kw_true_pop)
  next
    case plain
    show ?thesis
    proof (cases "c0 = drf_BooleanField")
      case True
      with plain have "\<not> kw_true ?kw0 ''allow_null''" by simp
      with plain(1,2) True assms show ?thesis
        by (simp add: build_standard_field_def Let_def kw_true_pop)
    next
      case False
      with plain(1,2) assms show ?thesis
        by (simp add: build_standard_field_def Let_def)
    qed
  qed
qed

text \<open>
  C1. \<^verbatim>\<open>build_field\<close> dispatches on the field info, in this order, and this is what
  it builds. For a name in \<^verbatim>\<open>fields_and_pk\<close> whose model field is of a compound type,
  a \<^verbatim>\<open>ListField\<close> or a \<^verbatim>\<open>DictField\<close> with the kwargs of the model field, and with the
  field built for the \<^verbatim>\<open>.child\<close> entry as its \<^verbatim>\<open>child\<close> when the info has such an
  entry; for any other name in \<^verbatim>\<open>fields_and_pk\<close> the standard field, whose class is
  the one the field mapping has for the model field unless \<^verbatim>\<open>choices\<close>, \<^verbatim>\<open>regex\<close> or
  a nullable boolean change it. Otherwise, for a name in \<^verbatim>\<open>references\<close>, a
  \<^verbatim>\<open>NestedSerializer\<close> for the related model with \<^verbatim>\<open>depth\<close> one less, when
  \<^verbatim>\<open>nested_depth\<close> is true (neither \<^verbatim>\<open>0\<close> nor \<^verbatim>\<open>None\<close>) and there is a related model,
  and the flat reference field if not (the generic one without a related model).
  Otherwise, for a name in \<^verbatim>\<open>embedded\<close>, the generic embedded field when there is no
  related model, an \<^verbatim>\<open>EmbeddedSerializer\<close> for the related model with
  \<^verbatim>\<open>depth_embedding\<close> one less when \<^verbatim>\<open>embedded_depth\<close> is true, and a \<^verbatim>\<open>HiddenField\<close>
  with default \<^verbatim>\<open>None\<close> when it is not. For any remaining name, a \<^verbatim>\<open>ReadOnlyField\<close> if
  the model class has the attribute; if not, the framework's unknown field, which is
  the exception \<^verbatim>\<open>ImproperlyConfigured\<close>.
\<close>

theorem build_field_dispatch:
  "(\<forall>mf. map_of (fields_and_pk info) n = Some (Some mf) \<longrightarrow>
      isinstance_mf mf COMPOUND_FIELD_TYPES \<longrightarrow>
      (\<not> (has_key (info_fields info) (n @ ''.child'') \<or>
          has_key (embedded info) (n @ ''.child'') \<or>
          has_key (references info) (n @ ''.child'')) \<longrightarrow>
         build_field C n info mc nd ed =
           Inr (plain (if isinstance_mf mf [me_ListField] then drf_ListField
                       else drfm_DictField),
                pop ''model_field'' (get_field_kwargs C n mf))) \<and>
      (has_key (info_fields info) (n @ ''.child'') \<or>
       has_key (embedded info) (n @ ''.child'') \<or>
       has_key (references info) (n @ ''.child'') \<longrightarrow>
         (\<forall>cc ck. build_field C (n @ ''.child'') info mc nd ed = Inr (cc, ck) \<longrightarrow>
            init_field C cc ck = None \<longrightarrow>
            build_field C n info mc nd ed =
              Inr (plain (if isinstance_mf mf [me_ListField] then drf_ListField
                          else drfm_DictField),
                   AList.update ''child'' (KField (Field cc ck))
                     (pop ''model_field'' (get_field_kwargs C n mf)))) \<and>
         (\<forall>cc ck e. build_field C (n @ ''.child'') info mc nd ed = Inr (cc, ck) \<longrightarrow>
            init_field C cc ck = Some e \<longrightarrow> build_field C n info mc nd ed = Inl e) \<and>
         (\<forall>e. build_field C (n @ ''.child'') info mc nd ed = Inl e \<longrightarrow>
            build_field C n info mc nd ed = Inl e))) \<and>
   (\<forall>mf. map_of (fields_and_pk info) n = Some mf \<longrightarrow>
      (case mf of None \<Rightarrow> True | Some f \<Rightarrow> \<not> isinstance_mf f COMPOUND_FIELD_TYPES) \<longrightarrow>
      build_field C n info mc nd ed = build_standard_field C n mf \<and>
      (\<forall>f c0. mf = Some f \<longrightarrow>
         ClassLookupDict_getitem (serializer_field_mapping C) (Some f) = Inr c0 \<longrightarrow>
         (\<exists>kw. build_field C n info mc nd ed =
            Inr (plain (if has_key (get_field_kwargs C n f) ''choices'' then drf_ChoiceField
                        else if has_key (get_field_kwargs C n f) ''regex'' then drf_RegexField
                        else if c0 = drf_BooleanField \<and>
                                kw_true (get_field_kwargs C n f) ''allow_null''
                        then drf_NullBooleanField
                        else c0), kw)))) \<and>
   (\<forall>r. map_of (fields_and_pk info) n = None \<longrightarrow> map_of (references info) n = Some r \<longrightarrow>
      (\<forall>d rm. nd = Some d \<longrightarrow> d \<noteq> 0 \<longrightarrow> related_model r = Some rm \<longrightarrow>
         build_field C n info mc nd ed =
           Inr (\<lparr>cls = \<lparr>cmodule = ''rest_framework_mongoengine.serializers'',
                        cname = ''NestedSerializer'', bases = mro DocumentSerializer\<rparr>,
                  Meta = Some \<lparr>model = Attr (Some rm), depth = Attr (Some (d - 1)),
                                depth_embedding = Missing, meta_fields = ALL_FIELDS\<rparr>\<rparr>,
                get_nested_relation_kwargs C n r)) \<and>
      (nd = None \<or> nd = Some 0 \<or> related_model r = None \<longrightarrow>
         build_field C n info mc nd ed =
           Inr (plain (if related_model r = None then serializer_reference_generic C
                       else serializer_reference_field C),
                if related_model r = None \<and>
                   \<not> issubclass (serializer_reference_generic C) (drfm_DocumentField C)
                then pop ''model_field'' (get_relation_kwargs C n r)
                else get_relation_kwargs C n r))) \<and>
   (\<forall>r. map_of (fields_and_pk info) n = None \<longrightarrow> map_of (references info) n = None \<longrightarrow>
      map_of (embedded info) n = Some r \<longrightarrow>
      (related_model r = None \<longrightarrow>
         build_field C n info mc nd ed =
           Inr (plain (serializer_embedded_generic C), get_generic_embedded_kwargs C n r)) \<and>
      (\<forall>e rm. related_model r = Some rm \<longrightarrow> ed = Some e \<longrightarrow> e \<noteq> 0 \<longrightarrow>
         build_field C n info mc nd ed =
           Inr (\<lparr>cls = \<lparr>cmodule = ''rest_framework_mongoengine.serializers'',
                        cname = ''EmbeddedSerializer'',
                        bases = mro EmbeddedDocumentSerializer\<rparr>,
                  Meta = Some \<lparr>model = Attr (Some rm), depth = Missing,
                                depth_embedding = Attr (Some (e - 1)),
                                meta_fields = ALL_FIELDS\<rparr>\<rparr>,
                get_nested_embedded_kwargs C n r)) \<and>
      (related_model r \<noteq> None \<longrightarrow> ed = None \<or> ed = Some 0 \<longrightarrow>
         build_field C n info mc nd ed =
           Inr (plain drf_HiddenField,
                AList.update ''default'' (KVal VNone) (get_nested_embedded_kwargs C n r)))) \<and>
   (map_of (fields_and_pk info) n = None \<longrightarrow> map_of (references info) n = None \<longrightarrow>
      map_of (embedded info) n = None \<longrightarrow>
      (model_hasattr C mc n \<longrightarrow>
         build_field C n info mc nd ed = Inr (plain drf_ReadOnlyField, [])) \<and>
      (\<not> model_hasattr C mc n \<longrightarrow>
         build_field C n info mc nd ed =
           Inl (ImproperlyConfigured
             (''Field name `'' @ n @ ''` is not valid for model `'' @ mc @ ''`.''))))"
proof (intro conjI allI impI, goal_cases)
  case (1 mf)
  then show ?case
    by (subst build_field.simps)
      (auto simp: build_compound_field_def compound_is_list_or_dict)
next
  case (2 mf cc ck)
  then show ?case
    by (subst build_field.simps)
      (auto simp: build_compound_field_def compound_is_list_or_dict instantiate_def)
next
  case (3 mf cc ck e)
  then show ?case by (subst build_field.simps) (simp add: instantiate_def)
next
  case (4 mf e)
  then show ?case by (subst build_field.simps) simp
next
  case (5 mf)
  then show ?case by (cases mf) ((subst build_field.simps, simp)+)
next
  case (6 mf f c0)
  then have "build_field C n info mc nd ed = build_standard_field C n (Some f)"
    by (subst build_field.simps) simp
  with build_standard_field_class [OF 6(4), of n] show ?case by simp
next
  case (7 r d rm)
  then show ?case
    by (subst build_field.simps)
      (simp add: depth_truthy_def build_nested_reference_field_def)
next
  case (8 r)
  then show ?case
    by (subst build_field.simps)
      (auto simp: depth_truthy_def build_reference_field_def)
next
  case (9 r)
  then show ?case
    by (subst build_field.simps) (simp add: build_generic_embedded_field_def)
next
  case (10 r e rm)
  then show ?case
    by (subst build_field.simps)
      (simp add: depth_truthy_def build_nested_embedded_field_def)
next
  case (11 r)
  then show ?case
    by (subst build_field.simps)
      (auto simp: depth_truthy_def build_bottom_embedded_field_def serializer_embedded_bottom_def)
next
  case 12
  then show ?case
    by (subst build_field.simps) (simp add: build_property_field_def)
next
  case 13
  then show ?case
    by (subst build_field.simps) (simp add: build_unknown_field_def)
qed
theorem build_field_dispatch_witness:
  "build_field ex_ctx ''tags'' ex_book_info ''Book'' (Some 1) (Some 5) =
     Inr (plain drf_ListField,
          [(''required'', KVal (VBool False)),
           (''child'', KField (Field (plain drf_CharField) [(''required'', KVal (VBool False))]))]) \<and>
   (\<exists>kw. build_field ex_ctx ''isbn'' ex_book_info ''Book'' (Some 1) (Some 5) =
      Inr (plain drf_RegexField, kw)) \<and>
   build_field ex_ctx ''author'' ex_book_info ''Book'' (Some 1) (Some 5) =
     Inr (\<lparr>cls = \<lparr>cmodule = ''rest_framework_mongoengine.serializers'',
                  cname = ''NestedSerializer'', bases = mro DocumentSerializer\<rparr>,
            Meta = Some \<lparr>model = Attr (Some ''Author''), depth = Attr (Some 0),
                          depth_embedding = Missing, meta_fields = ALL_FIELDS\<rparr>\<rparr>,
          [(''read_only'', KVal (VBool True))]) \<and>
   build_field ex_ctx ''author'' ex_book_info ''Book'' (Some 0) (Some 5) =
     Inr (plain (ex_drfm ''ReferenceField''),
          [(''model_field'', KModelField (ex_mf ''Book'' ''author'' ''ReferenceField''))]) \<and>
   build_field ex_ctx ''extra'' ex_book_info ''Book'' (Some 1) (Some 5) =
     Inr (plain (ex_drfm ''GenericEmbeddedDocumentField''),
          [(''model_field'',
            KModelField (ex_mf ''Book'' ''extra'' ''GenericEmbeddedDocumentField''))]) \<and>
   build_field ex_ctx ''address'' ex_book_info ''Book'' (Some 1) (Some 5) =
     Inr (\<lparr>cls = \<lparr>cmodule = ''rest_framework_mongoengine.serializers'',
                  cname = ''EmbeddedSerializer'', bases = mro EmbeddedDocumentSerializer\<rparr>,
            Meta = Some \<lparr>model = Attr (Some ''Address''), depth = Missing,
                          depth_embedding = Attr (Some 4), meta_fields = ALL_FIELDS\<rparr>\<rparr>,
          []) \<and>
   build_field ex_ctx ''address'' ex_book_info ''Book'' (Some 1) (Some 0) =
     Inr (plain drf_HiddenField, [(''default'', KVal VNone)]) \<and>
   build_field ex_ctx ''summary'' ex_book_info ''Book'' (Some 1) (Some 5) =
     Inr (plain drf_ReadOnlyField, []) \<and>
   build_field ex_ctx ''price'' ex_book_info ''Book'' (Some 1) (Some 5) =
     Inl (ImproperlyConfigured ''Field name `price` is not valid for model `Book`.'')"
proof -
  let ?author = "ex_rel ''Book'' ''author'' ''ReferenceField'' (Some ''Author'')"
  let ?address = "ex_rel ''Book'' ''address'' ''EmbeddedDocumentField'' (Some ''Address'')"
  let ?extra = "ex_rel ''Book'' ''extra'' ''GenericEmbeddedDocumentField'' None"
  let ?isbn = "ex_mf ''Book'' ''isbn'' ''StringField''"
  note d = build_field_dispatch [where C = ex_ctx and info = ex_book_info and mc = "''Book''"]
  have tags: "map_of (fields_and_pk ex_book_info) ''tags'' = Some (Some ex_tags)"
    "isinstance_mf ex_tags COMPOUND_FIELD_TYPES"
    "has_key (info_fields ex_book_info) (''tags'' @ ''.child'') \<or>
     has_key (embedded ex_book_info) (''tags'' @ ''.child'') \<or>
     has_key (references ex_book_info) (''tags'' @ ''.child'')"
    "build_field ex_ctx (''tags'' @ ''.child'') ex_book_info ''Book'' (Some 1) (Some 5) =
       Inr (plain drf_CharField, [(''required'', KVal (VBool False))])"
    "init_field ex_ctx (plain drf_CharField) [(''required'', KVal (VBool False))] = None"
    by code_simp+
  have tags_kw: "isinstance_mf ex_tags [me_ListField]"
    "pop ''model_field'' (get_field_kwargs ex_ctx ''tags'' ex_tags) =
       [(''required'', KVal (VBool False))]"
    by code_simp+
  have isbn: "map_of (fields_and_pk ex_book_info) ''isbn'' = Some (Some ?isbn)"
    "(case Some ?isbn of None \<Rightarrow> True | Some f \<Rightarrow> \<not> isinstance_mf f COMPOUND_FIELD_TYPES)"
    "ClassLookupDict_getitem (serializer_field_mapping ex_ctx) (Some ?isbn) = Inr drf_CharField"
    by code_simp+
  have isbn_kw: "\<not> has_key (get_field_kwargs ex_ctx ''isbn'' ?isbn) ''choices''"
    "has_key (get_field_kwargs ex_ctx ''isbn'' ?isbn) ''regex''"
    by code_simp+
  have author: "map_of (fields_and_pk ex_book_info) ''author'' = None"
    "map_of (references ex_book_info) ''author'' = Some ?author"
    "related_model ?author = Some ''Author''"
    by code_simp+
  have author_kw: "get_nested_relation_kwargs ex_ctx ''author'' ?author =
      [(''read_only'', KVal (VBool True))]"
    "get_relation_kwargs ex_ctx ''author'' ?author =
      [(''model_field'', KModelField (ex_mf ''Book'' ''author'' ''ReferenceField''))]"
    "serializer_reference_field ex_ctx = ex_drfm ''ReferenceField''"
    by code_simp+
  have extra: "map_of (fields_and_pk ex_book_info) ''extra'' = None"
    "map_of (references ex_book_info) ''extra'' = None"
    "map_of (embedded ex_book_info) ''extra'' = Some ?extra"
    "related_model ?extra = None"
    by code_simp+
  have extra_kw: "serializer_embedded_generic ex_ctx = ex_drfm ''GenericEmbeddedDocumentField''"
    "get_generic_embedded_kwargs ex_ctx ''extra'' ?extra =
      [(''model_field'',
        KModelField (ex_mf ''Book'' ''extra'' ''GenericEmbeddedDocumentField''))]"
    by code_simp+
  have address: "map_of (fields_and_pk ex_book_info) ''address'' = None"
    "map_of (references ex_book_info) ''address'' = None"
    "map_of (embedded ex_book_info) ''address'' = Some ?address"
    "related_model ?address = Some ''Address''"
    by code_simp+
  have address_kw: "get_nested_embedded_kwargs ex_ctx ''address'' ?address = []"
    by code_simp
  have summary: "map_of (fields_and_pk ex_book_info) ''summary'' = None"
    "map_of (references ex_book_info) ''summary'' = None"
    "map_of (embedded ex_book_info) ''summary'' = None"
    "model_hasattr ex_ctx ''Book'' ''summary''"
    by code_simp+
  have price: "map_of (fields_and_pk ex_book_info) ''price'' = None"
    "map_of (references ex_book_info) ''price'' = None"
    "map_of (embedded ex_book_info) ''price'' = None"
    "\<not> model_hasattr ex_ctx ''Book'' ''price''"
    by code_simp+
  from d [THEN conjunct1, rule_format, THEN conjunct2, rule_format,
      THEN conjunct1, rule_format, OF tags]
  have 1: "build_field ex_ctx ''tags'' ex_book_info ''Book'' (Some 1) (Some 5) =
     Inr (plain drf_ListField,
          [(''required'', KVal (VBool False)),
           (''child'', KField (Field (plain drf_CharField) [(''required'', KVal (VBool False))]))])"
    by (simp add: tags_kw)
  from d [THEN conjunct2, THEN conjunct1, rule_format, OF isbn(1,2), THEN conjunct2,
      rule_format, OF refl isbn(3)] isbn_kw
  have 2: "\<exists>kw. build_field ex_ctx ''isbn'' ex_book_info ''Book'' (Some 1) (Some 5) =
      Inr (plain drf_RegexField, kw)"
    by simp
  from d [THEN conjunct2, THEN conjunct2, THEN conjunct1, rule_format, OF author(1,2),
      THEN conjunct1, rule_format, OF refl _ author(3), of 1]
  have 3: "build_field ex_ctx ''author'' ex_book_info ''Book'' (Some 1) (Some 5) =
     Inr (\<lparr>cls = \<lparr>cmodule = ''rest_framework_mongoengine.serializers'',
                  cname = ''NestedSerializer'', bases = mro DocumentSerializer\<rparr>,
            Meta = Some \<lparr>model = Attr (Some ''Author''), depth = Attr (Some 0),
                          depth_embedding = Missing, meta_fields = ALL_FIELDS\<rparr>\<rparr>,
          [(''read_only'', KVal (VBool True))])"
    by (simp add: author_kw)
  from d [THEN conjunct2, THEN conjunct2, THEN conjunct1, rule_format, OF author(1,2),
      THEN conjunct2, rule_format, of "Some 0"]
  have 4: "build_field ex_ctx ''author'' ex_book_info ''Book'' (Some 0) (Some 5) =
     Inr (plain (ex_drfm ''ReferenceField''),
          [(''model_field'', KModelField (ex_mf ''Book'' ''author'' ''ReferenceField''))])"
    by (simp add: author_kw author(3))
  from d [THEN conjunct2, THEN conjunct2, THEN conjunct2, THEN conjunct1, rule_format,
      OF extra(1-3), THEN conjunct1, rule_format, OF extra(4)]
  have 5: "build_field ex_ctx ''extra'' ex_book_info ''Book'' (Some 1) (Some 5) =
     Inr (plain (ex_drfm ''GenericEmbeddedDocumentField''),
          [(''model_field'',
            KModelField (ex_mf ''Book'' ''extra'' ''GenericEmbeddedDocumentField''))])"
    unfolding extra_kw .
  from d [THEN conjunct2, THEN conjunct2, THEN conjunct2, THEN conjunct1, rule_format,
      OF address(1-3), THEN conjunct2, THEN conjunct1, rule_format, OF address(4) refl, of 5]
  have 6: "build_field ex_ctx ''address'' ex_book_info ''Book'' (Some 1) (Some 5) =
     Inr (\<lparr>cls = \<lparr>cmodule = ''rest_framework_mongoengine.serializers'',
                  cname = ''EmbeddedSerializer'', bases = mro EmbeddedDocumentSerializer\<rparr>,
            Meta = Some \<lparr>model = Attr (Some ''Address''), depth = Missing,
                          depth_embedding = Attr (Some 4), meta_fields = ALL_FIELDS\<rparr>\<rparr>,
          [])"
    by (simp add: address_kw)
  from d [THEN conjunct2, THEN conjunct2, THEN conjunct2, THEN conjunct1, rule_format,
      OF address(1-3), THEN conjunct2, THEN conjunct2, rule_format, of "Some 0"] address(4)
  have 7: "build_field ex_ctx ''address'' ex_book_info ''Book'' (Some 1) (Some 0) =
     Inr (plain drf_HiddenField, [(''default'', KVal VNone)])"
    by (simp add: address_kw)
  have 8: "build_field ex_ctx ''summary'' ex_book_info ''Book'' (Some 1) (Some 5) =
     Inr (plain drf_ReadOnlyField, [])"
    by (rule d [THEN conjunct2, THEN conjunct2, THEN conjunct2, THEN conjunct2, rule_format,
          THEN conjunct1, rule_format, OF summary])
  from d [THEN conjunct2, THEN conjunct2, THEN conjunct2, THEN conjunct2, rule_format,
      THEN conjunct2, rule_format, OF price]
  have 9: "build_field ex_ctx ''price'' ex_book_info ''Book'' (Some 1) (Some 5) =
     Inl (ImproperlyConfigured ''Field name `price` is not valid for model `Book`.'')"
    by simp
  from 1 2 3 4 5 6 7 8 9 show ?thesis by (intro conjI)
qed
subsection \<open>\<^verbatim>\<open>build_standard_field\<close>\<close>

lemma drf_not_drfm:
  assumes "cmodule d = ''rest_framework_mongoengine.fields''"
  shows "\<not> issubclass (drf_class n (mro drf_Field)) d"
    and "\<not> issubclass (drf_class n (mro drf_CharField)) d"
  using assms
  by (simp_all add: issubclass_def mro_def qualname_def drf_class_def drf_Field_def
      drf_CharField_def)

text \<open>
  C8, as stated, fails where its cases overlap. The model field \<^verbatim>\<open>reviewed\<close> is a
  boolean field, mapped to \<^verbatim>\<open>BooleanField\<close>, and its kwargs have \<^verbatim>\<open>allow_null\<close> true
  and \<^verbatim>\<open>choices\<close>. The step for \<^verbatim>\<open>choices\<close> comes first and makes the class the choice
  field, so the field is not returned as a \<^verbatim>\<open>NullBooleanField\<close> and \<^verbatim>\<open>allow_null\<close>
  is not removed.
\<close>

theorem build_standard_field_counterexample:
  "ClassLookupDict_getitem (serializer_field_mapping ex_ctx)
     (Some (ex_mf ''Book'' ''reviewed'' ''BooleanField'')) = Inr drf_BooleanField \<and>
   kw_true (get_field_kwargs ex_ctx ''reviewed'' (ex_mf ''Book'' ''reviewed'' ''BooleanField''))
     ''allow_null'' \<and>
   build_standard_field ex_ctx ''reviewed'' (Some (ex_mf ''Book'' ''reviewed'' ''BooleanField'')) =
     Inr (plain drf_ChoiceField,
          [(''allow_null'', KVal (VBool True)), (''choices'', KObj ''YES_NO'')])"
  by code_simp

text \<open>
  C8, amended: the steps apply in the order of the source, and an earlier one
  excludes the later ones. For a model field whose class the field mapping knows, let
  \<open>kw0\<close> be the kwargs \<^verbatim>\<open>get_field_kwargs\<close> derives. With \<^verbatim>\<open>choices\<close> in \<open>kw0\<close> the class
  is the choice field and the kwargs are those of \<open>kw0\<close> in the fixed valid set, all
  of them. Without \<^verbatim>\<open>choices\<close> and with \<^verbatim>\<open>regex\<close>, the class is \<^verbatim>\<open>RegexField\<close>, and
  only \<^verbatim>\<open>model_field\<close> is removed. Without both, a field mapped to \<^verbatim>\<open>BooleanField\<close>
  whose \<^verbatim>\<open>allow_null\<close> is true is returned as a \<^verbatim>\<open>NullBooleanField\<close>, without
  \<^verbatim>\<open>allow_null\<close>, \<^verbatim>\<open>default\<close>, \<^verbatim>\<open>allow_blank\<close> and \<^verbatim>\<open>model_field\<close>. In every other case
  the class is the mapped one, and \<open>kw0\<close> is returned without \<^verbatim>\<open>model_field\<close> unless
  the class is a \<^verbatim>\<open>DocumentField\<close>, and without \<^verbatim>\<open>allow_blank\<close> unless it is a
  \<^verbatim>\<open>CharField\<close> or a \<^verbatim>\<open>ChoiceField\<close>. So in all cases \<^verbatim>\<open>allow_blank\<close> is kept exactly
  for the \<^verbatim>\<open>CharField\<close> and \<^verbatim>\<open>ChoiceField\<close> classes and \<^verbatim>\<open>model_field\<close> exactly for the
  \<^verbatim>\<open>DocumentField\<close> classes. \<^verbatim>\<open>DocumentField\<close> is the package's own class, of the
  module \<^verbatim>\<open>rest_framework_mongoengine.fields\<close>.
\<close>

theorem build_standard_field_postprocess:
  assumes "ClassLookupDict_getitem (serializer_field_mapping C) (Some mf) = Inr c0"
    and "cmodule (drfm_DocumentField C) = ''rest_framework_mongoengine.fields''"
  shows
    "(has_key (get_field_kwargs C n mf) ''choices'' \<longrightarrow>
        build_standard_field C n (Some mf) =
          Inr (plain drf_ChoiceField,
               filter (\<lambda>kv. fst kv \<in> set valid_kwargs) (get_field_kwargs C n mf))) \<and>
     (\<not> has_key (get_field_kwargs C n mf) ''choices'' \<longrightarrow>
      has_key (get_field_kwargs C n mf) ''regex'' \<longrightarrow>
        build_standard_field C n (Some mf) =
          Inr (plain drf_RegexField, pop ''model_field'' (get_field_kwargs C n mf))) \<and>
     (\<not> has_key (get_field_kwargs C n mf) ''choices'' \<longrightarrow>
      \<not> has_key (get_field_kwargs C n mf) ''regex'' \<longrightarrow>
      c0 = drf_BooleanField \<longrightarrow> kw_true (get_field_kwargs C n mf) ''allow_null'' \<longrightarrow>
        build_standard_field C n (Some mf) =
          Inr (plain drf_NullBooleanField,
               pop ''default'' (pop ''allow_null'' (pop ''allow_blank''
                 (pop ''model_field'' (get_field_kwargs C n mf)))))) \<and>
     (\<not> has_key (get_field_kwargs C n mf) ''choices'' \<longrightarrow>
      \<not> has_key (get_field_kwargs C n mf) ''regex'' \<longrightarrow>
      \<not> (c0 = drf_BooleanField \<and> kw_true (get_field_kwargs C n mf) ''allow_null'') \<longrightarrow>
        build_standard_field C n (Some mf) =
          Inr (plain c0,
               (if issubclass c0 drf_CharField \<or> issubclass c0 drf_ChoiceField
                then (if issubclass c0 (drfm_DocumentField C) then get_field_kwargs C n mf
                      else pop ''model_field'' (get_field_kwargs C n mf))
                else pop ''allow_blank''
                       (if issubclass c0 (drfm_DocumentField C) then get_field_kwargs C n mf
                        else pop ''model_field'' (get_field_kwargs C n mf))))) \<and>
     (\<exists>fc kw. build_standard_field C n (Some mf) = Inr (fc, kw) \<and>
        (has_key kw ''allow_blank'' \<longleftrightarrow>
           has_key (get_field_kwargs C n mf) ''allow_blank'' \<and>
           (issubclass (cls fc) drf_CharField \<or> issubclass (cls fc) drf_ChoiceField)) \<and>
        (has_key kw ''model_field'' \<longleftrightarrow>
           has_key (get_field_kwargs C n mf) ''model_field'' \<and>
           issubclass (cls fc) (drfm_DocumentField C)))"
proof -
  let ?kw0 = "get_field_kwargs C n mf"
  note nd = drf_not_drfm [OF assms(2)]
  have doc: "\<not> issubclass drf_ChoiceField (drfm_DocumentField C)"
    "\<not> issubclass drf_RegexField (drfm_DocumentField C)"
    "\<not> issubclass drf_BooleanField (drfm_DocumentField C)"
    "\<not> issubclass drf_NullBooleanField (drfm_DocumentField C)"
    unfolding drf_ChoiceField_def drf_RegexField_def drf_BooleanField_def
      drf_NullBooleanField_def
    by (rule nd)+
  have cls: "issubclass drf_ChoiceField drf_ChoiceField" "issubclass drf_RegexField drf_CharField"
    "\<not> issubclass drf_BooleanField drf_CharField" "\<not> issubclass drf_BooleanField drf_ChoiceField"
    "\<not> issubclass drf_NullBooleanField drf_CharField"
    "\<not> issubclass drf_NullBooleanField drf_ChoiceField"
    "drf_ChoiceField \<noteq> drf_BooleanField" "drf_RegexField \<noteq> drf_BooleanField"
    by code_simp+
  have valid: "''regex'' \<notin> set valid_kwargs" "''model_field'' \<notin> set valid_kwargs"
    "''allow_blank'' \<in> set valid_kwargs"
    by code_simp+
  have 1: "build_standard_field C n (Some mf) =
      Inr (plain drf_ChoiceField, filter (\<lambda>kv. fst kv \<in> set valid_kwargs) ?kw0)"
    if "has_key ?kw0 ''choices''"
    using that assms(1) doc cls valid
    by (simp add: build_standard_field_def Let_def serializer_choice_field_def
        has_key_filter_keys pop_absent)
  have 2: "build_standard_field C n (Some mf) = Inr (plain drf_RegexField, pop ''model_field'' ?kw0)"
    if "\<not> has_key ?kw0 ''choices''" "has_key ?kw0 ''regex''"
    using that assms(1) doc cls
    by (simp add: build_standard_field_def Let_def)
  have 3: "build_standard_field C n (Some mf) =
      Inr (plain drf_NullBooleanField,
           pop ''default'' (pop ''allow_null'' (pop ''allow_blank'' (pop ''model_field'' ?kw0))))"
    if "\<not> has_key ?kw0 ''choices''" "\<not> has_key ?kw0 ''regex''" "c0 = drf_BooleanField"
      "kw_true ?kw0 ''allow_null''"
    using that assms(1) doc cls
    by (simp add: build_standard_field_def Let_def kw_true_pop)
  have 4: "build_standard_field C n (Some mf) =
      Inr (plain c0,
           (if issubclass c0 drf_CharField \<or> issubclass c0 drf_ChoiceField
            then (if issubclass c0 (drfm_DocumentField C) then ?kw0
                  else pop ''model_field'' ?kw0)
            else pop ''allow_blank''
                   (if issubclass c0 (drfm_DocumentField C) then ?kw0
                    else pop ''model_field'' ?kw0)))"
    if "\<not> has_key ?kw0 ''choices''" "\<not> has_key ?kw0 ''regex''"
      "\<not> (c0 = drf_BooleanField \<and> kw_true ?kw0 ''allow_null'')"
  proof (cases "c0 = drf_BooleanField")
    case True
    with that have "\<not> kw_true ?kw0 ''allow_null''" by simp
    with that(1,2) True assms(1) doc cls show ?thesis
      by (simp add: build_standard_field_def Let_def kw_true_pop)
  next
    case False
    with that(1,2) assms(1) show ?thesis
      by (simp add: build_standard_field_def Let_def)
  qed
  have 5: "\<exists>fc kw. build_standard_field C n (Some mf) = Inr (fc, kw) \<and>
      (has_key kw ''allow_blank'' \<longleftrightarrow>
         has_key ?kw0 ''allow_blank'' \<and>
         (issubclass (cls fc) drf_CharField \<or> issubclass (cls fc) drf_ChoiceField)) \<and>
      (has_key kw ''model_field'' \<longleftrightarrow>
         has_key ?kw0 ''model_field'' \<and> issubclass (cls fc) (drfm_DocumentField C))"
  proof -
    consider (choices) "has_key ?kw0 ''choices''"
      | (regex) "\<not> has_key ?kw0 ''choices''" "has_key ?kw0 ''regex''"
      | (null) "\<not> has_key ?kw0 ''choices''" "\<not> has_key ?kw0 ''regex''"
          "c0 = drf_BooleanField" "kw_true ?kw0 ''allow_null''"
      | (plain) "\<not> has_key ?kw0 ''choices''" "\<not> has_key ?kw0 ''regex''"
          "\<not> (c0 = drf_BooleanField \<and> kw_true ?kw0 ''allow_null'')"
      by blast
    then show ?thesis
    proof cases
      case choices
      from 1 [OF choices] doc cls valid show ?thesis
        by (simp add: plain_def has_key_filter_keys)
    next
      case regex
      from 2 [OF regex] doc cls show ?thesis
        by (simp add: plain_def has_key_pop)
    next
      case null
      from 3 [OF null] doc cls show ?thesis
        by (simp add: plain_def has_key_pop)
    next
      case plain
      from 4 [OF plain] show ?thesis
        by (auto simp: plain_def has_key_pop)
    qed
  qed
  from 1 2 3 4 5 show ?thesis by blast
qed

theorem build_standard_field_postprocess_witness:
  "build_standard_field ex_ctx ''genre'' (Some (ex_mf ''Book'' ''genre'' ''StringField'')) =
     Inr (plain drf_ChoiceField,
          [(''choices'', KObj ''GENRES''), (''allow_blank'', KVal (VBool True))]) \<and>
   build_standard_field ex_ctx ''isbn'' (Some (ex_mf ''Book'' ''isbn'' ''StringField'')) =
     Inr (plain drf_RegexField,
          [(''regex'', KObj ''ISBN''), (''allow_blank'', KVal (VBool True))]) \<and>
   build_standard_field ex_ctx ''in_print'' (Some (ex_mf ''Book'' ''in_print'' ''BooleanField'')) =
     Inr (plain drf_NullBooleanField, []) \<and>
   build_standard_field ex_ctx ''blob'' (Some (ex_mf ''Book'' ''blob'' ''BinaryField'')) =
     Inr (plain (ex_drfm ''DocumentField''),
          [(''model_field'', KModelField (ex_mf ''Book'' ''blob'' ''BinaryField'')),
           (''required'', KVal (VBool False))])"
proof -
  let ?genre = "ex_mf ''Book'' ''genre'' ''StringField''"
  let ?isbn = "ex_mf ''Book'' ''isbn'' ''StringField''"
  let ?in_print = "ex_mf ''Book'' ''in_print'' ''BooleanField''"
  let ?blob = "ex_mf ''Book'' ''blob'' ''BinaryField''"
  have m: "cmodule (drfm_DocumentField ex_ctx) = ''rest_framework_mongoengine.fields''"
    by code_simp
  have genre:
    "ClassLookupDict_getitem (serializer_field_mapping ex_ctx) (Some ?genre) = Inr drf_CharField"
    "has_key (get_field_kwargs ex_ctx ''genre'' ?genre) ''choices''"
    by code_simp+
  have genre_kw:
    "filter (\<lambda>kv. fst kv \<in> set valid_kwargs) (get_field_kwargs ex_ctx ''genre'' ?genre) =
       [(''choices'', KObj ''GENRES''), (''allow_blank'', KVal (VBool True))]"
    by code_simp
  have isbn:
    "ClassLookupDict_getitem (serializer_field_mapping ex_ctx) (Some ?isbn) = Inr drf_CharField"
    "\<not> has_key (get_field_kwargs ex_ctx ''isbn'' ?isbn) ''choices''"
    "has_key (get_field_kwargs ex_ctx ''isbn'' ?isbn) ''regex''"
    by code_simp+
  have isbn_kw: "pop ''model_field'' (get_field_kwargs ex_ctx ''isbn'' ?isbn) =
      [(''regex'', KObj ''ISBN''), (''allow_blank'', KVal (VBool True))]"
    by code_simp
  have in_print:
    "ClassLookupDict_getitem (serializer_field_mapping ex_ctx) (Some ?in_print) =
       Inr drf_BooleanField"
    "\<not> has_key (get_field_kwargs ex_ctx ''in_print'' ?in_print) ''choices''"
    "\<not> has_key (get_field_kwargs ex_ctx ''in_print'' ?in_print) ''regex''"
    "kw_true (get_field_kwargs ex_ctx ''in_print'' ?in_print) ''allow_null''"
    by code_simp+
  have in_print_kw: "pop ''default'' (pop ''allow_null'' (pop ''allow_blank''
      (pop ''model_field'' (get_field_kwargs ex_ctx ''in_print'' ?in_print)))) = []"
    by code_simp
  have blob:
    "ClassLookupDict_getitem (serializer_field_mapping ex_ctx) (Some ?blob) =
       Inr (ex_drfm ''DocumentField'')"
    "\<not> has_key (get_field_kwargs ex_ctx ''blob'' ?blob) ''choices''"
    "\<not> has_key (get_field_kwargs ex_ctx ''blob'' ?blob) ''regex''"
    "\<not> (ex_drfm ''DocumentField'' = drf_BooleanField \<and>
        kw_true (get_field_kwargs ex_ctx ''blob'' ?blob) ''allow_null'')"
    by code_simp+
  have blob_kw: "issubclass (ex_drfm ''DocumentField'') (drfm_DocumentField ex_ctx)"
    "\<not> issubclass (ex_drfm ''DocumentField'') drf_CharField"
    "\<not> issubclass (ex_drfm ''DocumentField'') drf_ChoiceField"
    "pop ''allow_blank'' (get_field_kwargs ex_ctx ''blob'' ?blob) =
       [(''model_field'', KModelField ?blob), (''required'', KVal (VBool False))]"
    by code_simp+
  from build_standard_field_postprocess [OF genre(1) m, of "''genre''",
      THEN conjunct1, rule_format, OF genre(2)]
  have 1: "build_standard_field ex_ctx ''genre'' (Some ?genre) =
     Inr (plain drf_ChoiceField,
          [(''choices'', KObj ''GENRES''), (''allow_blank'', KVal (VBool True))])"
    by (simp add: genre_kw)
  from build_standard_field_postprocess [OF isbn(1) m, of "''isbn''",
      THEN conjunct2, THEN conjunct1, rule_format, OF isbn(2,3)]
  have 2: "build_standard_field ex_ctx ''isbn'' (Some ?isbn) =
     Inr (plain drf_RegexField,
          [(''regex'', KObj ''ISBN''), (''allow_blank'', KVal (VBool True))])"
    by (simp add: isbn_kw)
  from build_standard_field_postprocess [OF in_print(1) m, of "''in_print''",
      THEN conjunct2, THEN conjunct2, THEN conjunct1, rule_format, OF in_print(2,3) refl
      in_print(4)]
  have 3: "build_standard_field ex_ctx ''in_print'' (Some ?in_print) =
     Inr (plain drf_NullBooleanField, [])"
    by (simp add: in_print_kw)
  from build_standard_field_postprocess [OF blob(1) m, of "''blob''",
      THEN conjunct2, THEN conjunct2, THEN conjunct2, THEN conjunct1, rule_format, OF blob(2-4)]
  have 4: "build_standard_field ex_ctx ''blob'' (Some ?blob) =
     Inr (plain (ex_drfm ''DocumentField''),
          [(''model_field'', KModelField ?blob), (''required'', KVal (VBool False))])"
    by (simp add: blob_kw)
  from 1 2 3 4 show ?thesis by (intro conjI)
qed
subsection \<open>\<^verbatim>\<open>get_fields\<close>\<close>

lemma build_fields_step:
  assumes "build_fields C decl extra info mn d de (x # rest) acc = Inr fs"
  shows "\<exists>v. good_field C decl extra info mn d de x v \<and>
     build_fields C decl extra info mn d de rest (AList.update x v acc) = Inr fs"
proof (cases "map_of decl x")
  case None
  show ?thesis
  proof (cases "build_field C x info mn d de")
    case (Inl e)
    with None assms show ?thesis by simp
  next
    case (Inr b)
    show ?thesis
    proof (cases "instantiate C (fst b) (include_extra_kwargs C (snd b)
        (case map_of extra x of None \<Rightarrow> [] | Some k \<Rightarrow> k))")
      case (Inl e)
      with None Inr assms show ?thesis by simp
    next
      case f: (Inr f)
      with None Inr assms show ?thesis by (simp add: good_field_def)
    qed
  qed
next
  case (Some f)
  with assms show ?thesis by (simp add: good_field_def)
qed

lemma build_fields_result:
  assumes "build_fields C decl extra info mn d de names acc = Inr fs"
  shows "(distinct (map fst acc) \<longrightarrow> distinct (map fst fs)) \<and>
     (\<forall>n. n \<notin> set names \<longrightarrow> map_of fs n = map_of acc n) \<and>
     (\<forall>n \<in> set names. \<exists>v. map_of fs n = Some v \<and> good_field C decl extra info mn d de n v)"
  using assms
proof (induction names arbitrary: acc)
  case Nil
  then show ?case by simp
next
  case (Cons x rest)
  from build_fields_step [OF Cons.prems] obtain v
    where v: "good_field C decl extra info mn d de x v"
      and step: "build_fields C decl extra info mn d de rest (AList.update x v acc) = Inr fs"
    by blast
  note IH = Cons.IH [OF step]
  from IH have ih1: "distinct (map fst (AList.update x v acc)) \<longrightarrow> distinct (map fst fs)"
    and ih2: "\<And>n. n \<notin> set rest \<Longrightarrow> map_of fs n = map_of (AList.update x v acc) n"
    and ih3: "\<And>n. n \<in> set rest \<Longrightarrow>
      \<exists>v. map_of fs n = Some v \<and> good_field C decl extra info mn d de n v"
    by blast+
  have 1: "distinct (map fst acc) \<longrightarrow> distinct (map fst fs)"
    using ih1 by (simp add: distinct_update)
  have 2: "map_of fs n = map_of acc n" if "n \<notin> set (x # rest)" for n
    using ih2 [of n] that by (simp add: update_conv')
  have 3: "\<exists>v. map_of fs n = Some v \<and> good_field C decl extra info mn d de n v"
    if "n \<in> set (x # rest)" for n
  proof (cases "n \<in> set rest")
    case True
    then show ?thesis by (rule ih3)
  next
    case False
    with that have "n = x" by simp
    with ih2 [OF False] v show ?thesis by (simp add: update_conv')
  qed
  from 1 2 3 show ?case by blast
qed

lemma build_fields_returns:
  assumes "\<forall>n \<in> set names. map_of decl n = None \<longrightarrow>
     (\<exists>fc kw. build_field C n info mn d de = Inr (fc, kw) \<and>
        init_field C fc (include_extra_kwargs C kw
          (case map_of extra n of None \<Rightarrow> [] | Some k \<Rightarrow> k)) = None)"
  shows "\<exists>fs. build_fields C decl extra info mn d de names acc = Inr fs"
  using assms
proof (induction names arbitrary: acc)
  case Nil
  show ?case by simp
next
  case (Cons x rest)
  then have rest: "\<forall>n \<in> set rest. map_of decl n = None \<longrightarrow>
     (\<exists>fc kw. build_field C n info mn d de = Inr (fc, kw) \<and>
        init_field C fc (include_extra_kwargs C kw
          (case map_of extra n of None \<Rightarrow> [] | Some k \<Rightarrow> k)) = None)"
    by simp
  show ?case
  proof (cases "map_of decl x")
    case None
    with Cons.prems obtain fc kw where "build_field C x info mn d de = Inr (fc, kw)"
      "init_field C fc (include_extra_kwargs C kw
         (case map_of extra x of None \<Rightarrow> [] | Some k \<Rightarrow> k)) = None"
      by auto
    with None Cons.IH [OF rest] show ?thesis by (simp add: instantiate_def)
  next
    case (Some f)
    with Cons.IH [OF rest] show ?thesis by simp
  qed
qed

lemma get_uniqueness_hidden:
  "get_uniqueness_extra_kwargs C mn names ex = Inr (e, h) \<Longrightarrow> h = []"
  by (auto simp: get_uniqueness_extra_kwargs_def split: prod.splits sum.splits)

lemma get_fields_model:
  assumes "Meta (ser_class self) = Some m" "model m = Attr (Some mn)" "depth_ok m"
    "\<not> is_abstract_model C mn"
  shows "get_fields C self =
     (case get_field_names C self m (declared_fields self) (get_field_info C mn) of
        Inl e \<Rightarrow> Inl e
      | Inr field_names \<Rightarrow>
          (case get_extra_kwargs self of
             Inl e \<Rightarrow> Inl e
           | Inr extra_kwargs \<Rightarrow>
               (case get_uniqueness_extra_kwargs C mn field_names extra_kwargs of
                  Inl e \<Rightarrow> Inl e
                | Inr (extra, hidden_fields) \<Rightarrow>
                    (case build_fields C (declared_fields self) extra (get_field_info C mn) mn
                            (getattr (depth m) (Some 0)) (getattr (depth_embedding m) (Some 5))
                            field_names [] of
                       Inl e \<Rightarrow> Inl e
                     | Inr built_fields \<Rightarrow> Inr (dict_update built_fields hidden_fields)))))"
proof (cases "getattr (depth m) (Some 0)")
  case None
  with assms show ?thesis
    by (simp add: get_fields_def Let_def cong: sum.case_cong prod.case_cong)
next
  case (Some d)
  with assms show ?thesis
    by (simp add: get_fields_def Let_def depth_ok_def cong: sum.case_cong prod.case_cong)
qed

lemma get_fields_errors:
  assumes "Meta (ser_class self) = Some m" "model m = Attr mo"
  shows "\<not> depth_ok m \<Longrightarrow> \<exists>msg. get_fields C self = Inl (AssertionError msg)"
    and "depth_ok m \<Longrightarrow> mo = None \<Longrightarrow> get_fields C self = Inr []"
    and "depth_ok m \<Longrightarrow> mo = Some mn \<Longrightarrow> is_abstract_model C mn \<Longrightarrow>
      \<exists>msg. get_fields C self = Inl (ValueError msg)"
proof -
  show "\<exists>msg. get_fields C self = Inl (AssertionError msg)" if "\<not> depth_ok m"
  proof (cases "getattr (depth m) (Some 0)")
    case None
    with that show ?thesis by (simp add: depth_ok_def)
  next
    case (Some d)
    with that assms show ?thesis by (simp add: get_fields_def Let_def depth_ok_def)
  qed
  show "get_fields C self = Inr []" if "depth_ok m" "mo = None"
  proof (cases "getattr (depth m) (Some 0)")
    case None
    with that assms show ?thesis by (simp add: get_fields_def Let_def)
  next
    case (Some d)
    with that assms show ?thesis by (simp add: get_fields_def Let_def depth_ok_def)
  qed
  show "\<exists>msg. get_fields C self = Inl (ValueError msg)"
    if "depth_ok m" "mo = Some mn" "is_abstract_model C mn"
  proof (cases "getattr (depth m) (Some 0)")
    case None
    with that assms show ?thesis by (simp add: get_fields_def Let_def)
  next
    case (Some d)
    with that assms show ?thesis by (simp add: get_fields_def Let_def depth_ok_def)
  qed
qed

lemma get_fields_success:
  assumes "get_fields C self = Inr fs" "Meta (ser_class self) = Some m"
    "model m = Attr (Some mn)"
  shows "depth_ok m \<and> \<not> is_abstract_model C mn \<and> (\<exists>names ek extra.
     get_field_names C self m (declared_fields self) (get_field_info C mn) = Inr names \<and>
     get_extra_kwargs self = Inr ek \<and>
     get_uniqueness_extra_kwargs C mn names ek = Inr (extra, []) \<and>
     build_fields C (declared_fields self) extra (get_field_info C mn) mn
       (getattr (depth m) (Some 0)) (getattr (depth_embedding m) (Some 5)) names [] = Inr fs)"
proof -
  have ok: "depth_ok m"
    using get_fields_errors(1) [OF assms(2,3), of C] assms(1) by auto
  have na: "\<not> is_abstract_model C mn"
    using get_fields_errors(3) [OF assms(2,3) ok refl, of C] assms(1) by auto
  note eq = get_fields_model [OF assms(2,3) ok na]
  obtain names where names:
    "get_field_names C self m (declared_fields self) (get_field_info C mn) = Inr names"
    using assms(1) unfolding eq
    by (cases "get_field_names C self m (declared_fields self) (get_field_info C mn)") auto
  obtain ek where ek: "get_extra_kwargs self = Inr ek"
    using assms(1) names unfolding eq
    by (cases "get_extra_kwargs self") auto
  obtain extra h where extra:
    "get_uniqueness_extra_kwargs C mn names ek = Inr (extra, h)"
    using assms(1) names ek unfolding eq
    by (cases "get_uniqueness_extra_kwargs C mn names ek") auto
  from get_uniqueness_hidden [OF extra] have h: "h = []" .
  have "build_fields C (declared_fields self) extra (get_field_info C mn) mn
       (getattr (depth m) (Some 0)) (getattr (depth_embedding m) (Some 5)) names [] = Inr fs"
    using assms(1) names ek extra h unfolding eq
    by (cases "build_fields C (declared_fields self) extra (get_field_info C mn) mn
       (getattr (depth m) (Some 0)) (getattr (depth_embedding m) (Some 5)) names []")
      (auto simp: dict_update_def)
  with names ek extra h ok na show ?thesis by blast
qed

lemma get_field_names_filtered:
  assumes "get_field_names C self m declared info = Inr names"
  shows "\<exists>super. ModelSerializer_get_field_names C self m declared info = Inr super \<and>
     names = filter (\<lambda>fn. \<not> sublist ''.child'' fn) super"
  using assms by (auto simp: get_field_names_def split: sum.splits)

lemma depth_ok_iff:
  "depth_ok m \<longleftrightarrow>
     depth m = Missing \<or> depth m = Attr None \<or> (\<exists>d. depth m = Attr (Some d) \<and> 0 \<le> d \<and> d \<le> 10)"
  by (cases "depth m") (auto simp: depth_ok_def getattr_def split: option.splits)

text \<open>
  C10. The field names of the serializer never contain \<^verbatim>\<open>.child\<close>:
  \<^verbatim>\<open>get_field_names\<close> returns the superclass's names without those that contain it, so
  no key of the mapping \<^verbatim>\<open>get_fields\<close> returns contains it. The \<^verbatim>\<open>.child\<close> entry of
  the field info is used by \<^verbatim>\<open>build_field\<close> on the compound field, whose \<^verbatim>\<open>child\<close>
  keyword is the field constructed from what is built for the entry.
\<close>

theorem child_names_filtered:
  "(\<forall>names. get_field_names C self m declared info = Inr names \<longrightarrow>
      (\<exists>super. ModelSerializer_get_field_names C self m declared info = Inr super \<and>
         names = filter (\<lambda>fn. \<not> sublist ''.child'' fn) super) \<and>
      (\<forall>n \<in> set names. \<not> sublist ''.child'' n)) \<and>
   (\<forall>fs. get_fields C self = Inr fs \<longrightarrow> (\<forall>n \<in> fst ` set fs. \<not> sublist ''.child'' n)) \<and>
   (\<forall>mf cc ck. map_of (fields_and_pk info) n = Some (Some mf) \<longrightarrow>
      isinstance_mf mf COMPOUND_FIELD_TYPES \<longrightarrow>
      has_key (info_fields info) (n @ ''.child'') \<or> has_key (embedded info) (n @ ''.child'') \<or>
        has_key (references info) (n @ ''.child'') \<longrightarrow>
      build_field C (n @ ''.child'') info mc nd ed = Inr (cc, ck) \<longrightarrow>
      init_field C cc ck = None \<longrightarrow>
      (\<exists>fc kw. build_field C n info mc nd ed = Inr (fc, kw) \<and>
         map_of kw ''child'' = Some (KField (Field cc ck))))"
proof (intro conjI allI impI)
  fix names
  assume names: "get_field_names C self m declared info = Inr names"
  from get_field_names_filtered [OF this]
  show "\<exists>super. ModelSerializer_get_field_names C self m declared info = Inr super \<and>
      names = filter (\<lambda>fn. \<not> sublist ''.child'' fn) super" .
  then show "\<forall>n \<in> set names. \<not> sublist ''.child'' n" by auto
next
  fix fs
  assume fs: "get_fields C self = Inr fs"
  show "\<forall>n \<in> fst ` set fs. \<not> sublist ''.child'' n"
  proof (cases "Meta (ser_class self)")
    case None
    with fs show ?thesis by (simp add: get_fields_def)
  next
    case (Some m')
    show ?thesis
    proof (cases "model m'")
      case Missing
      with fs Some show ?thesis by (simp add: get_fields_def)
    next
      case (Attr mo)
      show ?thesis
      proof (cases mo)
        case None
        have "depth_ok m'"
          using get_fields_errors(1) [OF Some Attr, of C] fs by auto
        from get_fields_errors(2) [OF Some Attr this None, of C] fs have "fs = []" by simp
        then show ?thesis by simp
      next
        case mn: (Some mn)
        with Attr have "model m' = Attr (Some mn)" by simp
        from get_fields_success [OF fs Some this]
        obtain names extra where
          names: "get_field_names C self m' (declared_fields self) (get_field_info C mn) =
            Inr names"
          and b: "build_fields C (declared_fields self) extra (get_field_info C mn) mn
            (getattr (depth m') (Some 0)) (getattr (depth_embedding m') (Some 5)) names [] = Inr fs"
          by blast
        from get_field_names_filtered [OF names]
        have clean: "\<forall>n \<in> set names. \<not> sublist ''.child'' n" by auto
        have "n \<in> set names" if "n \<in> fst ` set fs" for n
        proof (rule ccontr)
          assume "n \<notin> set names"
          with build_fields_result [OF b] have "map_of fs n = None" by simp
          with that show False by (simp add: map_of_eq_None_iff)
        qed
        with clean show ?thesis by blast
      qed
    qed
  qed
next
  fix mf cc ck
  assume mf: "map_of (fields_and_pk info) n = Some (Some mf)"
    and c: "isinstance_mf mf COMPOUND_FIELD_TYPES"
    and e: "has_key (info_fields info) (n @ ''.child'') \<or>
      has_key (embedded info) (n @ ''.child'') \<or> has_key (references info) (n @ ''.child'')"
    and ch: "build_field C (n @ ''.child'') info mc nd ed = Inr (cc, ck)"
    and init: "init_field C cc ck = None"
  have "build_field C n info mc nd ed = build_compound_field C n mf (Some (Field cc ck))"
    using mf c e ch init by (subst build_field.simps) (simp add: instantiate_def)
  moreover from c have "isinstance_mf mf [me_ListField] \<or> isinstance_mf mf [me_DictField]"
    by (simp add: compound_is_list_or_dict)
  ultimately show "\<exists>fc kw. build_field C n info mc nd ed = Inr (fc, kw) \<and>
      map_of kw ''child'' = Some (KField (Field cc ck))"
    by (auto simp: build_compound_field_def update_conv')
qed

theorem child_names_filtered_witness:
  "get_field_names ex_ctx (ex_serializer DocumentSerializer ''Book'' Missing Missing)
      \<lparr>model = Attr (Some ''Book''), depth = Missing, depth_embedding = Missing,
       meta_fields = ALL_FIELDS\<rparr> [] ex_book_info =
     Inr [''id'', ''title'', ''genre'', ''isbn'', ''in_print'', ''tags'', ''author'', ''address'',
          ''extra''] \<and>
   list_all (\<lambda>n. \<not> sublist ''.child'' n)
     [''id'', ''title'', ''genre'', ''isbn'', ''in_print'', ''tags'', ''author'', ''address'',
      ''extra''] \<and>
   (\<exists>fc kw. build_field ex_ctx ''tags'' ex_book_info ''Book'' (Some 0) (Some 5) =
      Inr (fc, kw) \<and>
      map_of kw ''child'' =
        Some (KField (Field (plain drf_CharField) [(''required'', KVal (VBool False))])))"
proof -
  let ?S = "ex_serializer DocumentSerializer ''Book'' Missing Missing"
  let ?m = "\<lparr>model = Attr (Some ''Book''), depth = Missing, depth_embedding = Missing,
       meta_fields = ALL_FIELDS\<rparr>"
  have names: "get_field_names ex_ctx ?S ?m [] ex_book_info =
     Inr [''id'', ''title'', ''genre'', ''isbn'', ''in_print'', ''tags'', ''author'', ''address'',
          ''extra'']"
    by code_simp
  have tags: "map_of (fields_and_pk ex_book_info) ''tags'' = Some (Some ex_tags)"
    "isinstance_mf ex_tags COMPOUND_FIELD_TYPES"
    "has_key (info_fields ex_book_info) (''tags'' @ ''.child'') \<or>
     has_key (embedded ex_book_info) (''tags'' @ ''.child'') \<or>
     has_key (references ex_book_info) (''tags'' @ ''.child'')"
    "build_field ex_ctx (''tags'' @ ''.child'') ex_book_info ''Book'' (Some 0) (Some 5) =
       Inr (plain drf_CharField, [(''required'', KVal (VBool False))])"
    "init_field ex_ctx (plain drf_CharField) [(''required'', KVal (VBool False))] = None"
    by code_simp+
  note c = child_names_filtered [where self = ?S and m = ?m and declared = "[]"
      and info = ex_book_info and C = ex_ctx and n = "''tags''" and mc = "''Book''"
      and nd = "Some 0" and ed = "Some 5"]
  from c [THEN conjunct1, rule_format, OF names, THEN conjunct2]
    c [THEN conjunct2, THEN conjunct2, rule_format, OF tags] names
  show ?thesis unfolding list_all_iff by (intro conjI)
qed
text \<open>
  C6, as stated, fails in its last clause: past the assertions, with a model that is
  not abstract, \<^verbatim>\<open>get_fields\<close> need not return a mapping. The serializer of the book
  model lists the fields \<^verbatim>\<open>title\<close> and \<^verbatim>\<open>price\<close>, and the model has no \<^verbatim>\<open>price\<close>:
  \<^verbatim>\<open>build_field\<close> raises \<^verbatim>\<open>ImproperlyConfigured\<close> for it, on purpose, and so does
  \<^verbatim>\<open>get_fields\<close>.
\<close>

theorem get_fields_counterexample:
  "Meta (ser_class (ex_listing ''Book'' [''title'', ''price''] [])) =
     Some \<lparr>model = Attr (Some ''Book''), depth = Missing, depth_embedding = Missing,
           meta_fields = Names [''title'', ''price'']\<rparr> \<and>
   \<not> is_abstract_model ex_ctx ''Book'' \<and>
   get_fields ex_ctx (ex_listing ''Book'' [''title'', ''price''] []) =
     Inl (ImproperlyConfigured ''Field name `price` is not valid for model `Book`.'')"
  by code_simp

text \<open>
  C6, amended. \<^verbatim>\<open>get_fields\<close> raises \<^verbatim>\<open>AssertionError\<close> when the class has no \<^verbatim>\<open>Meta\<close>,
  when \<^verbatim>\<open>Meta\<close> has no \<^verbatim>\<open>model\<close>, and when \<^verbatim>\<open>depth\<close> is a number below 0 or above 10.
  Past these assertions it returns the empty mapping when \<^verbatim>\<open>Meta.model\<close> is \<^verbatim>\<open>None\<close>
  and raises \<^verbatim>\<open>ValueError\<close> when the model is abstract. Otherwise it returns exactly
  when the steps it calls return: \<^verbatim>\<open>get_field_names\<close>, \<^verbatim>\<open>get_extra_kwargs\<close>,
  \<^verbatim>\<open>get_uniqueness_extra_kwargs\<close>, and for each name that is not declared
  \<^verbatim>\<open>build_field\<close> and the constructor of the class built. The mapping it returns then
  has the derived field names as its keys, each once, and under each name the
  declared field of that name if there is one, and if not the field built by
  \<^verbatim>\<open>build_field\<close> with the extra kwargs included.
\<close>

theorem get_fields_cases:
  "(Meta (ser_class self) = None \<longrightarrow> (\<exists>msg. get_fields C self = Inl (AssertionError msg))) \<and>
   (\<forall>m. Meta (ser_class self) = Some m \<longrightarrow> model m = Missing \<longrightarrow>
      (\<exists>msg. get_fields C self = Inl (AssertionError msg))) \<and>
   (\<forall>m d. Meta (ser_class self) = Some m \<longrightarrow> depth m = Attr (Some d) \<longrightarrow> d < 0 \<or> 10 < d \<longrightarrow>
      (\<exists>msg. get_fields C self = Inl (AssertionError msg))) \<and>
   (\<forall>m. Meta (ser_class self) = Some m \<longrightarrow> model m = Attr None \<longrightarrow>
      depth m = Missing \<or> depth m = Attr None \<or>
        (\<exists>d. depth m = Attr (Some d) \<and> 0 \<le> d \<and> d \<le> 10) \<longrightarrow>
      get_fields C self = Inr []) \<and>
   (\<forall>m mn. Meta (ser_class self) = Some m \<longrightarrow> model m = Attr (Some mn) \<longrightarrow>
      depth m = Missing \<or> depth m = Attr None \<or>
        (\<exists>d. depth m = Attr (Some d) \<and> 0 \<le> d \<and> d \<le> 10) \<longrightarrow>
      is_abstract_model C mn \<longrightarrow>
      (\<exists>msg. get_fields C self = Inl (ValueError msg))) \<and>
   (\<forall>m mn names ek extra hidden. Meta (ser_class self) = Some m \<longrightarrow>
      model m = Attr (Some mn) \<longrightarrow>
      depth m = Missing \<or> depth m = Attr None \<or>
        (\<exists>d. depth m = Attr (Some d) \<and> 0 \<le> d \<and> d \<le> 10) \<longrightarrow>
      \<not> is_abstract_model C mn \<longrightarrow>
      get_field_names C self m (declared_fields self) (get_field_info C mn) = Inr names \<longrightarrow>
      get_extra_kwargs self = Inr ek \<longrightarrow>
      get_uniqueness_extra_kwargs C mn names ek = Inr (extra, hidden) \<longrightarrow>
      (\<forall>n \<in> set names. map_of (declared_fields self) n = None \<longrightarrow>
         (\<exists>fc kw. build_field C n (get_field_info C mn) mn (getattr (depth m) (Some 0))
              (getattr (depth_embedding m) (Some 5)) = Inr (fc, kw) \<and>
            init_field C fc (include_extra_kwargs C kw
              (case map_of extra n of None \<Rightarrow> [] | Some k \<Rightarrow> k)) = None)) \<longrightarrow>
      (\<exists>fs. get_fields C self = Inr fs \<and>
         fst ` set fs = set names \<and> distinct (map fst fs) \<and>
         (\<forall>n \<in> set names.
            (\<forall>f. map_of (declared_fields self) n = Some f \<longrightarrow> map_of fs n = Some f) \<and>
            (map_of (declared_fields self) n = None \<longrightarrow>
               (\<exists>fc kw. build_field C n (get_field_info C mn) mn (getattr (depth m) (Some 0))
                    (getattr (depth_embedding m) (Some 5)) = Inr (fc, kw) \<and>
                  map_of fs n = Some (Field fc (include_extra_kwargs C kw
                    (case map_of extra n of None \<Rightarrow> [] | Some k \<Rightarrow> k)))))))) \<and>
   (\<forall>m mn fs. Meta (ser_class self) = Some m \<longrightarrow> model m = Attr (Some mn) \<longrightarrow>
      get_fields C self = Inr fs \<longrightarrow>
      (\<exists>names ek extra.
         get_field_names C self m (declared_fields self) (get_field_info C mn) = Inr names \<and>
         get_extra_kwargs self = Inr ek \<and>
         get_uniqueness_extra_kwargs C mn names ek = Inr (extra, []) \<and>
         (\<forall>n \<in> set names. map_of (declared_fields self) n = None \<longrightarrow>
            (\<exists>fc kw. build_field C n (get_field_info C mn) mn (getattr (depth m) (Some 0))
                 (getattr (depth_embedding m) (Some 5)) = Inr (fc, kw) \<and>
               init_field C fc (include_extra_kwargs C kw
                 (case map_of extra n of None \<Rightarrow> [] | Some k \<Rightarrow> k)) = None))))"
proof -
  have found: "(\<forall>f. map_of (declared_fields self) n = Some f \<longrightarrow> v = f) \<and>
      (map_of (declared_fields self) n = None \<longrightarrow>
         (\<exists>fc kw. build_field C n info mn d de = Inr (fc, kw) \<and>
            init_field C fc (include_extra_kwargs C kw
              (case map_of extra n of None \<Rightarrow> [] | Some k \<Rightarrow> k)) = None \<and>
            v = Field fc (include_extra_kwargs C kw
              (case map_of extra n of None \<Rightarrow> [] | Some k \<Rightarrow> k))))"
    if good: "good_field C (declared_fields self) extra info mn d de n v"
    for n v extra info mn d de
  proof (cases "map_of (declared_fields self) n")
    case None
    show ?thesis
    proof (cases "build_field C n info mn d de")
      case (Inl e)
      with None good show ?thesis by (simp add: good_field_def)
    next
      case (Inr b)
      obtain fc kw where b: "b = (fc, kw)" by (cases b)
      let ?kw = "include_extra_kwargs C kw
        (case map_of extra n of None \<Rightarrow> [] | Some k \<Rightarrow> k)"
      from None Inr b good have i: "instantiate C fc ?kw = Inr v"
        by (simp add: good_field_def)
      then have "init_field C fc ?kw = None \<and> v = Field fc ?kw"
        by (cases "init_field C fc ?kw") (simp_all add: instantiate_def)
      with None Inr b show ?thesis by simp
    qed
  next
    case (Some f)
    with good show ?thesis by (simp add: good_field_def)
  qed
  have built: "fst ` set fs = set names \<and> distinct (map fst fs) \<and>
      (\<forall>n \<in> set names. \<exists>v. map_of fs n = Some v \<and>
         good_field C (declared_fields self) extra info mn d de n v)"
    if b: "build_fields C (declared_fields self) extra info mn d de names [] = Inr fs"
    for fs extra info mn d de names
  proof -
    note r = build_fields_result [OF b]
    from r have dist: "distinct (map fst fs)" by simp
    from r have out: "map_of fs n = None" if "n \<notin> set names" for n
      using that by simp
    from r have inn: "\<forall>n \<in> set names. \<exists>v. map_of fs n = Some v \<and>
        good_field C (declared_fields self) extra info mn d de n v"
      by (rule conjunct2 [THEN conjunct2])
    have keys: "fst ` set fs = set names"
    proof (intro set_eqI iffI)
      fix n
      assume "n \<in> fst ` set fs"
      then have "map_of fs n \<noteq> None" by (simp add: map_of_eq_None_iff)
      with out [of n] show "n \<in> set names" by blast
    next
      fix n
      assume "n \<in> set names"
      with inn have "map_of fs n \<noteq> None" by auto
      then show "n \<in> fst ` set fs" by (simp add: map_of_eq_None_iff)
    qed
    from keys dist inn show ?thesis by (intro conjI)
  qed
  show ?thesis
  proof (intro conjI allI impI)
    assume "Meta (ser_class self) = None"
    then show "\<exists>msg. get_fields C self = Inl (AssertionError msg)"
      by (simp add: get_fields_def)
  next
    fix m
    assume "Meta (ser_class self) = Some m" "model m = Missing"
    then show "\<exists>msg. get_fields C self = Inl (AssertionError msg)"
      by (simp add: get_fields_def)
  next
    fix m d
    assume m: "Meta (ser_class self) = Some m" and d: "depth m = Attr (Some d)" "d < 0 \<or> 10 < d"
    show "\<exists>msg. get_fields C self = Inl (AssertionError msg)"
    proof (cases "model m")
      case Missing
      with m show ?thesis by (simp add: get_fields_def)
    next
      case (Attr mo)
      from d have "\<not> depth_ok m" by (auto simp: depth_ok_iff)
      then show ?thesis by (rule get_fields_errors(1) [OF m Attr])
    qed
  next
    fix m
    assume m: "Meta (ser_class self) = Some m" "model m = Attr None"
      and "depth m = Missing \<or> depth m = Attr None \<or>
          (\<exists>d. depth m = Attr (Some d) \<and> 0 \<le> d \<and> d \<le> 10)"
    then have "depth_ok m" by (simp add: depth_ok_iff)
    then show "get_fields C self = Inr []" by (rule get_fields_errors(2) [OF m]) simp
  next
    fix m mn
    assume m: "Meta (ser_class self) = Some m" "model m = Attr (Some mn)"
      and "depth m = Missing \<or> depth m = Attr None \<or>
          (\<exists>d. depth m = Attr (Some d) \<and> 0 \<le> d \<and> d \<le> 10)"
      and a: "is_abstract_model C mn"
    then have "depth_ok m" by (simp add: depth_ok_iff)
    from get_fields_errors(3) [OF m this refl a]
    show "\<exists>msg. get_fields C self = Inl (ValueError msg)" .
  next
    fix m :: meta and mn names ek extra hidden
    let ?info = "get_field_info C mn"
    let ?d = "getattr (depth m) (Some 0)"
    let ?de = "getattr (depth_embedding m) (Some 5)"
    assume m: "Meta (ser_class self) = Some m" "model m = Attr (Some mn)"
      and "depth m = Missing \<or> depth m = Attr None \<or>
          (\<exists>d. depth m = Attr (Some d) \<and> 0 \<le> d \<and> d \<le> 10)"
      and na: "\<not> is_abstract_model C mn"
      and names: "get_field_names C self m (declared_fields self) ?info = Inr names"
      and ek: "get_extra_kwargs self = Inr ek"
      and extra: "get_uniqueness_extra_kwargs C mn names ek = Inr (extra, hidden)"
      and each: "\<forall>n \<in> set names. map_of (declared_fields self) n = None \<longrightarrow>
         (\<exists>fc kw. build_field C n ?info mn ?d ?de = Inr (fc, kw) \<and>
            init_field C fc (include_extra_kwargs C kw
              (case map_of extra n of None \<Rightarrow> [] | Some k \<Rightarrow> k)) = None)"
    then have ok: "depth_ok m" by (simp add: depth_ok_iff)
    from get_uniqueness_hidden [OF extra] have h: "hidden = []" .
    from build_fields_returns [OF each] obtain fs where
      b: "build_fields C (declared_fields self) extra ?info mn ?d ?de names [] = Inr fs"
      by blast
    then have gf: "get_fields C self = Inr fs"
      unfolding get_fields_model [OF m ok na] names sum.case ek extra prod.case h
      by (simp add: dict_update_def)
    note keys = built [OF b, THEN conjunct1]
      and dist = built [OF b, THEN conjunct2, THEN conjunct1]
      and inn = built [OF b, THEN conjunct2, THEN conjunct2]
    have all: "\<forall>n \<in> set names.
        (\<forall>f. map_of (declared_fields self) n = Some f \<longrightarrow> map_of fs n = Some f) \<and>
        (map_of (declared_fields self) n = None \<longrightarrow>
           (\<exists>fc kw. build_field C n ?info mn ?d ?de = Inr (fc, kw) \<and>
              map_of fs n = Some (Field fc (include_extra_kwargs C kw
                (case map_of extra n of None \<Rightarrow> [] | Some k \<Rightarrow> k)))))"
    proof
      fix n
      assume "n \<in> set names"
      with inn obtain v where v: "map_of fs n = Some v"
        and g: "good_field C (declared_fields self) extra ?info mn ?d ?de n v"
        by blast
      from found [OF g] v
      show "(\<forall>f. map_of (declared_fields self) n = Some f \<longrightarrow> map_of fs n = Some f) \<and>
        (map_of (declared_fields self) n = None \<longrightarrow>
           (\<exists>fc kw. build_field C n ?info mn ?d ?de = Inr (fc, kw) \<and>
              map_of fs n = Some (Field fc (include_extra_kwargs C kw
                (case map_of extra n of None \<Rightarrow> [] | Some k \<Rightarrow> k)))))"
        by auto
    qed
    from gf keys dist all
    show "\<exists>fs. get_fields C self = Inr fs \<and>
        fst ` set fs = set names \<and> distinct (map fst fs) \<and>
        (\<forall>n \<in> set names.
           (\<forall>f. map_of (declared_fields self) n = Some f \<longrightarrow> map_of fs n = Some f) \<and>
           (map_of (declared_fields self) n = None \<longrightarrow>
              (\<exists>fc kw. build_field C n ?info mn ?d ?de = Inr (fc, kw) \<and>
                 map_of fs n = Some (Field fc (include_extra_kwargs C kw
                   (case map_of extra n of None \<Rightarrow> [] | Some k \<Rightarrow> k))))))"
      by (intro exI [of _ fs] conjI)
  next
    fix m :: meta and mn fs
    let ?info = "get_field_info C mn"
    let ?d = "getattr (depth m) (Some 0)"
    let ?de = "getattr (depth_embedding m) (Some 5)"
    assume m: "Meta (ser_class self) = Some m" "model m = Attr (Some mn)"
      and fs: "get_fields C self = Inr fs"
    from get_fields_success [OF fs m] obtain names ek extra where
      names: "get_field_names C self m (declared_fields self) ?info = Inr names"
      and ek: "get_extra_kwargs self = Inr ek"
      and extra: "get_uniqueness_extra_kwargs C mn names ek = Inr (extra, [])"
      and b: "build_fields C (declared_fields self) extra ?info mn ?d ?de names [] = Inr fs"
      by blast
    note inn = built [OF b, THEN conjunct2, THEN conjunct2]
    have all: "\<forall>n \<in> set names. map_of (declared_fields self) n = None \<longrightarrow>
        (\<exists>fc kw. build_field C n ?info mn ?d ?de = Inr (fc, kw) \<and>
           init_field C fc (include_extra_kwargs C kw
             (case map_of extra n of None \<Rightarrow> [] | Some k \<Rightarrow> k)) = None)"
    proof (intro ballI impI)
      fix n
      assume "n \<in> set names" and none: "map_of (declared_fields self) n = None"
      with inn obtain v where
        g: "good_field C (declared_fields self) extra ?info mn ?d ?de n v"
        by blast
      from found [OF g] none
      show "\<exists>fc kw. build_field C n ?info mn ?d ?de = Inr (fc, kw) \<and>
           init_field C fc (include_extra_kwargs C kw
             (case map_of extra n of None \<Rightarrow> [] | Some k \<Rightarrow> k)) = None"
        by auto
    qed
    from names ek extra all
    show "\<exists>names ek extra.
        get_field_names C self m (declared_fields self) ?info = Inr names \<and>
        get_extra_kwargs self = Inr ek \<and>
        get_uniqueness_extra_kwargs C mn names ek = Inr (extra, []) \<and>
        (\<forall>n \<in> set names. map_of (declared_fields self) n = None \<longrightarrow>
           (\<exists>fc kw. build_field C n ?info mn ?d ?de = Inr (fc, kw) \<and>
              init_field C fc (include_extra_kwargs C kw
                (case map_of extra n of None \<Rightarrow> [] | Some k \<Rightarrow> k)) = None))"
      by (intro exI [of _ names] exI [of _ ek] exI [of _ extra] conjI)
  qed
qed

theorem get_fields_cases_witness:
  "(\<exists>msg. get_fields ex_ctx
      \<lparr>ser_class = plain DocumentSerializer, declared_fields = [], get_extra_kwargs = Inr []\<rparr> =
      Inl (AssertionError msg)) \<and>
   (\<exists>msg. get_fields ex_ctx (ex_serializer DocumentSerializer ''Book'' (Attr (Some 11)) Missing) =
      Inl (AssertionError msg)) \<and>
   (\<exists>msg. get_fields ex_ctx (ex_serializer DocumentSerializer ''Base'' Missing Missing) =
      Inl (ValueError msg)) \<and>
   (\<exists>fs. get_fields ex_ctx
        (ex_listing ''Author'' [''id'', ''name'']
           [(''name'', Field (plain drf_CharField) [(''max_length'', KVal (VInt 5))])]) = Inr fs \<and>
      fst ` set fs = {''id'', ''name''} \<and> distinct (map fst fs) \<and>
      map_of fs ''name'' = Some (Field (plain drf_CharField) [(''max_length'', KVal (VInt 5))]) \<and>
      map_of fs ''id'' =
        Some (Field (plain (ex_drfm ''ObjectIdField'')) [(''required'', KVal (VBool False))]))"
proof -
  let ?decl = "Field (plain drf_CharField) [(''max_length'', KVal (VInt 5))]"
  let ?A = "ex_listing ''Author'' [''id'', ''name''] [(''name'', ?decl)]"
  let ?mA = "\<lparr>model = Attr (Some ''Author''), depth = Missing, depth_embedding = Missing,
    meta_fields = Names [''id'', ''name'']\<rparr>"
  let ?m11 = "\<lparr>model = Attr (Some ''Book''), depth = Attr (Some 11), depth_embedding = Missing,
    meta_fields = ALL_FIELDS\<rparr>"
  let ?mB = "\<lparr>model = Attr (Some ''Base''), depth = Missing, depth_embedding = Missing,
    meta_fields = ALL_FIELDS\<rparr>"
  let ?id = "Field (plain (ex_drfm ''ObjectIdField'')) [(''required'', KVal (VBool False))]"
  have 1: "\<exists>msg. get_fields ex_ctx
      \<lparr>ser_class = plain DocumentSerializer, declared_fields = [], get_extra_kwargs = Inr []\<rparr> =
      Inl (AssertionError msg)"
    by (rule get_fields_cases [THEN conjunct1, rule_format]) (simp add: plain_def)
  have m11: "Meta (ser_class (ex_serializer DocumentSerializer ''Book'' (Attr (Some 11)) Missing)) =
      Some ?m11" "depth ?m11 = Attr (Some 11)" "(11::int) < 0 \<or> (10::int) < 11"
    by (simp_all add: ex_serializer_def)
  have 2: "\<exists>msg. get_fields ex_ctx
      (ex_serializer DocumentSerializer ''Book'' (Attr (Some 11)) Missing) =
      Inl (AssertionError msg)"
    by (rule get_fields_cases [THEN conjunct2, THEN conjunct2, THEN conjunct1, rule_format,
          OF m11])
  have mB: "Meta (ser_class (ex_serializer DocumentSerializer ''Base'' Missing Missing)) = Some ?mB"
    "model ?mB = Attr (Some ''Base'')"
    "depth ?mB = Missing \<or> depth ?mB = Attr None \<or>
       (\<exists>d. depth ?mB = Attr (Some d) \<and> 0 \<le> d \<and> d \<le> 10)"
    "is_abstract_model ex_ctx ''Base''"
    by (simp_all add: ex_serializer_def ex_ctx_def)
  have 3: "\<exists>msg. get_fields ex_ctx (ex_serializer DocumentSerializer ''Base'' Missing Missing) =
      Inl (ValueError msg)"
    by (rule get_fields_cases [THEN conjunct2, THEN conjunct2, THEN conjunct2, THEN conjunct2,
          THEN conjunct1, rule_format, OF mB])
  have mA: "Meta (ser_class ?A) = Some ?mA" "model ?mA = Attr (Some ''Author'')"
    "depth ?mA = Missing \<or> depth ?mA = Attr None \<or>
       (\<exists>d. depth ?mA = Attr (Some d) \<and> 0 \<le> d \<and> d \<le> 10)"
    "\<not> is_abstract_model ex_ctx ''Author''"
    by (simp_all add: ex_listing_def ex_ctx_def)
  have names: "get_field_names ex_ctx ?A ?mA (declared_fields ?A)
      (get_field_info ex_ctx ''Author'') = Inr [''id'', ''name'']"
    by code_simp
  have ek: "get_extra_kwargs ?A = Inr []"
    by (simp add: ex_listing_def)
  have uniq: "get_uniqueness_extra_kwargs ex_ctx ''Author'' [''id'', ''name''] [] = Inr ([], [])"
    by code_simp
  have decl: "map_of (declared_fields ?A) ''name'' = Some ?decl"
    "map_of (declared_fields ?A) ''id'' = None"
    by (simp_all add: ex_listing_def)
  have id: "build_field ex_ctx ''id'' (get_field_info ex_ctx ''Author'') ''Author''
      (getattr (depth ?mA) (Some 0)) (getattr (depth_embedding ?mA) (Some 5)) =
      Inr (plain (ex_drfm ''ObjectIdField''), [(''required'', KVal (VBool False))])"
    "include_extra_kwargs ex_ctx [(''required'', KVal (VBool False))]
       (case map_of [] ''id'' of None \<Rightarrow> [] | Some k \<Rightarrow> k) = [(''required'', KVal (VBool False))]"
    "init_field ex_ctx (plain (ex_drfm ''ObjectIdField'')) [(''required'', KVal (VBool False))] =
       None"
    by code_simp+
  have each: "\<forall>n \<in> set [''id'', ''name'']. map_of (declared_fields ?A) n = None \<longrightarrow>
      (\<exists>fc kw. build_field ex_ctx n (get_field_info ex_ctx ''Author'') ''Author''
           (getattr (depth ?mA) (Some 0)) (getattr (depth_embedding ?mA) (Some 5)) =
           Inr (fc, kw) \<and>
         init_field ex_ctx fc (include_extra_kwargs ex_ctx kw
           (case map_of [] n of None \<Rightarrow> [] | Some k \<Rightarrow> k)) = None)"
    using decl id by simp
  from get_fields_cases [THEN conjunct2, THEN conjunct2, THEN conjunct2, THEN conjunct2,
      THEN conjunct2, THEN conjunct1, rule_format, OF mA names ek uniq each [rule_format]]
  obtain fs where fs: "get_fields ex_ctx ?A = Inr fs"
    and keys: "fst ` set fs = set [''id'', ''name'']" and dist: "distinct (map fst fs)"
    and all: "\<forall>n \<in> set [''id'', ''name''].
      (\<forall>f. map_of (declared_fields ?A) n = Some f \<longrightarrow> map_of fs n = Some f) \<and>
      (map_of (declared_fields ?A) n = None \<longrightarrow>
         (\<exists>fc kw. build_field ex_ctx n (get_field_info ex_ctx ''Author'') ''Author''
              (getattr (depth ?mA) (Some 0)) (getattr (depth_embedding ?mA) (Some 5)) =
              Inr (fc, kw) \<and>
            map_of fs n = Some (Field fc (include_extra_kwargs ex_ctx kw
              (case map_of [] n of None \<Rightarrow> [] | Some k \<Rightarrow> k)))))"
    by blast
  from all decl(1) have name: "map_of fs ''name'' = Some ?decl" by simp
  from all decl(2) obtain fc kw where
    "build_field ex_ctx ''id'' (get_field_info ex_ctx ''Author'') ''Author''
       (getattr (depth ?mA) (Some 0)) (getattr (depth_embedding ?mA) (Some 5)) = Inr (fc, kw)"
    "map_of fs ''id'' = Some (Field fc (include_extra_kwargs ex_ctx kw
       (case map_of [] ''id'' of None \<Rightarrow> [] | Some k \<Rightarrow> k)))"
    by auto
  with id(1,2) have idf: "map_of fs ''id'' = Some ?id" by simp
  from keys have keys': "fst ` set fs = {''id'', ''name''}" by simp
  from fs keys' dist name idf
  have 4: "\<exists>fs. get_fields ex_ctx ?A = Inr fs \<and>
      fst ` set fs = {''id'', ''name''} \<and> distinct (map fst fs) \<and>
      map_of fs ''name'' = Some ?decl \<and> map_of fs ''id'' = Some ?id"
    by (intro exI [of _ fs] conjI)
  from 1 2 3 4 show ?thesis by (intro conjI)
qed

subsection \<open>The depth budget\<close>

lemma nested_depth_decreases:
  "(build_nested_reference_field C n r (Some d) = Inr (fc, kw) \<longrightarrow>
      (\<exists>m. Meta fc = Some m \<and> depth m = Attr (Some (d - 1)) \<and> depth_embedding m = Missing \<and>
         model m = Attr (related_model r)) \<and> issubclass (cls fc) DocumentSerializer) \<and>
   (build_nested_embedded_field C n r (Some e) = Inr (fc, kw) \<longrightarrow>
      (\<exists>m. Meta fc = Some m \<and> depth_embedding m = Attr (Some (e - 1)) \<and> depth m = Missing \<and>
         model m = Attr (related_model r)) \<and> issubclass (cls fc) EmbeddedDocumentSerializer) \<and>
   build_reference_field C n r nd =
     Inr (plain (if related_model r = None then serializer_reference_generic C
                 else serializer_reference_field C),
          if related_model r = None \<and>
             \<not> issubclass (serializer_reference_generic C) (drfm_DocumentField C)
          then pop ''model_field'' (get_relation_kwargs C n r)
          else get_relation_kwargs C n r) \<and>
   (\<exists>kw'. build_bottom_embedded_field C n r ed = Inr (plain drf_HiddenField, kw') \<and>
      map_of kw' ''default'' = Some (KVal VNone))"
proof -
  have 1: "issubclass \<lparr>cmodule = ''rest_framework_mongoengine.serializers'',
      cname = ''NestedSerializer'', bases = mro DocumentSerializer\<rparr> DocumentSerializer"
    by (simp add: issubclass_def mro_def)
  have 2: "issubclass \<lparr>cmodule = ''rest_framework_mongoengine.serializers'',
      cname = ''EmbeddedSerializer'', bases = mro EmbeddedDocumentSerializer\<rparr>
      EmbeddedDocumentSerializer"
    by (simp add: issubclass_def mro_def)
  show ?thesis
    using 1 2
    by (auto simp: build_nested_reference_field_def build_nested_embedded_field_def
        build_reference_field_def build_bottom_embedded_field_def
        serializer_embedded_bottom_def update_conv')
qed

lemma ex_node_build_field:
  assumes "e \<noteq> 0"
  shows "build_field ex_ctx ''next'' ex_node_info ''Node'' (Some 0) (Some e) =
     Inr (ex_node_class (e - 1), [])"
proof -
  let ?r = "ex_rel ''Node'' ''next'' ''EmbeddedDocumentField'' (Some ''Node'')"
  have facts: "map_of (fields_and_pk ex_node_info) ''next'' = None"
    "map_of (references ex_node_info) ''next'' = None"
    "map_of (embedded ex_node_info) ''next'' = Some ?r"
    "related_model ?r = Some ''Node''"
    "get_nested_embedded_kwargs ex_ctx ''next'' ?r = []"
    by code_simp+
  show ?thesis
    using assms facts
    by (subst build_field.simps)
      (simp add: depth_truthy_def build_nested_embedded_field_def ex_node_class_def)
qed

lemma ex_node_get_fields:
  assumes "e \<noteq> 0"
  shows "get_fields ex_ctx (nested_serializer (Field (ex_node_class e) kw)) =
     Inr [(''next'', Field (ex_node_class (e - 1)) [])]"
proof -
  let ?S = "nested_serializer (Field (ex_node_class e) kw)"
  let ?m = "\<lparr>model = Attr (Some ''Node''), depth = Missing,
    depth_embedding = Attr (Some e), meta_fields = ALL_FIELDS\<rparr>"
  have M: "Meta (ser_class ?S) = Some ?m" "model ?m = Attr (Some ''Node'')"
    by (simp_all add: nested_serializer_def ex_node_class_def)
  have ok: "depth_ok ?m" by (simp add: depth_ok_def getattr_def)
  have na: "\<not> is_abstract_model ex_ctx ''Node''" by (simp add: ex_ctx_def)
  have info: "get_field_info ex_ctx ''Node'' = ex_node_info" by (simp add: ex_ctx_def)
  have emb: "issubclass (cls (ser_class ?S)) EmbeddedDocumentSerializer"
    by (simp add: nested_serializer_def ex_node_class_def issubclass_def mro_def)
  have clean: "\<not> sublist ''.child'' ''next''" by code_simp
  have names: "get_field_names ex_ctx ?S ?m [] ex_node_info = Inr [''next'']"
    using emb clean
    by (simp add: get_field_names_def ModelSerializer_get_field_names_def
        get_default_field_names_def ex_node_info_def ex_ctx_def ex_get_field_names_def)
  have uniq: "get_uniqueness_extra_kwargs ex_ctx ''Node'' [''next''] [] = Inr ([], [])"
    by code_simp
  have inc: "include_extra_kwargs ex_ctx [] [] = []" by code_simp
  have decl: "declared_fields ?S = []" "get_extra_kwargs ?S = Inr []"
    by (simp_all add: nested_serializer_def)
  have init: "instantiate ex_ctx (ex_node_class (e - 1)) [] = Inr (Field (ex_node_class (e - 1)) [])"
    by (simp add: instantiate_def ex_ctx_def ex_init_field_def kw_true_def has_key_def)
  have bf: "build_fields ex_ctx [] [] ex_node_info ''Node'' (Some 0) (Some e) [''next''] [] =
      Inr [(''next'', Field (ex_node_class (e - 1)) [])]"
    by (simp add: ex_node_build_field [OF assms] inc init)
  have de: "getattr (depth ?m) (Some 0) = Some 0" "getattr (depth_embedding ?m) (Some 5) = Some e"
    by (simp_all add: getattr_def)
  show ?thesis
    unfolding get_fields_model [OF M ok na] info decl names de sum.case uniq prod.case bf
    by (simp add: dict_update_def)
qed

lemma ex_node_expand:
  assumes "e \<noteq> 0"
  shows "expand (Suc n) ex_ctx (Field (ex_node_class e) kw) =
     (case expand n ex_ctx (Field (ex_node_class (e - 1)) []) of
        None \<Rightarrow> None
      | Some (Inl x) \<Rightarrow> Some (Inl x)
      | Some (Inr t) \<Rightarrow> Some (Inr (FTree (ex_node_class e) [(''next'', t)])))"
proof -
  have ser: "issubclass (cls (ex_node_class e)) DocumentSerializer"
    by (simp add: ex_node_class_def issubclass_def mro_def EmbeddedDocumentSerializer_def)
  show ?thesis
    by (simp add: ser ex_node_get_fields [OF assms] split: option.splits sum.splits)
qed

lemma ex_node_never_finishes:
  "e < 0 \<Longrightarrow> expand n ex_ctx (Field (ex_node_class e) kw) = None"
proof (induction n arbitrary: e kw)
  case 0
  show ?case by simp
next
  case (Suc n)
  from Suc.prems have "e \<noteq> 0" "e - 1 < 0" by simp_all
  from ex_node_expand [OF \<open>e \<noteq> 0\<close>] Suc.IH [OF \<open>e - 1 < 0\<close>]
  show ?case by simp
qed

text \<open>
  C3 holds step by step and fails as a whole. Each nested serializer is built with
  its depth one less and a depth of \<^verbatim>\<open>0\<close> builds none (\<open>nested_depth_decreases\<close> and
  the dispatch of \<^verbatim>\<open>build_field\<close>), but \<^verbatim>\<open>get_fields\<close> asserts only that \<^verbatim>\<open>depth\<close>
  is not negative: \<^verbatim>\<open>depth_embedding\<close> may be. For a document that embeds a
  self-embedding node, with \<^verbatim>\<open>depth_embedding = -1\<close>, the field tree is unfinished at
  every height.
\<close>

theorem field_tree_never_finishes:
  "field_tree n ex_ctx (ex_serializer DocumentSerializer ''Chain'' Missing (Attr (Some (- 1)))) =
     None"
proof -
  have fs: "get_fields ex_ctx (ex_serializer DocumentSerializer ''Chain'' Missing
      (Attr (Some (- 1)))) =
      Inr [(''id'', Field (plain (ex_drfm ''ObjectIdField'')) [(''required'', KVal (VBool False))]),
           (''head'', Field (ex_node_class (- 2)) [])]"
    by code_simp
  have leaf: "expand k ex_ctx
      (Field (plain (ex_drfm ''ObjectIdField'')) [(''required'', KVal (VBool False))]) =
      (case k of 0 \<Rightarrow> None | Suc _ \<Rightarrow> Some (Inr (FTree (plain (ex_drfm ''ObjectIdField'')) [])))"
    for k
  proof (cases k)
    case 0
    then show ?thesis by simp
  next
    case (Suc j)
    have "\<not> issubclass (ex_drfm ''ObjectIdField'') DocumentSerializer" by code_simp
    with Suc show ?thesis by (simp add: plain_def)
  qed
  have "expand n ex_ctx (Field (ex_node_class (- 2)) []) = None"
    by (rule ex_node_never_finishes) simp
  with fs leaf [of n] show ?thesis
    by (cases n) (simp_all add: field_tree_def)
qed

lemma ex_node_finishes:
  "expand (Suc (Suc k)) ex_ctx (Field (ex_node_class (int k)) kw) \<noteq> None"
proof (induction k arbitrary: kw)
  case 0
  have "expand (Suc (Suc 0)) ex_ctx (Field (ex_node_class 0) kw) \<noteq> None"
    by code_simp
  then show ?case by simp
next
  case (Suc k)
  have ne: "int (Suc k) \<noteq> 0" by simp
  have eq: "int (Suc k) - 1 = int k" by simp
  from Suc.IH [of "[]"] obtain r where
    r: "expand (Suc (Suc k)) ex_ctx (Field (ex_node_class (int k)) []) = Some r"
    by blast
  from ex_node_expand [OF ne, of "Suc (Suc k)" kw]
  have "expand (Suc (Suc (Suc k))) ex_ctx (Field (ex_node_class (int (Suc k))) kw) =
      (case r of Inl e \<Rightarrow> Some (Inl e)
       | Inr t \<Rightarrow> Some (Inr (FTree (ex_node_class (int (Suc k))) [(''next'', t)])))"
    unfolding eq r by simp
  then show ?case by (cases r) simp_all
qed
subsection \<open>Uniqueness\<close>

lemma unique_sets_result:
  "unique_sets names idxs uf utf = (uf', utf') \<Longrightarrow>
     set uf' = set uf \<union> {f. \<exists>i \<in> set idxs. f \<in> fst ` set (idx_fields i) \<and>
        fst ` set (idx_fields i) \<subseteq> set names \<and>
        length (remdups (map fst (idx_fields i))) = 1} \<and>
     set utf' = set utf \<union> {f. \<exists>i \<in> set idxs. f \<in> fst ` set (idx_fields i) \<and>
        fst ` set (idx_fields i) \<subseteq> set names \<and>
        length (remdups (map fst (idx_fields i))) \<noteq> 1}"
proof (induction idxs arbitrary: uf utf)
  case Nil
  then show ?case by simp
next
  case (Cons idx rest)
  show ?case
  proof (cases "set (map fst (idx_fields idx)) \<subseteq> set names")
    case False
    with Cons.prems have "unique_sets names rest uf utf = (uf', utf')" by simp
    from Cons.IH [OF this] False show ?thesis by auto
  next
    case True
    show ?thesis
    proof (cases "length (remdups (map fst (idx_fields idx))) = 1")
      case one: True
      with True Cons.prems
      have "unique_sets names rest (List.union uf (remdups (map fst (idx_fields idx)))) utf =
          (uf', utf')"
        by simp
      from Cons.IH [OF this] True one show ?thesis by auto
    next
      case many: False
      with True Cons.prems
      have "unique_sets names rest uf (List.union utf (remdups (map fst (idx_fields idx)))) =
          (uf', utf')"
        by simp
      from Cons.IH [OF this] True many show ?thesis by auto
    qed
  qed
qed

lemma unique_kwargs_result:
  "map_of (unique_kwargs mn uf acc) f =
     (if f \<in> set uf
      then Some [(''required'', KVal (VBool True)),
                 (''validators'', KValidators [UniqueValidator mn])]
      else map_of acc f)"
  by (induction uf arbitrary: acc) (auto simp: update_conv')

lemma unique_kwargs_distinct:
  "distinct (map fst acc) \<Longrightarrow> distinct (map fst (unique_kwargs mn uf acc))"
  by (induction uf arbitrary: acc) (auto simp: distinct_update)

lemma unique_together_kwargs_result:
  "unique_together_kwargs C mn utf acc = Inr r \<Longrightarrow>
     (distinct (map fst acc) \<longrightarrow> distinct (map fst r)) \<and>
     map_of r f =
       (if f \<in> set utf
        then (case map_of (model_fields C mn) f of
                None \<Rightarrow> None
              | Some fld \<Rightarrow>
                  Some (if has_default C fld then [(''default'', KVal (field_default fld))]
                        else [(''required'', KVal (VBool True))]))
        else map_of acc f)"
proof (induction utf arbitrary: acc)
  case Nil
  then show ?case by simp
next
  case (Cons x rest)
  from Cons.prems obtain fld where fld: "map_of (model_fields C mn) x = Some fld"
    by (cases "map_of (model_fields C mn) x") auto
  let ?acc = "AList.update x
      (if has_default C fld then [(''default'', KVal (field_default fld))]
       else [(''required'', KVal (VBool True))]) acc"
  from Cons.prems fld have "unique_together_kwargs C mn rest ?acc = Inr r" by simp
  from Cons.IH [OF this] fld show ?case
    by (auto simp: update_conv' distinct_update)
qed

lemma merge_extra_kwargs_fresh:
  "distinct (map fst u) \<Longrightarrow> fst ` set u \<inter> fst ` set ex = {} \<Longrightarrow>
     merge_extra_kwargs u ex = Inr (ex @ u)"
proof (induction u arbitrary: ex)
  case Nil
  then show ?case by simp
next
  case (Cons kv rest)
  then have fresh: "fst kv \<notin> fst ` set ex" by auto
  then have none: "map_of ex (fst kv) = None" by (simp add: map_of_eq_None_iff)
  have "merge_extra_kwargs rest (ex @ [kv]) = Inr ((ex @ [kv]) @ rest)"
    using Cons.prems by (intro Cons.IH) auto
  with none fresh show ?case by (simp add: update_fresh)
qed

text \<open>
  What \<^verbatim>\<open>get_uniqueness_extra_kwargs\<close> gives a field when the serializer has no
  extra kwargs of its own: a field of a unique index of several fields gets its
  default or \<^verbatim>\<open>required\<close> and nothing else, whether or not it has a unique index to
  itself; only a field of no such index gets \<^verbatim>\<open>required\<close> and the \<^verbatim>\<open>UniqueValidator\<close>
  of its single-field index.
\<close>

lemma uniqueness_extra_kwargs_of_field:
  assumes "get_uniqueness_extra_kwargs C mn names [] = Inr (extra, hidden)"
  shows "map_of extra f =
     (if \<exists>i \<in> set (uniq_indexes C mn). f \<in> fst ` set (idx_fields i) \<and>
           fst ` set (idx_fields i) \<subseteq> set names \<and>
           length (remdups (map fst (idx_fields i))) \<noteq> 1
      then (case map_of (model_fields C mn) f of
              None \<Rightarrow> None
            | Some fld \<Rightarrow>
                Some (if has_default C fld then [(''default'', KVal (field_default fld))]
                      else [(''required'', KVal (VBool True))]))
      else if \<exists>i \<in> set (uniq_indexes C mn). f \<in> fst ` set (idx_fields i) \<and>
           fst ` set (idx_fields i) \<subseteq> set names \<and>
           length (remdups (map fst (idx_fields i))) = 1
      then Some [(''required'', KVal (VBool True)),
                 (''validators'', KValidators [UniqueValidator mn])]
      else None)"
proof -
  obtain uf utf where sets: "unique_sets (remdups names) (uniq_indexes C mn) [] [] = (uf, utf)"
    by (cases "unique_sets (remdups names) (uniq_indexes C mn) [] []") auto
  from assms sets obtain u where
    u: "unique_together_kwargs C mn utf (unique_kwargs mn uf []) = Inr u"
    by (cases "unique_together_kwargs C mn utf (unique_kwargs mn uf [])")
      (auto simp: get_uniqueness_extra_kwargs_def)
  have d0: "distinct (map fst (unique_kwargs mn uf []))"
    by (rule unique_kwargs_distinct) simp
  from unique_together_kwargs_result [OF u, of f] d0
  have du: "distinct (map fst u)" and mu: "map_of u f =
       (if f \<in> set utf
        then (case map_of (model_fields C mn) f of
                None \<Rightarrow> None
              | Some fld \<Rightarrow>
                  Some (if has_default C fld then [(''default'', KVal (field_default fld))]
                        else [(''required'', KVal (VBool True))]))
        else map_of (unique_kwargs mn uf []) f)"
    by simp_all
  from merge_extra_kwargs_fresh [OF du, of "[]"] have "merge_extra_kwargs u [] = Inr u" by simp
  with assms sets u have "extra = u" by (simp add: get_uniqueness_extra_kwargs_def)
  moreover note unique_sets_result [OF sets] mu unique_kwargs_result [of mn uf "[]" f]
  ultimately show ?thesis by auto
qed

lemma unique_together_validators_of:
  assumes "\<not> issubclass (cls (ser_class self)) EmbeddedDocumentSerializer"
    and "get_field_names C self m (declared_fields self) info = Inr names"
  shows "get_unique_together_validators C self m mn info =
     Inr (map (\<lambda>idx. UniqueTogetherValidator mn (map fst (idx_fields idx)))
           (filter (\<lambda>idx. length (idx_fields idx) > 1 \<and>
                       fst ` set (idx_fields idx) \<subseteq> set names)
              (uniq_indexes C mn)))"
  using assms by (simp add: get_unique_together_validators_def)

text \<open>
  C4 fails on the code. The account model has a unique index on \<^verbatim>\<open>email\<close> alone and
  one on \<^verbatim>\<open>tenant\<close> with \<^verbatim>\<open>email\<close>, and the serializer has both fields. The loop over
  \<^verbatim>\<open>unique_together_fields\<close> assigns the entry of \<^verbatim>\<open>email\<close> anew and so drops the
  \<^verbatim>\<open>UniqueValidator\<close> the loop over \<^verbatim>\<open>unique_fields\<close> had put there; \<^verbatim>\<open>login\<close>, unique
  only by itself, keeps its validator.
\<close>

theorem unique_validator_dropped:
  "get_uniqueness_extra_kwargs ex_ctx ''Account'' [''id'', ''email'', ''tenant'', ''login''] [] =
     Inr ([(''email'', [(''required'', KVal (VBool True))]),
           (''login'', [(''required'', KVal (VBool True)),
                        (''validators'', KValidators [UniqueValidator ''Account''])]),
           (''tenant'', [(''required'', KVal (VBool True))])], [])"
  by code_simp
end
